theory Spec2Isabelle
  imports Complex_Main "HOL-Library.AList"
begin

section \<open>JavaScript strings\<close>

text \<open>
  A JavaScript string is a sequence of UTF-16 code units; a code unit is modelled by its
  number. \<open>lit\<close> turns an ASCII literal into such a sequence; code units above
  U+007F are written by number.
\<close>

type_synonym jsstring = "nat list"

definition lit :: "string \<Rightarrow> jsstring" where
  "lit s = map of_char s"

text \<open>The class \<open>\d\<close> (and \<open>[0-9]\<close>) of a regular expression without the unicode flag.\<close>

definition isDigit :: "nat \<Rightarrow> bool" where
  "isDigit c = (48 \<le> c \<and> c \<le> 57)"

text \<open>
  The class \<open>\s\<close>, which is also what \<open>trim()\<close> strips: the white space and
  line terminator code points of ECMAScript.
\<close>

definition isSpace :: "nat \<Rightarrow> bool" where
  "isSpace c = (c = 9 \<or> c = 10 \<or> c = 11 \<or> c = 12 \<or> c = 13 \<or> c = 32 \<or> c = 0xA0
     \<or> c = 0x1680 \<or> (0x2000 \<le> c \<and> c \<le> 0x200A) \<or> c = 0x2028 \<or> c = 0x2029
     \<or> c = 0x202F \<or> c = 0x205F \<or> c = 0x3000 \<or> c = 0xFEFF)"

text \<open>\<^verbatim>\<open>s.trim()\<close>\<close>

definition trim :: "jsstring \<Rightarrow> jsstring" where
  "trim s = rev (dropWhile isSpace (rev (dropWhile isSpace s)))"

text \<open>\<^verbatim>\<open>s.includes(sub)\<close>: \<open>sub\<close> occurs in \<open>s\<close> at some index.\<close>

fun js_includes :: "jsstring \<Rightarrow> jsstring \<Rightarrow> bool" where
  "js_includes [] sub = (sub = [])"
| "js_includes (c # cs) sub = (take (length sub) (c # cs) = sub \<or> js_includes cs sub)"

text \<open>
  \<^verbatim>\<open>s.replace(/[...]/g, '')\<close> for a character class: every code unit of the class is
  removed.
\<close>

definition remove_class :: "(nat \<Rightarrow> bool) \<Rightarrow> jsstring \<Rightarrow> jsstring" where
  "remove_class cls s = filter (\<lambda>c. \<not> cls c) s"

text \<open>
  \<^verbatim>\<open>s.replace(',', '.')\<close> with a string pattern: only the first occurrence is
  replaced.
\<close>

fun replace_first :: "nat \<Rightarrow> nat \<Rightarrow> jsstring \<Rightarrow> jsstring" where
  "replace_first a b [] = []"
| "replace_first a b (c # cs) = (if c = a then b # cs else c # replace_first a b cs)"

text \<open>The decimal digits of a number, as a template literal prints an array index.\<close>

function decimal :: "nat \<Rightarrow> jsstring" where
  "decimal n = (if n < 10 then [48 + n] else decimal (n div 10) @ [48 + n mod 10])"
  by pat_completeness auto
termination
  by (relation "measure id") auto

declare decimal.simps [simp del]

section \<open>Identifier normalization\<close>

text \<open>
  \<^verbatim>\<open>function normalizeCNPJ(raw) { return String(raw || '').replace(/\D/g, ''); }\<close>
  (both Playwright scrapers; the Puppeteer scraper has \<^verbatim>\<open>String(raw)\<close>, the same
  function on strings): every code unit matching \<open>\D\<close> is replaced by nothing.
\<close>

definition normalizeCNPJ :: "jsstring \<Rightarrow> jsstring" where
  "normalizeCNPJ raw = remove_class (\<lambda>c. \<not> isDigit c) raw"

text \<open>
  \<^verbatim>\<open>function sanitizeCNPJ(cnpj) {
    if (!cnpj) return null;
    return String(cnpj).replace(/[^0-9]/g, '');
  }\<close>
  The empty string is falsy, so it yields \<open>null\<close> (\<open>None\<close>).
\<close>

definition sanitizeCNPJ :: "jsstring \<Rightarrow> jsstring option" where
  "sanitizeCNPJ cnpj = (if cnpj = [] then None else Some (remove_class (\<lambda>c. \<not> isDigit c) cnpj))"

section \<open>The dispatcher's cache\<close>

text \<open>
  \<^verbatim>\<open>const cache = new Map(); // key -> { ts, value }\<close>
  A \<open>Map\<close> keeps its keys in insertion order: it is an association list with
  distinct keys, oldest insertion first. \<open>Map.delete\<close> is \<open>AList.delete\<close>;
  \<open>Map.set\<close> is \<open>AList.update\<close> (an existing key keeps its position,
  a new key goes to the end). Times are milliseconds, as \<open>Date.now()\<close> gives them.
\<close>

record 'v entry =
  ts :: int
  e_value :: 'v

type_synonym 'v cache = "(jsstring \<times> 'v entry) list"

definition CACHE_TTL :: int where
  "CACHE_TTL = 1000 * 60 * 10"

definition CACHE_MAX :: nat where
  "CACHE_MAX = 200"

text \<open>
  \<^verbatim>\<open>function getFromCache(key) {
    const entry = cache.get(key);
    if (!entry) return null;
    if (Date.now() - entry.ts > CACHE_TTL) { cache.delete(key); return null; }
    cache.delete(key);
    cache.set(key, entry);
    return entry.value;
  }\<close>
  The first argument is the value of \<open>Date.now()\<close>; the result is the returned value
  (\<open>None\<close> for \<open>null\<close>) and the cache afterwards.
\<close>

definition getFromCache :: "int \<Rightarrow> jsstring \<Rightarrow> 'v cache \<Rightarrow> 'v option \<times> 'v cache" where
  "getFromCache now key cache =
     (case map_of cache key of
        None \<Rightarrow> (None, cache)
      | Some entry \<Rightarrow>
          (if now - ts entry > CACHE_TTL then (None, AList.delete key cache)
           else (Some (e_value entry), AList.update key entry (AList.delete key cache))))"

text \<open>
  \<^verbatim>\<open>function setToCache(key, value) {
    if (cache.size >= CACHE_MAX) {
      const first = cache.keys().next().value;
      cache.delete(first);
    }
    cache.set(key, { ts: Date.now(), value });
  }\<close>
  On an empty map \<open>first\<close> is \<open>undefined\<close> and the delete removes nothing.
\<close>

definition delete_first :: "'v cache \<Rightarrow> 'v cache" where
  "delete_first cache = (case cache of [] \<Rightarrow> [] | (first, _) # _ \<Rightarrow> AList.delete first cache)"

definition setToCache :: "int \<Rightarrow> jsstring \<Rightarrow> 'v \<Rightarrow> 'v cache \<Rightarrow> 'v cache" where
  "setToCache now key v cache =
     AList.update key \<lparr>ts = now, e_value = v\<rparr>
       (if length cache \<ge> CACHE_MAX then delete_first cache else cache)"

section \<open>The dispatcher's request handler\<close>

text \<open>
  The fields \<open>cnpj\<close>, \<open>year\<close> and \<open>month\<close> of a request are used through
  their truthiness and their \<open>String()\<close> only: \<open>None\<close> is a falsy value (absent,
  \<open>null\<close>, \<open>''\<close>, \<open>0\<close>), \<open>Some s\<close> a truthy value whose string is
  \<open>s\<close>.
\<close>

type_synonym field = "jsstring option"

text \<open>
  The field \<open>engine\<close> is used through its truthiness and the strict comparison
  \<^verbatim>\<open>engine === 'playwright'\<close>: it is a falsy value, a non-empty string, or a truthy
  value that is not a string (an array, an object, a number, \<open>true\<close>).
\<close>

datatype selector = Falsy | Str jsstring | NotString

record request =
  rq_cnpj :: field
  rq_year :: field
  rq_month :: field
  rq_noHeadless :: bool
  rq_engine :: selector

text \<open>\<^verbatim>\<open>function makeKey(cnpj, year, month) { return `${cnpj || ''}|${year || ''}|${month || ''}`; }\<close>\<close>

definition or_empty :: "field \<Rightarrow> jsstring" where
  "or_empty f = (case f of None \<Rightarrow> [] | Some s \<Rightarrow> s)"

definition makeKey :: "field \<Rightarrow> field \<Rightarrow> field \<Rightarrow> jsstring" where
  "makeKey cnpj year month = or_empty cnpj @ lit ''|'' @ or_empty year @ lit ''|'' @ or_empty month"

datatype script = SCRAPE_SCRIPT | SCRAPE_PLAYWRIGHT

text \<open>
  What the handler does before it returns: answer 400, answer from the cache, or spawn
  the engine with its arguments, remembering the cache key for the exit callback.
\<close>

datatype 'v step =
    Status400
  | AnswerCached 'v
  | Spawn script "jsstring list" jsstring

text \<open>
  \<^verbatim>\<open>app.post('/scrape', async (req, res) => {
    const { cnpj, year, month, noHeadless } = req.body || {};
    const cnpjRaw = sanitizeCNPJ(cnpj || '');
    if (!cnpjRaw || cnpjRaw.length < 11) return res.status(400).json({ error: ... });
    const engine = (req.body && req.body.engine) || 'puppeteer';
    const script = engine === 'playwright' ? SCRAPE_PLAYWRIGHT : SCRAPE_SCRIPT;
    const args = [script, `--cnpj=${cnpjRaw}`];
    if (year) args.push(`--year=${String(year)}`);
    if (month) args.push(`--month=${String(month)}`);
    if (noHeadless) args.push('--no-headless');
    const key = makeKey(cnpjRaw, year, month);
    const cached = getFromCache(key);
    if (cached) return res.json({ cached: true, result: cached });
    ... spawn(node, args) ...\<close>
  \<open>truthy\<close> is JavaScript's truthiness of a cached value (a parsed JSON document).
\<close>

definition post_scrape ::
    "('v \<Rightarrow> bool) \<Rightarrow> int \<Rightarrow> request \<Rightarrow> 'v cache \<Rightarrow> 'v step \<times> 'v cache" where
  "post_scrape truthy now req cache =
     (case sanitizeCNPJ (or_empty (rq_cnpj req)) of
        None \<Rightarrow> (Status400, cache)
      | Some cnpjRaw \<Rightarrow>
          (if cnpjRaw = [] \<or> length cnpjRaw < 11 then (Status400, cache)
           else
             (let engine = (case rq_engine req of Falsy \<Rightarrow> Str (lit ''puppeteer'') | e \<Rightarrow> e);
                  script = (if engine = Str (lit ''playwright'') then SCRAPE_PLAYWRIGHT else SCRAPE_SCRIPT);
                  args = [lit ''--cnpj='' @ cnpjRaw]
                    @ (case rq_year req of None \<Rightarrow> [] | Some y \<Rightarrow> [lit ''--year='' @ y])
                    @ (case rq_month req of None \<Rightarrow> [] | Some m \<Rightarrow> [lit ''--month='' @ m])
                    @ (if rq_noHeadless req then [lit ''--no-headless''] else []);
                  key = makeKey (Some cnpjRaw) (rq_year req) (rq_month req)
              in (case getFromCache now key cache of
                    (None, cache') \<Rightarrow> (Spawn script args key, cache')
                  | (Some cached, cache') \<Rightarrow>
                      (if truthy cached then (AnswerCached cached, cache')
                       else (Spawn script args key, cache'))))))"

text \<open>
  The child's exit callback:
  \<^verbatim>\<open>if (fs.existsSync(OUTPUT_ALL)) {
    const raw = await fs.promises.readFile(OUTPUT_ALL, 'utf8');
    const json = JSON.parse(raw);
    try { setToCache(key, json); } catch (e) {}
    return res.json({ success: true, code, stdout, stderr, result: json });
  }
  return res.json({ success: code === 0, ..., message: ... });
  } catch (e) { return res.json({ success: false, ..., error: 'Falha ao ler resultado JSON' }); }\<close>
  The output file is absent, unreadable as JSON, or parsed.
\<close>

datatype 'v outfile = NoFile | Unreadable | Parsed 'v

datatype 'v answer = Success 'v | NoOutput | ReadFailure

definition on_exit :: "int \<Rightarrow> jsstring \<Rightarrow> 'v outfile \<Rightarrow> 'v cache \<Rightarrow> 'v answer \<times> 'v cache" where
  "on_exit now key out cache =
     (case out of
        Parsed json \<Rightarrow> (Success json, setToCache now key json cache)
      | NoFile \<Rightarrow> (NoOutput, cache)
      | Unreadable \<Rightarrow> (ReadFailure, cache))"

section \<open>Regular expressions of the extractor\<close>

text \<open>
  \<^verbatim>\<open>const currencyRegex = /R\$\s*[\d\.]+,\d{2}|[\d\.]+,\d{2}/g;\<close>
  \<open>currency_len s\<close> is the length of the match that starts at the first code unit
  of \<open>s\<close>, if there is one. The greedy runs \<open>\s*\<close> and \<open>[\d\.]+\<close> never
  have to give a code unit back: what follows them (a character of \<open>[\d\.]\<close>, a
  comma) is outside the class of the run.
\<close>

definition isNumChar :: "nat \<Rightarrow> bool" where
  "isNumChar c = (isDigit c \<or> c = 46)"

definition comma2 :: "jsstring \<Rightarrow> bool" where
  "comma2 s = (case s of c0 # c1 # c2 # _ \<Rightarrow> c0 = 44 \<and> isDigit c1 \<and> isDigit c2 | _ \<Rightarrow> False)"

definition num_comma2_len :: "jsstring \<Rightarrow> nat option" where
  "num_comma2_len s =
     (let run = takeWhile isNumChar s
      in if run \<noteq> [] \<and> comma2 (drop (length run) s) then Some (length run + 3) else None)"

definition currency_len :: "jsstring \<Rightarrow> nat option" where
  "currency_len s =
     (if take 2 s = lit ''R$'' then
        (let ws = takeWhile isSpace (drop 2 s)
         in case num_comma2_len (drop (2 + length ws) s) of
              Some n \<Rightarrow> Some (2 + length ws + n)
            | None \<Rightarrow> num_comma2_len s)
      else num_comma2_len s)"

text \<open>The leftmost match in \<open>s\<close>: the index where it starts and its length.\<close>

fun currency_search :: "jsstring \<Rightarrow> (nat \<times> nat) option" where
  "currency_search [] = None"
| "currency_search (c # cs) =
     (case currency_len (c # cs) of
        Some n \<Rightarrow> Some (0, n)
      | None \<Rightarrow> map_option (\<lambda>(a, n). (Suc a, n)) (currency_search cs))"

text \<open>
  \<^verbatim>\<open>currencyRegex.test(s)\<close>. The regular expression has the \<open>g\<close> flag, so
  \<open>test\<close> starts at the object's \<open>lastIndex\<close> and leaves it at the end of the
  match, or at 0 when nothing matches (also when \<open>lastIndex\<close> is beyond the string).
  The result is the answer and the new \<open>lastIndex\<close>.
\<close>

definition currency_test :: "jsstring \<Rightarrow> nat \<Rightarrow> bool \<times> nat" where
  "currency_test s lastIndex =
     (if lastIndex > length s then (False, 0)
      else case currency_search (drop lastIndex s) of
             Some (a, n) \<Rightarrow> (True, lastIndex + a + n)
           | None \<Rightarrow> (False, 0))"

text \<open>
  \<^verbatim>\<open>s.match(currencyRegex) || []\<close>: all matches from index 0, left to right, without
  overlap; the call leaves \<open>lastIndex\<close> at 0. The first argument counts the code
  units of the current match still to be passed over.
\<close>

fun currency_matches_from :: "nat \<Rightarrow> jsstring \<Rightarrow> jsstring list" where
  "currency_matches_from skip [] = []"
| "currency_matches_from (Suc skip) (c # cs) = currency_matches_from skip cs"
| "currency_matches_from 0 (c # cs) =
     (case currency_len (c # cs) of
        Some n \<Rightarrow> take n (c # cs) # currency_matches_from (n - 1) cs
      | None \<Rightarrow> currency_matches_from 0 cs)"

definition currency_matches :: "jsstring \<Rightarrow> jsstring list" where
  "currency_matches s = currency_matches_from 0 s"

text \<open>
  \<^verbatim>\<open>/\d+[\.,]\d{2}/.test(p)\<close> (no \<open>g\<close> flag, a fresh object at every call):
  somewhere in \<open>p\<close> a digit is followed by a dot or a comma and two digits.
\<close>

fun amount_shape :: "jsstring \<Rightarrow> bool" where
  "amount_shape (a # b # c # d # rest) =
     ((isDigit a \<and> (b = 46 \<or> b = 44) \<and> isDigit c \<and> isDigit d) \<or> amount_shape (b # c # d # rest))"
| "amount_shape _ = False"

text \<open>
  \<^verbatim>\<open>s.split(sep)\<close> for a regular expression whose matches are not empty:
  \<open>sep s\<close> is the length of the match at the start of \<open>s\<close> (0 when there is none).
  The first argument counts the code units of the current separator still to be passed
  over, the second is the piece read so far.
\<close>

fun split_from :: "(jsstring \<Rightarrow> nat) \<Rightarrow> nat \<Rightarrow> jsstring \<Rightarrow> jsstring \<Rightarrow> jsstring list" where
  "split_from sep skip cur [] = [cur]"
| "split_from sep (Suc skip) cur (c # cs) = split_from sep skip cur cs"
| "split_from sep 0 cur (c # cs) =
     (case sep (c # cs) of
        0 \<Rightarrow> split_from sep 0 (cur @ [c]) cs
      | Suc n \<Rightarrow> cur # split_from sep n [] cs)"

text \<open>\<^verbatim>\<open>/\t+|\s{2,}/\<close>: a run of tabs, or else a run of two or more white space code units.\<close>

definition sep_tabs_or_2 :: "jsstring \<Rightarrow> nat" where
  "sep_tabs_or_2 s =
     (let tabs = takeWhile (\<lambda>c. c = 9) s; ws = takeWhile isSpace s
      in if tabs \<noteq> [] then length tabs else if length ws \<ge> 2 then length ws else 0)"

text \<open>\<^verbatim>\<open>/\t+|\s{3,}|\|/\<close>\<close>

definition sep_tabs_or_3_or_bar :: "jsstring \<Rightarrow> nat" where
  "sep_tabs_or_3_or_bar s =
     (let tabs = takeWhile (\<lambda>c. c = 9) s; ws = takeWhile isSpace s
      in if tabs \<noteq> [] then length tabs else if length ws \<ge> 3 then length ws
         else if take 1 s = lit ''|'' then 1 else 0)"

text \<open>\<^verbatim>\<open>rowText.split(re).map(s => s.trim()).filter(Boolean)\<close>\<close>

definition split_parts :: "(jsstring \<Rightarrow> nat) \<Rightarrow> jsstring \<Rightarrow> jsstring list" where
  "split_parts sep rowText = filter (\<lambda>s. s \<noteq> []) (map trim (split_from sep 0 [] rowText))"

text \<open>
  \<^verbatim>\<open>function normalizeHeader(s) { return String(s || '').replace(/\s+/g, ' ').trim().toLowerCase(); }\<close>
  \<open>toLowerCase\<close> is the language's own; it is a parameter of the model.
\<close>

fun collapse_ws :: "bool \<Rightarrow> jsstring \<Rightarrow> jsstring" where
  "collapse_ws in_run [] = []"
| "collapse_ws in_run (c # cs) =
     (if isSpace c then (if in_run then collapse_ws True cs else 32 # collapse_ws True cs)
      else c # collapse_ws False cs)"

definition normalizeHeader :: "(jsstring \<Rightarrow> jsstring) \<Rightarrow> jsstring \<Rightarrow> jsstring" where
  "normalizeHeader toLowerCase s = toLowerCase (trim (collapse_ws False s))"

text \<open>
  \<open>toLowerCase\<close> on the Basic Latin and Latin-1 letters, for the examples: the header
  texts of the pages are Portuguese.
\<close>

definition lower_latin1 :: "jsstring \<Rightarrow> jsstring" where
  "lower_latin1 s =
     map (\<lambda>c. if (65 \<le> c \<and> c \<le> 90) \<or> (0xC0 \<le> c \<and> c \<le> 0xDE \<and> c \<noteq> 0xD7) then c + 32 else c) s"

section \<open>Extracted records\<close>

text \<open>
  The values the scrapers build and write with \<open>JSON.stringify\<close>. An object is the
  list of its properties in the order JavaScript enumerates them (\<open>obj_set\<close> below).
  \<open>Number s\<close> is the number JavaScript's \<open>Number()\<close> makes of the string
  \<open>s\<close>; its floating-point value is not modelled.
\<close>

datatype jsnum = Number jsstring

datatype json =
    JNull
  | JBool bool
  | JStr jsstring
  | JNum jsnum
  | JArr "json list"
  | JObj "(jsstring \<times> json) list"

text \<open>\<^verbatim>\<open>v || null\<close> for a string \<open>v\<close>.\<close>

definition str_or_null :: "jsstring \<Rightarrow> json" where
  "str_or_null v = (if v = [] then JNull else JStr v)"

text \<open>
  The rational number a plain decimal literal (digits, a dot, digits) denotes; JavaScript
  rounds it to the nearest double.
\<close>

definition digits_value :: "jsstring \<Rightarrow> nat" where
  "digits_value ds = foldl (\<lambda>acc c. 10 * acc + (c - 48)) 0 ds"

definition decimal_value :: "jsstring \<Rightarrow> rat option" where
  "decimal_value s =
     (let ip = takeWhile isDigit s; rest = drop (length ip) s
      in if ip \<noteq> [] \<and> take 1 rest = lit ''.'' \<and> drop 1 rest \<noteq> [] \<and> list_all isDigit (drop 1 rest)
         then Some (of_nat (digits_value ip) + of_nat (digits_value (drop 1 rest)) / 10 ^ length (drop 1 rest))
         else None)"

text \<open>
  \<open>obj[k] = v\<close>. JavaScript enumerates the properties of an object (and
  \<open>JSON.stringify\<close> writes them) with the array indices first, in ascending numeric
  order, and then the other keys in the order of their creation. An array index is the
  decimal numeral, without leading zeros, of a number below \<open>2^32 - 1\<close>. Assigning to
  an existing property keeps its place.
\<close>

definition is_index_key :: "jsstring \<Rightarrow> bool" where
  "is_index_key k =
     (k \<noteq> [] \<and> list_all isDigit k \<and> (length k = 1 \<or> take 1 k \<noteq> lit ''0'')
      \<and> digits_value k < 4294967295)"

definition obj_set :: "jsstring \<Rightarrow> json \<Rightarrow> (jsstring \<times> json) list \<Rightarrow> (jsstring \<times> json) list" where
  "obj_set k v props =
     (if k \<in> fst ` set props then AList.update k v props
      else if is_index_key k then
        (let before = takeWhile (\<lambda>p. is_index_key (fst p) \<and> digits_value (fst p) < digits_value k) props
         in before @ (k, v) # drop (length before) props)
      else props @ [(k, v)])"

section \<open>The table parser of the Puppeteer scraper and of the dispatcher's Playwright scraper\<close>

text \<open>
  What the parser reads of the page. A row (\<open>tr\<close>) has its \<open>innerText\<close>, the
  \<open>innerText\<close> of its \<open>td\<close> and \<open>th\<close> cells, and the \<open>innerText\<close> of all
  its descendant elements (the Puppeteer scraper selects \<open>'*'\<close>). A table has its
  \<open>innerText\<close>, the \<open>innerText\<close> of its \<open>th\<close> elements and its rows. The
  reads are taken to succeed; a failing read is the business of \<open>safeExtractDebits\<close>.
\<close>

record row =
  row_innerText :: jsstring
  row_cells :: "jsstring list"
  row_descendants :: "jsstring list"

record table =
  tbl_innerText :: jsstring
  tbl_th :: "jsstring list"
  tbl_tr :: "row list"

text \<open>
  \<^verbatim>\<open>const expectedHeaders = [
    'per\'iodo de apura\c{c}\~ao', 'apurado', 'benef\'icio inss', 'resumo do das a ser gerado',
    'principal', 'multa', 'juros', 'total', 'data de vencimento', 'data de acolhimento' ];\<close>
  (accents written here in TeX style).
\<close>

definition expectedHeaders :: "jsstring list" where
  "expectedHeaders =
     [lit ''per'' @ [0xED] @ lit ''odo de apura'' @ [0xE7, 0xE3] @ lit ''o'',
      lit ''apurado'',
      lit ''benef'' @ [0xED] @ lit ''cio inss'',
      lit ''resumo do das a ser gerado'',
      lit ''principal'', lit ''multa'', lit ''juros'', lit ''total'',
      lit ''data de vencimento'', lit ''data de acolhimento'']"

text \<open>
  \<^verbatim>\<open>const mapKeys = headers.map(h => {
    const idx = expectedHeaders.indexOf(h);
    return idx >= 0 ? expectedHeaders[idx] : h; });\<close>
\<close>

definition mapKey :: "jsstring \<Rightarrow> jsstring" where
  "mapKey h = (case find (\<lambda>e. e = h) expectedHeaders of Some e \<Rightarrow> e | None \<Rightarrow> h)"

text \<open>
  \<open>xs[k] || ''\<close> for an array of strings: the element at index \<open>k\<close>, or the
  empty string when the array has none there.
\<close>

definition nth_or_empty :: "jsstring list \<Rightarrow> nat \<Rightarrow> jsstring" where
  "nth_or_empty xs k = (if k < length xs then xs ! k else [])"

text \<open>\<^verbatim>\<open>h || `col_${k}`\<close>\<close>

definition key_or_col :: "jsstring \<Rightarrow> nat \<Rightarrow> jsstring" where
  "key_or_col h k = (if h = [] then lit ''col_'' @ decimal k else h)"

text \<open>
  A loop \<^verbatim>\<open>for (...; k < ...; k++) rowObj[key(k)] = val(k);\<close> from index \<open>k\<close>
  with \<open>n\<close> indices still to visit.
\<close>

fun assign_from ::
    "(nat \<Rightarrow> jsstring) \<Rightarrow> (nat \<Rightarrow> json) \<Rightarrow> nat \<Rightarrow> nat \<Rightarrow> (jsstring \<times> json) list
      \<Rightarrow> (jsstring \<times> json) list" where
  "assign_from key val k 0 rowObj = rowObj"
| "assign_from key val k (Suc n) rowObj =
     assign_from key val (Suc k) n (obj_set (key k) (val k) rowObj)"

text \<open>
  \<^verbatim>\<open>const rowObj = {};
  for (let k = 0; k < mapKeys.length; k++)
    rowObj[mapKeys[k] || `col_${k}`] = cellValues[k] || null;\<close>
  (a missing cell is \<open>undefined\<close>, hence \<open>null\<close>).
\<close>

definition assign_cells :: "jsstring list \<Rightarrow> jsstring list \<Rightarrow> (jsstring \<times> json) list" where
  "assign_cells mapKeys cellValues =
     assign_from (\<lambda>k. key_or_col (nth_or_empty mapKeys k) k)
       (\<lambda>k. str_or_null (nth_or_empty cellValues k)) 0 (length mapKeys) []"

text \<open>
  \<^verbatim>\<open>const amountPart = parts.slice().reverse().find(p => /\d+[\.,]\d{2}/.test(p));
  const amount = amountPart ? amountPart.replace(/[R\$\s\.]/g, '').replace(',', '.') : null;
  ... amount: amount ? Number(amount) : null\<close>
\<close>

definition amount_text :: "jsstring list \<Rightarrow> jsstring option" where
  "amount_text parts =
     (case find amount_shape (rev parts) of
        None \<Rightarrow> None
      | Some amountPart \<Rightarrow>
          Some (replace_first 44 46
                 (remove_class (\<lambda>c. c = 82 \<or> c = 36 \<or> isSpace c \<or> c = 46) amountPart)))"

definition amount_of :: "jsstring list \<Rightarrow> json" where
  "amount_of parts =
     (case amount_text parts of
        None \<Rightarrow> JNull
      | Some amount \<Rightarrow> if amount = [] then JNull else JNum (Number amount))"

text \<open>\<^verbatim>\<open>{ raw: rowText, parts, amount: amount ? Number(amount) : null }\<close>\<close>

definition loose_record :: "jsstring \<Rightarrow> json" where
  "loose_record rowText =
     (let parts = split_parts sep_tabs_or_2 rowText
      in JObj [(lit ''raw'', JStr rowText), (lit ''parts'', JArr (map JStr parts)),
               (lit ''amount'', amount_of parts)])"

text \<open>
  The loose row scan:
  \<^verbatim>\<open>for (const r of rows) {
    const rowText = (r.innerText || '').trim();
    if (!rowText) continue;
    if (rowText.includes(String(year)) || currencyRegex.test(rowText)) {
      ... out.push({ raw: rowText, parts, amount: ... });
    }
  }\<close>
  \<open>currencyRegex.test\<close> is called only when the year is not in the row; the
  \<open>lastIndex\<close> of the regular expression is threaded through the rows.
\<close>

fun loose_rows :: "jsstring \<Rightarrow> nat \<Rightarrow> row list \<Rightarrow> json list \<times> nat" where
  "loose_rows year lastIndex [] = ([], lastIndex)"
| "loose_rows year lastIndex (r # rows) =
     (let rowText = trim (row_innerText r)
      in if rowText = [] then loose_rows year lastIndex rows
         else if js_includes rowText year then
           (let (out, li) = loose_rows year lastIndex rows in (loose_record rowText # out, li))
         else
           (let (found, li1) = currency_test rowText lastIndex;
                (out, li) = loose_rows year li1 rows
            in (if found then loose_record rowText # out else out, li)))"

text \<open>
  One table. \<open>cells_of\<close> is the selector the scraper reads a row's cells with
  (\<open>'*'\<close> in the Puppeteer scraper, \<open>'td,th'\<close> in the dispatcher's Playwright
  scraper) and \<open>hnorm\<close> what it applies to a header text.
  \<^verbatim>\<open>const txt = table.innerText || '';
  if (!currencyRegex.test(txt)) continue;
  const ths = Array.from(table.querySelectorAll('th'));
  let headers = [];
  if (ths.length) headers = ths.map(h => normalizeHeader(h.innerText || ''));
  else {
    const first = table.querySelector('tr');
    if (first) headers = Array.from(first.querySelectorAll('td,th')).map(h => normalizeHeader(h.innerText || ''));
  }
  const hasExpected = headers.some(h => expectedHeaders.includes(h));
  const rows = Array.from(table.querySelectorAll('tr'));
  if (hasExpected && headers.length) {
    const mapKeys = ...;
    for (let i = 1; i < rows.length; i++) {
      const cells = Array.from(rows[i].querySelectorAll('td,th'));
      const rowObj = {};
      for (let k = 0; k < mapKeys.length; k++) rowObj[mapKeys[k] || `col_${k}`] = (cells[k] && (cells[k].innerText || '').trim()) || null;
      out.push(rowObj);
    }
  } else { ... the loose row scan ... }\<close>
\<close>

definition table_headers :: "(row \<Rightarrow> jsstring list) \<Rightarrow> (jsstring \<Rightarrow> jsstring) \<Rightarrow> table \<Rightarrow> jsstring list" where
  "table_headers cells_of hnorm t =
     (if tbl_th t \<noteq> [] then map hnorm (tbl_th t)
      else case tbl_tr t of [] \<Rightarrow> [] | first # _ \<Rightarrow> map hnorm (cells_of first))"

definition hasExpected :: "jsstring list \<Rightarrow> bool" where
  "hasExpected headers = list_ex (\<lambda>h. h \<in> set expectedHeaders) headers"

definition mapped_record :: "(row \<Rightarrow> jsstring list) \<Rightarrow> jsstring list \<Rightarrow> row \<Rightarrow> json" where
  "mapped_record cells_of mapKeys r = JObj (assign_cells mapKeys (map trim (cells_of r)))"

definition table_records ::
    "(row \<Rightarrow> jsstring list) \<Rightarrow> (jsstring \<Rightarrow> jsstring) \<Rightarrow> jsstring \<Rightarrow> nat \<Rightarrow> table \<Rightarrow> json list \<times> nat" where
  "table_records cells_of hnorm year lastIndex t =
     (let (found, li) = currency_test (tbl_innerText t) lastIndex
      in if \<not> found then ([], li)
         else
           (let headers = table_headers cells_of hnorm t
            in if hasExpected headers \<and> headers \<noteq> [] then
                 (map (mapped_record cells_of (map mapKey headers)) (drop 1 (tbl_tr t)), li)
               else loose_rows year li (tbl_tr t)))"

text \<open>\<^verbatim>\<open>for (const table of tables) { try { ... } catch (e) {} } return out;\<close>\<close>

fun extract_tables ::
    "(row \<Rightarrow> jsstring list) \<Rightarrow> (jsstring \<Rightarrow> jsstring) \<Rightarrow> jsstring \<Rightarrow> nat \<Rightarrow> table list \<Rightarrow> json list" where
  "extract_tables cells_of hnorm year lastIndex [] = []"
| "extract_tables cells_of hnorm year lastIndex (t # tables) =
     (let (out, li) = table_records cells_of hnorm year lastIndex t
      in out @ extract_tables cells_of hnorm year li tables)"

text \<open>
  \<open>extractDebits(page, year)\<close> of the Puppeteer scraper: the tables of the page, a new
  \<open>currencyRegex\<close> (\<open>lastIndex\<close> 0), cells read with \<open>'*'\<close>, header texts
  trimmed and then normalized.
\<close>

definition extractDebits_puppeteer :: "(jsstring \<Rightarrow> jsstring) \<Rightarrow> table list \<Rightarrow> jsstring \<Rightarrow> json list" where
  "extractDebits_puppeteer toLowerCase page year =
     extract_tables row_descendants (\<lambda>s. normalizeHeader toLowerCase (trim s)) year 0 page"

text \<open>\<open>extractDebits(page, year)\<close> of the Playwright scraper in the dispatcher's file.\<close>

definition extractDebits_bundled :: "(jsstring \<Rightarrow> jsstring) \<Rightarrow> table list \<Rightarrow> jsstring \<Rightarrow> json list" where
  "extractDebits_bundled toLowerCase page year =
     extract_tables row_cells (normalizeHeader toLowerCase) year 0 page"

section \<open>The table parser of the standalone Playwright scraper\<close>

text \<open>
  \<^verbatim>\<open>const containers = Array.from(document.querySelectorAll(
    'table, div[class*="table"], .datatable, .grid, .list'));\<close>
  A container is a table itself, or another element with its \<open>innerText\<close>, the
  tables inside it and the \<open>innerText\<close> of its
  \<^verbatim>\<open>'div[class*="row"], tr, li'\<close> elements.
\<close>

datatype container =
    TableContainer table
  | OtherContainer jsstring "table list" "jsstring list"

text \<open>
  \<^verbatim>\<open>const expectedHeaders = [
    'per\'iodo de apura\c{c}\~ao', 'periodo de apuracao', 'periodo', 'mes', 'm\^es',
    'apurado', 'valor apurado', 'benef\'icio inss', 'beneficio inss', 'inss',
    'resumo do das a ser gerado', 'das', 'guia',
    'principal', 'valor principal', 'multa', 'juros', 'total', 'valor total',
    'data de vencimento', 'vencimento', 'data vencimento',
    'data de acolhimento', 'acolhimento', 'data acolhimento',
    'situa\c{c}\~ao', 'situacao', 'status', 'pago', 'pendente' ];\<close>
\<close>

definition expectedHeaders_wide :: "jsstring list" where
  "expectedHeaders_wide =
     [lit ''per'' @ [0xED] @ lit ''odo de apura'' @ [0xE7, 0xE3] @ lit ''o'',
      lit ''periodo de apuracao'', lit ''periodo'', lit ''mes'', lit ''m'' @ [0xEA] @ lit ''s'',
      lit ''apurado'', lit ''valor apurado'',
      lit ''benef'' @ [0xED] @ lit ''cio inss'', lit ''beneficio inss'', lit ''inss'',
      lit ''resumo do das a ser gerado'', lit ''das'', lit ''guia'',
      lit ''principal'', lit ''valor principal'', lit ''multa'', lit ''juros'', lit ''total'',
      lit ''valor total'',
      lit ''data de vencimento'', lit ''vencimento'', lit ''data vencimento'',
      lit ''data de acolhimento'', lit ''acolhimento'', lit ''data acolhimento'',
      lit ''situa'' @ [0xE7, 0xE3] @ lit ''o'', lit ''situacao'', lit ''status'', lit ''pago'',
      lit ''pendente'']"

text \<open>
  \<^verbatim>\<open>const mappedKey = expectedHeaders.find(expected =>
    headerKey === expected || headerKey.includes(expected.split(' ')[0])) || headerKey;\<close>
\<close>

definition first_word :: "jsstring \<Rightarrow> jsstring" where
  "first_word expected = takeWhile (\<lambda>c. c \<noteq> 32) expected"

definition mappedKey :: "jsstring \<Rightarrow> jsstring" where
  "mappedKey headerKey =
     (case find (\<lambda>expected. headerKey = expected \<or> js_includes headerKey (first_word expected))
             expectedHeaders_wide of
        Some expected \<Rightarrow> if expected = [] then headerKey else expected
      | None \<Rightarrow> headerKey)"

text \<open>
  \<^verbatim>\<open>for (let k = 0; k < Math.max(cells.length, headers.length); k++) {
    const cellValue = (cells[k] && cells[k].innerText || '').trim();
    const headerKey = headers[k] || `col_${k}`;
    const mappedKey = ...;
    rowObj[mappedKey] = cellValue || null;
  }\<close>
\<close>

definition assign_wide ::
    "jsstring list \<Rightarrow> jsstring list \<Rightarrow> (jsstring \<times> json) list \<Rightarrow> (jsstring \<times> json) list" where
  "assign_wide headers cells rowObj =
     assign_from (\<lambda>k. mappedKey (key_or_col (nth_or_empty headers k) k))
       (\<lambda>k. str_or_null (trim (nth_or_empty cells k))) 0 (max (length cells) (length headers)) rowObj"

text \<open>
  \<^verbatim>\<open>const rowObj = { year: year, source: 'table' };
  ... the loop above ...
  const currencies = rowText.match(currencyRegex) || [];
  rowObj.currencies = currencies;
  rowObj.raw = rowText;\<close>
\<close>

definition wide_record :: "jsstring \<Rightarrow> jsstring list \<Rightarrow> row \<Rightarrow> json" where
  "wide_record year headers r =
     JObj (obj_set (lit ''raw'') (JStr (row_innerText r))
            (obj_set (lit ''currencies'') (JArr (map JStr (currency_matches (row_innerText r))))
              (assign_wide headers (row_cells r)
                 [(lit ''year'', JStr year), (lit ''source'', JStr (lit ''table''))])))"

text \<open>\<^verbatim>\<open>cells.some(cell => currencyRegex.test(cell.innerText || ''))\<close>, with the \<open>lastIndex\<close>.\<close>

fun cells_some_test :: "nat \<Rightarrow> jsstring list \<Rightarrow> bool \<times> nat" where
  "cells_some_test lastIndex [] = (False, lastIndex)"
| "cells_some_test lastIndex (c # cs) =
     (let (found, li) = currency_test c lastIndex
      in if found then (True, li) else cells_some_test li cs)"

text \<open>
  \<^verbatim>\<open>currencyRegex.test(rowText) || rowText.includes(String(year)) ||
    cells.some(cell => currencyRegex.test(cell.innerText || ''))\<close>
\<close>

definition row_included :: "jsstring \<Rightarrow> nat \<Rightarrow> row \<Rightarrow> bool \<times> nat" where
  "row_included year lastIndex r =
     (let (found, li) = currency_test (row_innerText r) lastIndex
      in if found then (True, li)
         else if js_includes (row_innerText r) year then (True, li)
         else cells_some_test li (row_cells r))"

text \<open>
  The data rows of a table:
  \<^verbatim>\<open>for (let i = startRow; i < rows.length; i++) {
    const rowText = row.innerText || '';
    if (!rowText.trim()) continue;
    if (currencyRegex.test(rowText) || ...) { ...; out.push(rowObj); }
  }\<close>
  \<open>rowText.match(currencyRegex)\<close> leaves \<open>lastIndex\<close> at 0 after a row is
  pushed.
\<close>

fun wide_rows :: "jsstring \<Rightarrow> jsstring list \<Rightarrow> nat \<Rightarrow> row list \<Rightarrow> json list \<times> nat" where
  "wide_rows year headers lastIndex [] = ([], lastIndex)"
| "wide_rows year headers lastIndex (r # rows) =
     (if trim (row_innerText r) = [] then wide_rows year headers lastIndex rows
      else
        (let (inc, li) = row_included year lastIndex r
         in if inc then
              (let (out, li') = wide_rows year headers 0 rows in (wide_record year headers r # out, li'))
            else wide_rows year headers li rows))"

text \<open>
  \<^verbatim>\<open>for (let i = 0; i < Math.min(3, rows.length); i++) {
    const cells = Array.from(rows[i].querySelectorAll('td, th'));
    const potentialHeaders = cells.map(cell => normalizeHeader(cell.innerText || ''));
    if (potentialHeaders.some(h => expectedHeaders.includes(h))) {
      headers = potentialHeaders; headerRowIndex = i; break;
    }
  }\<close>
\<close>

fun find_header_row :: "(jsstring \<Rightarrow> jsstring) \<Rightarrow> nat \<Rightarrow> row list \<Rightarrow> (jsstring list \<times> nat) option" where
  "find_header_row toLowerCase i [] = None"
| "find_header_row toLowerCase i (r # rows) =
     (let potentialHeaders = map (normalizeHeader toLowerCase) (row_cells r)
      in if list_ex (\<lambda>h. h \<in> set expectedHeaders_wide) potentialHeaders
         then Some (potentialHeaders, i)
         else find_header_row toLowerCase (Suc i) rows)"

text \<open>
  One table:
  \<^verbatim>\<open>const tableText = table.innerText || '';
  if (!currencyRegex.test(tableText) && !tableText.includes(String(year))) continue;
  const rows = Array.from(table.querySelectorAll('tr'));
  if (rows.length === 0) continue;
  ... header search ...
  if (headers.length === 0 && rows.length > 0) {
    const firstRowCells = Array.from(rows[0].querySelectorAll('td, th'));
    if (firstRowCells.length > 0) {
      headers = firstRowCells.map((_, idx) => `col_${idx}`);
      headerRowIndex = -1; // Don't skip first row
    }
  }
  const startRow = headerRowIndex >= 0 ? headerRowIndex + 1 : 0;\<close>
\<close>

definition wide_table :: "(jsstring \<Rightarrow> jsstring) \<Rightarrow> jsstring \<Rightarrow> nat \<Rightarrow> table \<Rightarrow> json list \<times> nat" where
  "wide_table toLowerCase year lastIndex t =
     (let (found, li) = currency_test (tbl_innerText t) lastIndex
      in if \<not> found \<and> \<not> js_includes (tbl_innerText t) year then ([], li)
         else
           (case tbl_tr t of
              [] \<Rightarrow> ([], li)
            | first # _ \<Rightarrow>
                (case find_header_row toLowerCase 0 (take 3 (tbl_tr t)) of
                   Some (headers, headerRowIndex) \<Rightarrow>
                     wide_rows year headers li (drop (headerRowIndex + 1) (tbl_tr t))
                 | None \<Rightarrow>
                     wide_rows year (map (\<lambda>idx. lit ''col_'' @ decimal idx) [0..<length (row_cells first)])
                       li (tbl_tr t))))"

fun wide_tables :: "(jsstring \<Rightarrow> jsstring) \<Rightarrow> jsstring \<Rightarrow> nat \<Rightarrow> table list \<Rightarrow> json list \<times> nat" where
  "wide_tables toLowerCase year lastIndex [] = ([], lastIndex)"
| "wide_tables toLowerCase year lastIndex (t # tables) =
     (let (out, li) = wide_table toLowerCase year lastIndex t;
          (out', li') = wide_tables toLowerCase year li tables
      in (out @ out', li'))"

text \<open>
  A container without tables:
  \<^verbatim>\<open>for (const row of rows) {
    const rowText = (row.innerText || '').trim();
    if (rowText && (rowText.includes(String(year)) || currencyRegex.test(rowText))) {
      const parts = rowText.split(/\t+|\s{3,}|\|/).map(s => s.trim()).filter(Boolean);
      const currencies = rowText.match(currencyRegex) || [];
      out.push({ raw: rowText, parts: parts, currencies: currencies, year: year, source: 'non-table' });
    }
  }\<close>
\<close>

definition non_table_record :: "jsstring \<Rightarrow> jsstring \<Rightarrow> json" where
  "non_table_record year rowText =
     JObj [(lit ''raw'', JStr rowText),
           (lit ''parts'', JArr (map JStr (split_parts sep_tabs_or_3_or_bar rowText))),
           (lit ''currencies'', JArr (map JStr (currency_matches rowText))),
           (lit ''year'', JStr year),
           (lit ''source'', JStr (lit ''non-table''))]"

fun non_table_rows :: "jsstring \<Rightarrow> nat \<Rightarrow> jsstring list \<Rightarrow> json list \<times> nat" where
  "non_table_rows year lastIndex [] = ([], lastIndex)"
| "non_table_rows year lastIndex (r # rows) =
     (let rowText = trim r
      in if rowText = [] then non_table_rows year lastIndex rows
         else if js_includes rowText year then
           (let (out, li) = non_table_rows year 0 rows in (non_table_record year rowText # out, li))
         else
           (let (found, li1) = currency_test rowText lastIndex
            in if found then
                 (let (out, li) = non_table_rows year 0 rows in (non_table_record year rowText # out, li))
               else non_table_rows year li1 rows))"

text \<open>
  One container:
  \<^verbatim>\<open>const containerText = container.innerText || '';
  if (!currencyRegex.test(containerText) && !containerText.includes(String(year))) continue;
  const tables = container.tagName === 'TABLE' ? [container] : Array.from(container.querySelectorAll('table'));
  if (tables.length === 0) { ... rows without a table ...; continue; }
  for (const table of tables) { ... }\<close>
\<close>

definition container_innerText :: "container \<Rightarrow> jsstring" where
  "container_innerText c = (case c of TableContainer t \<Rightarrow> tbl_innerText t | OtherContainer txt _ _ \<Rightarrow> txt)"

definition container_records :: "(jsstring \<Rightarrow> jsstring) \<Rightarrow> jsstring \<Rightarrow> nat \<Rightarrow> container \<Rightarrow> json list \<times> nat" where
  "container_records toLowerCase year lastIndex c =
     (let (found, li) = currency_test (container_innerText c) lastIndex
      in if \<not> found \<and> \<not> js_includes (container_innerText c) year then ([], li)
         else
           (case c of
              TableContainer t \<Rightarrow> wide_tables toLowerCase year li [t]
            | OtherContainer txt tables rows \<Rightarrow>
                if tables = [] then non_table_rows year li rows
                else wide_tables toLowerCase year li tables))"

fun extract_containers :: "(jsstring \<Rightarrow> jsstring) \<Rightarrow> jsstring \<Rightarrow> nat \<Rightarrow> container list \<Rightarrow> json list" where
  "extract_containers toLowerCase year lastIndex [] = []"
| "extract_containers toLowerCase year lastIndex (c # containers) =
     (let (out, li) = container_records toLowerCase year lastIndex c
      in out @ extract_containers toLowerCase year li containers)"

text \<open>\<open>extractDebits(page, year)\<close> of the standalone Playwright scraper.\<close>

definition extractDebits_playwright :: "(jsstring \<Rightarrow> jsstring) \<Rightarrow> container list \<Rightarrow> jsstring \<Rightarrow> json list" where
  "extractDebits_playwright toLowerCase page year = extract_containers toLowerCase year 0 page"

section \<open>Year options\<close>

text \<open>
  What \<open>getAvailableYears\<close> reads of an element: its \<open>value\<close>, its
  \<open>innerText\<close>, its \<open>disabled\<close> property, and its \<open>class\<close>,
  \<open>disabled\<close> and \<open>aria-disabled\<close> attributes (\<open>None\<close> when the
  attribute is absent).
\<close>

record element =
  el_value :: jsstring
  el_innerText :: jsstring
  el_disabled :: bool
  el_class :: "jsstring option"
  el_disabled_attr :: "jsstring option"
  el_aria_disabled :: "jsstring option"

text \<open>
  The page either has a \<^verbatim>\<open>select[id*="ano"]\<close>, with its options, or it has none and
  the scrapers scan the elements of a broad selector.
\<close>

datatype years_page =
    WithSelect "element list"
  | WithoutSelect "element list"

record yearopt =
  y_value :: jsstring
  y_text :: jsstring
  y_disabled :: bool

text \<open>
  \<open>classList\<close>: the tokens of the \<open>class\<close> attribute, split at ASCII white space.
\<close>

definition class_tokens :: "jsstring option \<Rightarrow> jsstring list" where
  "class_tokens cls =
     filter (\<lambda>t. t \<noteq> [])
       (split_from (\<lambda>s. if take 1 s \<in> {[9], [10], [12], [13], [32]} then 1 else 0) 0 []
          (case cls of None \<Rightarrow> [] | Some c \<Rightarrow> c))"

definition classList_contains :: "element \<Rightarrow> jsstring \<Rightarrow> bool" where
  "classList_contains e tok = (tok \<in> set (class_tokens (el_class e)))"

text \<open>
  \<^verbatim>\<open>/n\~ao optante/i.test(s)\<close> (the second letter is U+00E3). Without the unicode
  flag a pattern letter matches itself and its upper-case form.
\<close>

definition ci_match :: "nat \<Rightarrow> nat \<Rightarrow> bool" where
  "ci_match p c = (c = p \<or> (97 \<le> p \<and> p \<le> 122 \<and> c + 32 = p) \<or> (p = 0xE3 \<and> c = 0xC3))"

fun ci_prefix :: "jsstring \<Rightarrow> jsstring \<Rightarrow> bool" where
  "ci_prefix [] s = True"
| "ci_prefix (p # ps) [] = False"
| "ci_prefix (p # ps) (c # cs) = (ci_match p c \<and> ci_prefix ps cs)"

fun ci_search :: "jsstring \<Rightarrow> jsstring \<Rightarrow> bool" where
  "ci_search pat [] = ci_prefix pat []"
| "ci_search pat (c # cs) = (ci_prefix pat (c # cs) \<or> ci_search pat cs)"

definition nao_optante :: "jsstring \<Rightarrow> bool" where
  "nao_optante s = ci_search (lit ''n'' @ [0xE3] @ lit ''o optante'') s"

text \<open>\<^verbatim>\<open>/^\d{4}$/.test(s)\<close>\<close>

definition four_digits :: "jsstring \<Rightarrow> bool" where
  "four_digits s = (length s = 4 \<and> list_all isDigit s)"

text \<open>\<^verbatim>\<open>s.match(/(\d{4})/)\<close>: the first four consecutive digits.\<close>

fun first_four_digits :: "jsstring \<Rightarrow> jsstring option" where
  "first_four_digits (a # b # c # d # rest) =
     (if isDigit a \<and> isDigit b \<and> isDigit c \<and> isDigit d then Some [a, b, c, d]
      else first_four_digits (b # c # d # rest))"
| "first_four_digits _ = None"

text \<open>
  \<^verbatim>\<open>options.map(o => ({ value: o.value, text: o.innerText.trim(),
    disabled: o.disabled || o.classList.contains('disabled') }))\<close>
\<close>

definition select_option :: "element \<Rightarrow> yearopt" where
  "select_option o' =
     \<lparr>y_value = el_value o', y_text = trim (el_innerText o'),
      y_disabled = (el_disabled o' \<or> classList_contains o' (lit ''disabled''))\<rparr>"

text \<open>
  The Puppeteer scraper:
  \<^verbatim>\<open>if (await page.$(YEAR_SELECTOR)) {
    const opts = ...;
    return opts.filter(o => o.text && !/n\~ao optante/i.test(o.text) && !o.disabled);
  }
  const els = await page.$$('a, button, span, div');
  for (const el of els) {
    const t = txt.trim();
    const isDisabled = await el.evaluate(n => (n.classList && (n.classList.contains('disabled')
        || n.classList.contains('disabled-option')))
      || n.getAttribute && (n.getAttribute('disabled') !== null || n.getAttribute('aria-disabled') === 'true')
      || n.disabled);
    if (/^\d{4}$/.test(t) && !/n\~ao optante/i.test(t) && !isDisabled) years.push({ value: t, text: t, handle: el });
  }\<close>
\<close>

definition select_years :: "element list \<Rightarrow> yearopt list" where
  "select_years options =
     filter (\<lambda>o'. y_text o' \<noteq> [] \<and> \<not> nao_optante (y_text o') \<and> \<not> y_disabled o')
       (map select_option options)"

definition isDisabled_puppeteer :: "element \<Rightarrow> bool" where
  "isDisabled_puppeteer n =
     (classList_contains n (lit ''disabled'') \<or> classList_contains n (lit ''disabled-option'')
      \<or> el_disabled_attr n \<noteq> None \<or> el_aria_disabled n = Some (lit ''true'') \<or> el_disabled n)"

definition scan_years :: "(element \<Rightarrow> bool) \<Rightarrow> element list \<Rightarrow> yearopt list" where
  "scan_years isDisabled els =
     map (\<lambda>el. \<lparr>y_value = trim (el_innerText el), y_text = trim (el_innerText el), y_disabled = False\<rparr>)
       (filter (\<lambda>el. four_digits (trim (el_innerText el)) \<and> \<not> nao_optante (trim (el_innerText el))
                      \<and> \<not> isDisabled el) els)"

definition getAvailableYears_puppeteer :: "years_page \<Rightarrow> yearopt list" where
  "getAvailableYears_puppeteer page =
     (case page of
        WithSelect options \<Rightarrow> select_years options
      | WithoutSelect els \<Rightarrow> scan_years isDisabled_puppeteer els)"

text \<open>
  The Playwright scraper in the dispatcher's file; its scan has
  \<^verbatim>\<open>const isDisabled = await el.getAttribute('aria-disabled') === 'true'
    || (await el.getAttribute('disabled')) !== null
    || (await el.getAttribute('class') || '').includes('disabled');\<close>
\<close>

definition isDisabled_playwright :: "element \<Rightarrow> bool" where
  "isDisabled_playwright el =
     (el_aria_disabled el = Some (lit ''true'') \<or> el_disabled_attr el \<noteq> None
      \<or> js_includes (case el_class el of None \<Rightarrow> [] | Some c \<Rightarrow> c) (lit ''disabled''))"

definition getAvailableYears_bundled :: "years_page \<Rightarrow> yearopt list" where
  "getAvailableYears_bundled page =
     (case page of
        WithSelect options \<Rightarrow> select_years options
      | WithoutSelect els \<Rightarrow> scan_years isDisabled_playwright els)"

text \<open>
  The standalone Playwright scraper:
  \<^verbatim>\<open>if (await page.$(YEAR_SELECTOR)) { allOpts = ... the options, as above ... }
  else {
    const els = await page.$$('a, button, span, div, li, option');
    for (const el of els) {
      const txt = (await el.innerText()).trim();
      const isDisabled = ...;
      if (/^\d{4}$/.test(txt) || /n\~ao optante/i.test(txt)) {
        const yearMatch = txt.match(/(\d{4})/);
        const year = yearMatch ? yearMatch[1] : txt;
        const isNotOptante = /n\~ao optante/i.test(txt) || isDisabled;
        allOpts.push({ value: year, text: txt, disabled: isNotOptante, handle: el });
      }
    }
  }
  const available = allOpts.filter(o => o.text && !o.disabled && /^\d{4}$/.test(o.value || o.text));
  const notOptante = allOpts.filter(o => o.disabled || /n\~ao optante/i.test(o.text));
  return { available, notOptante, all: allOpts };\<close>
\<close>

definition scanned_option :: "element \<Rightarrow> yearopt" where
  "scanned_option el =
     (let txt = trim (el_innerText el)
      in \<lparr>y_value = (case first_four_digits txt of Some y \<Rightarrow> y | None \<Rightarrow> txt), y_text = txt,
          y_disabled = (nao_optante txt \<or> isDisabled_playwright el)\<rparr>)"

definition allOpts :: "years_page \<Rightarrow> yearopt list" where
  "allOpts page =
     (case page of
        WithSelect options \<Rightarrow> map select_option options
      | WithoutSelect els \<Rightarrow>
          map scanned_option
            (filter (\<lambda>el. four_digits (trim (el_innerText el)) \<or> nao_optante (trim (el_innerText el))) els))"

definition available :: "yearopt list \<Rightarrow> yearopt list" where
  "available opts =
     filter (\<lambda>o'. y_text o' \<noteq> [] \<and> \<not> y_disabled o'
               \<and> four_digits (if y_value o' \<noteq> [] then y_value o' else y_text o')) opts"

definition notOptante :: "yearopt list \<Rightarrow> yearopt list" where
  "notOptante opts = filter (\<lambda>o'. y_disabled o' \<or> nao_optante (y_text o')) opts"

definition getAvailableYears_playwright :: "years_page \<Rightarrow> yearopt list \<times> yearopt list \<times> yearopt list" where
  "getAvailableYears_playwright page = (available (allOpts page), notOptante (allOpts page), allOpts page)"

section \<open>The retry wrapper\<close>

text \<open>
  A thrown \<open>Error\<close> with its \<open>name\<close> and \<open>message\<close>.
  \<^verbatim>\<open>const msg = String(err && err.message || err || '');\<close> is the message, or, when
  the message is empty, \<open>String(err)\<close>, which is then the name.
\<close>

record thrown =
  err_name :: jsstring
  err_message :: jsstring

definition error_msg :: "thrown \<Rightarrow> jsstring" where
  "error_msg err = (if err_message err \<noteq> [] then err_message err else err_name err)"

definition context_lost :: "jsstring \<Rightarrow> bool" where
  "context_lost msg =
     (js_includes msg (lit ''Execution context was destroyed'') \<or> js_includes msg (lit ''Execution context''))"

text \<open>
  \<^verbatim>\<open>async function safeExtractDebits(page, year, tries = 2) {
    for (let i = 0; i < tries; i++) {
      try { return await extractDebits(page, year); } catch (err) {
        const msg = ...;
        if (msg.includes('Execution context was destroyed') || msg.includes('Execution context')) {
          await sleep(1000); continue; }
        throw err;
      }
    }
    return [];
  }\<close>
  \<open>attempt i\<close> is what the \<open>i\<close>-th call of \<open>extractDebits\<close> does on the page
  as it then is: it throws or returns. The result is what \<open>safeExtractDebits\<close>
  does, with the number of calls it made.
\<close>

function safe_loop :: "(nat \<Rightarrow> thrown + 'a list) \<Rightarrow> nat \<Rightarrow> nat \<Rightarrow> (thrown + 'a list) \<times> nat" where
  "safe_loop attempt tries i =
     (if i < tries then
        (case attempt i of
           Inr found \<Rightarrow> (Inr found, Suc i)
         | Inl err \<Rightarrow>
             if context_lost (error_msg err) then safe_loop attempt tries (Suc i)
             else (Inl err, Suc i))
      else (Inr [], i))"
  by pat_completeness auto
termination
  by (relation "measure (\<lambda>(attempt, tries, i). tries - i)") auto

declare safe_loop.simps [simp del]

definition safeExtractDebits :: "(nat \<Rightarrow> thrown + 'a list) \<Rightarrow> nat \<Rightarrow> (thrown + 'a list) \<times> nat" where
  "safeExtractDebits attempt tries = safe_loop attempt tries 0"

section \<open>Results written to disk\<close>

text \<open>
  The disk is the list of the writes made so far, oldest first: a path and the value
  handed to \<open>JSON.stringify\<close>. A file exists when it was written, and reading it
  with \<open>JSON.parse\<close> gives the value of its last write. Writes are taken to succeed.
\<close>

type_synonym disk = "(jsstring \<times> json) list"

definition writeFileSync :: "jsstring \<Rightarrow> json \<Rightarrow> disk \<Rightarrow> disk" where
  "writeFileSync path v d = d @ [(path, v)]"

definition existsSync :: "jsstring \<Rightarrow> disk \<Rightarrow> bool" where
  "existsSync path d = (path \<in> set (map fst d))"

definition readFileSync :: "jsstring \<Rightarrow> disk \<Rightarrow> json option" where
  "readFileSync path d = map_of (rev d) path"

text \<open>A name the page gave: a string or \<open>null\<close>. \<open>name_or_null\<close> is \<open>name || null\<close>.\<close>

definition name_or_null :: "jsstring option \<Rightarrow> json" where
  "name_or_null n = (case n of None \<Rightarrow> JNull | Some s \<Rightarrow> str_or_null s)"

definition truthy_name :: "jsstring option \<Rightarrow> bool" where
  "truthy_name n = (case n of None \<Rightarrow> False | Some s \<Rightarrow> s \<noteq> [])"

text \<open>\<^verbatim>\<open>const yearLabel = y.text || y.value;\<close>\<close>

definition yearLabel :: "yearopt \<Rightarrow> jsstring" where
  "yearLabel y = (if y_text y \<noteq> [] then y_text y else y_value y)"

definition year_file :: "jsstring \<Rightarrow> jsstring" where
  "year_file label = lit ''debitos_'' @ label @ lit ''.json''"

definition aggregate_file :: jsstring where
  "aggregate_file = lit ''debitos_all.json''"

text \<open>\<^verbatim>\<open>{ cnpj: digits, companyName: ..., year: yearLabel, items: found }\<close>\<close>

definition year_payload :: "jsstring \<Rightarrow> json \<Rightarrow> jsstring \<Rightarrow> json list \<Rightarrow> json" where
  "year_payload digits cname label found =
     JObj [(lit ''cnpj'', JStr digits), (lit ''companyName'', cname), (lit ''year'', JStr label),
           (lit ''items'', JArr found)]"

text \<open>\<^verbatim>\<open>{ year: yearLabel, items: found }\<close>\<close>

definition year_result :: "jsstring \<Rightarrow> json list \<Rightarrow> json" where
  "year_result label found = JObj [(lit ''year'', JStr label), (lit ''items'', JArr found)]"

text \<open>
  A year to process: the option, and what each call of \<open>extractDebits\<close> does once the
  year is selected and consulted.
\<close>

type_synonym year_run = "yearopt \<times> (nat \<Rightarrow> thrown + json list)"

text \<open>
  The year loop of the Puppeteer scraper:
  \<^verbatim>\<open>for (const y of years) {
    const yearLabel = y.text || y.value;
    ...
    const found = await safeExtractDebits(page, yearLabel, 3);
    if (found && found.length) {
      const outPath = `debitos_${yearLabel}.json`;
      const payload = { cnpj: digits, companyName: companyName || nomeFromHtml || null, year: yearLabel, items: found };
      try { fs.writeFileSync(outPath, JSON.stringify(payload, null, 2), 'utf8'); ... } catch (e) { ... }
      all.push({ year: yearLabel, items: found });
    } else {
      console.log('Nenhum d\'ebito encontrado para', yearLabel);
    }
  }\<close>
  An error that \<open>safeExtractDebits\<close> lets through ends the loop (the enclosing
  \<open>try\<close> catches it); the result says so, with what was collected and written.
\<close>

fun year_loop_puppeteer ::
    "jsstring \<Rightarrow> json \<Rightarrow> year_run list \<Rightarrow> json list \<Rightarrow> disk \<Rightarrow> thrown option \<times> json list \<times> disk" where
  "year_loop_puppeteer digits cname [] all d = (None, all, d)"
| "year_loop_puppeteer digits cname ((y, attempt) # years) all d =
     (case fst (safeExtractDebits attempt 3) of
        Inl err \<Rightarrow> (Some err, all, d)
      | Inr found \<Rightarrow>
          if found \<noteq> [] then
            year_loop_puppeteer digits cname years (all @ [year_result (yearLabel y) found])
              (writeFileSync (year_file (yearLabel y)) (year_payload digits cname (yearLabel y) found) d)
          else year_loop_puppeteer digits cname years all d)"

text \<open>
  \<^verbatim>\<open>agg.companyName = companyName;\<close> on what \<open>JSON.parse\<close> returned: a property
  of an object is set; on an array or a primitive value nothing of what
  \<open>JSON.stringify\<close> writes changes; on \<open>null\<close> it throws.
\<close>

definition set_companyName :: "jsstring \<Rightarrow> json \<Rightarrow> json option" where
  "set_companyName name agg =
     (case agg of
        JObj props \<Rightarrow> Some (JObj (AList.update (lit ''companyName'') (JStr name) props))
      | JNull \<Rightarrow> None
      | other \<Rightarrow> Some other)"

text \<open>
  The late name of the Puppeteer scraper and of the dispatcher's Playwright scraper:
  \<^verbatim>\<open>const nameFromLabel = await findNameByLabel(page);
  if (nameFromLabel) {
    companyName = nameFromLabel;
    try {
      const aggregatePath = 'debitos_all.json';
      if (fs.existsSync(aggregatePath)) {
        const agg = JSON.parse(fs.readFileSync(aggregatePath, 'utf8'));
        agg.companyName = companyName;
        fs.writeFileSync(aggregatePath, JSON.stringify(agg, null, 2), 'utf8');
      }
    } catch (e) {}
  }\<close>
  The result is the company name and the disk afterwards.
\<close>

definition late_name :: "jsstring option \<Rightarrow> jsstring option \<Rightarrow> disk \<Rightarrow> jsstring option \<times> disk" where
  "late_name nameFromLabel companyName d =
     (case nameFromLabel of
        None \<Rightarrow> (companyName, d)
      | Some name \<Rightarrow>
          if name = [] then (companyName, d)
          else
            (Some name,
             (if existsSync aggregate_file d then
                (case readFileSync aggregate_file d of
                   None \<Rightarrow> d
                 | Some agg \<Rightarrow>
                     (case set_companyName name agg of
                        None \<Rightarrow> d
                      | Some agg' \<Rightarrow> writeFileSync aggregate_file agg' d))
              else d)))"

text \<open>
  The Puppeteer scraper from the year loop on:
  \<^verbatim>\<open>let debitos = [];
  try {
    const years = await getAvailableYears(page);
    if (years && years.length) {
      const all = [];
      for (const y of years) { ... }
      try { fs.writeFileSync(`debitos_all.json`, JSON.stringify({ cnpj: digits,
        companyName: companyName || nomeFromHtml || null, years: all }, null, 2), 'utf8'); } catch (e) {}
      debitos = all;
    } else {
      debitos = await safeExtractDebits(page, YEAR, 3);
    }
  } catch (e) { debitos = []; }
  ... the late name ...
  if (debitos && debitos.length) {
    const outPath = `debitos_${YEAR}.json`;
    const payload = { cnpj: digits, companyName: companyName || null, year: YEAR, items: debitos };
    try { fs.writeFileSync(outPath, ...); } catch (e) { ... }
  }\<close>
\<close>

definition aggregate_puppeteer :: "jsstring \<Rightarrow> json \<Rightarrow> json list \<Rightarrow> json" where
  "aggregate_puppeteer digits cname all =
     JObj [(lit ''cnpj'', JStr digits), (lit ''companyName'', cname), (lit ''years'', JArr all)]"

definition main_puppeteer ::
    "jsstring \<Rightarrow> jsstring option \<Rightarrow> jsstring option \<Rightarrow> jsstring \<Rightarrow> year_run list
      \<Rightarrow> (nat \<Rightarrow> thrown + json list) \<Rightarrow> jsstring option \<Rightarrow> disk \<Rightarrow> disk" where
  "main_puppeteer digits companyName nomeFromHtml YEAR years fallback nameFromLabel d0 =
     (let cname = (if truthy_name companyName then name_or_null companyName else name_or_null nomeFromHtml);
          (debitos, d1) =
            (if years \<noteq> [] then
               (case year_loop_puppeteer digits cname years [] d0 of
                  (None, all, d) \<Rightarrow> (all, writeFileSync aggregate_file (aggregate_puppeteer digits cname all) d)
                | (Some err, all, d) \<Rightarrow> ([], d))
             else
               (case fst (safeExtractDebits fallback 3) of
                  Inl err \<Rightarrow> ([], d0)
                | Inr found \<Rightarrow> (found, d0)));
          (companyName', d2) = late_name nameFromLabel companyName d1
      in if debitos \<noteq> [] then
           writeFileSync (year_file YEAR) (year_payload digits (name_or_null companyName') YEAR debitos) d2
         else d2)"

text \<open>
  The standalone Playwright scraper:
  \<^verbatim>\<open>async function scrapeAllYearsSequential(page, digits, companyName, years) {
    let all = [];
    for (const yearObj of years) {
      const yearLabel = yearObj.text || yearObj.value;
      ...
      const found = await safeExtractDebits(page, yearLabel, 3);
      if (found && found.length) {
        try { fs.writeFileSync(`debitos_${yearLabel}.json`, JSON.stringify({ cnpj: digits,
          companyName: companyName || null, year: yearLabel, items: found }, null, 2), 'utf8'); } catch (e) {}
      }
      all.push({ year: yearLabel, items: found });
    }
    return all;
  }\<close>
  An error that \<open>safeExtractDebits\<close> lets through is not caught: the run ends.
\<close>

fun scrapeAllYearsSequential ::
    "jsstring \<Rightarrow> jsstring option \<Rightarrow> year_run list \<Rightarrow> json list \<Rightarrow> disk \<Rightarrow> thrown option \<times> json list \<times> disk" where
  "scrapeAllYearsSequential digits companyName [] all d = (None, all, d)"
| "scrapeAllYearsSequential digits companyName ((yearObj, attempt) # years) all d =
     (case fst (safeExtractDebits attempt 3) of
        Inl err \<Rightarrow> (Some err, all, d)
      | Inr found \<Rightarrow>
          scrapeAllYearsSequential digits companyName years (all @ [year_result (yearLabel yearObj) found])
            (if found \<noteq> [] then
               writeFileSync (year_file (yearLabel yearObj))
                 (year_payload digits (name_or_null companyName) (yearLabel yearObj) found) d
             else d))"

text \<open>
  \<^verbatim>\<open>if (years && years.length) {
    all = await scrapeAllYearsSequential(page, digits, companyName, years);
    resultJson = { cnpj: digits, companyName: companyName || null,
      availableYears: years.map(y => y.text || y.value),
      notOptanteYears: notOptante.map(y => y.text || y.value),
      allYears: allYears.map(y => y.text || y.value),
      years: all };
    try { fs.writeFileSync('debitos_all.json', JSON.stringify(resultJson, null, 2), 'utf8'); } catch (e) {}
  } else {
    const found = await safeExtractDebits(page, (argvC.year||argvC.y||new Date().getFullYear()), 3);
    resultJson = { ..., years: found };
    try { fs.writeFileSync('debitos_all.json', ...); } catch (e) {}
  }
  let nomeFinal = await page.evaluate(...);
  if (nomeFinal) {
    resultJson.companyName = nomeFinal;
    try { fs.writeFileSync('debitos_all.json', JSON.stringify(resultJson, null, 2), 'utf8'); } catch (e) {}
  }\<close>
\<close>

definition resultJson_props ::
    "jsstring \<Rightarrow> jsstring option \<Rightarrow> yearopt list \<Rightarrow> yearopt list \<Rightarrow> yearopt list \<Rightarrow> json list
      \<Rightarrow> (jsstring \<times> json) list" where
  "resultJson_props digits companyName years notOpt allYears all =
     [(lit ''cnpj'', JStr digits), (lit ''companyName'', name_or_null companyName),
      (lit ''availableYears'', JArr (map (JStr \<circ> yearLabel) years)),
      (lit ''notOptanteYears'', JArr (map (JStr \<circ> yearLabel) notOpt)),
      (lit ''allYears'', JArr (map (JStr \<circ> yearLabel) allYears)),
      (lit ''years'', JArr all)]"

definition nomeFinal_update :: "jsstring option \<Rightarrow> (jsstring \<times> json) list \<Rightarrow> disk \<Rightarrow> disk" where
  "nomeFinal_update nomeFinal resultJson d =
     (case nomeFinal of
        None \<Rightarrow> d
      | Some name \<Rightarrow>
          if name = [] then d
          else writeFileSync aggregate_file
                 (JObj (AList.update (lit ''companyName'') (JStr name) resultJson)) d)"

definition main_playwright ::
    "jsstring \<Rightarrow> jsstring option \<Rightarrow> year_run list \<Rightarrow> yearopt list \<Rightarrow> yearopt list
      \<Rightarrow> (nat \<Rightarrow> thrown + json list) \<Rightarrow> jsstring option \<Rightarrow> disk \<Rightarrow> thrown option \<times> disk" where
  "main_playwright digits companyName years notOpt allYears fallback nomeFinal d0 =
     (if years \<noteq> [] then
        (case scrapeAllYearsSequential digits companyName years [] d0 of
           (Some err, all, d) \<Rightarrow> (Some err, d)
         | (None, all, d) \<Rightarrow>
             (let resultJson = resultJson_props digits companyName (map fst years) notOpt allYears all
              in (None, nomeFinal_update nomeFinal resultJson
                          (writeFileSync aggregate_file (JObj resultJson) d))))
      else
        (case fst (safeExtractDebits fallback 3) of
           Inl err \<Rightarrow> (Some err, d0)
         | Inr found \<Rightarrow>
             (let resultJson = resultJson_props digits companyName [] notOpt allYears found
              in (None, nomeFinal_update nomeFinal resultJson
                          (writeFileSync aggregate_file (JObj resultJson) d0)))))"

text \<open>
  For stating the filters: \<open>s\<close> contains a currency-shaped substring when the
  regular expression matches at some index of \<open>s\<close>.
\<close>

definition has_currency :: "jsstring \<Rightarrow> bool" where
  "has_currency s = list_ex (\<lambda>i. currency_len (drop i s) \<noteq> None) [0..<length s]"

text \<open>
  For stating what a run leaves behind: the records \<open>safeExtractDebits\<close> returns
  for a year, the result entry of a year, and the per-year files of a list of years (one
  for each year with at least one record, in the order of the years).
\<close>

definition found_by :: "(nat \<Rightarrow> thrown + json list) \<Rightarrow> json list" where
  "found_by attempt = (case fst (safeExtractDebits attempt 3) of Inr found \<Rightarrow> found | Inl err \<Rightarrow> [])"

definition returns :: "(nat \<Rightarrow> thrown + json list) \<Rightarrow> bool" where
  "returns attempt = (case fst (safeExtractDebits attempt 3) of Inr found \<Rightarrow> True | Inl err \<Rightarrow> False)"

definition result_of :: "year_run \<Rightarrow> json" where
  "result_of run = year_result (yearLabel (fst run)) (found_by (snd run))"

definition year_writes :: "jsstring \<Rightarrow> json \<Rightarrow> year_run list \<Rightarrow> disk" where
  "year_writes digits cname years =
     map (\<lambda>run. (year_file (yearLabel (fst run)),
                  year_payload digits cname (yearLabel (fst run)) (found_by (snd run))))
       (filter (\<lambda>run. found_by (snd run) \<noteq> []) years)"

section \<open>Properties: identifier normalization\<close>

text \<open>
  C8 (as amended). \<open>normalizeCNPJ\<close> returns exactly the digits of its input in their
  order, and is idempotent on every string. \<open>sanitizeCNPJ\<close> returns \<open>null\<close> for
  the empty string and the same digits for every other string; applied to a non-empty
  result of its own it returns that result.
\<close>

theorem normalize_digits_idempotent:
  "normalizeCNPJ x = filter isDigit x
   \<and> list_all isDigit (normalizeCNPJ x)
   \<and> normalizeCNPJ (normalizeCNPJ x) = normalizeCNPJ x
   \<and> sanitizeCNPJ [] = None
   \<and> (x \<noteq> [] \<longrightarrow> sanitizeCNPJ x = Some (filter isDigit x))
   \<and> (sanitizeCNPJ x = Some y \<and> y \<noteq> [] \<longrightarrow> sanitizeCNPJ y = Some y)"
  by (auto simp: normalizeCNPJ_def sanitizeCNPJ_def remove_class_def list_all_iff split: if_splits)

theorem normalize_digits_idempotent_witness:
  "lit ''12.345.678/0001-95'' \<noteq> []
   \<and> normalizeCNPJ (lit ''12.345.678/0001-95'') = lit ''12345678000195''
   \<and> sanitizeCNPJ (lit ''12.345.678/0001-95'') = Some (lit ''12345678000195'')
   \<and> lit ''12345678000195'' \<noteq> []
   \<and> sanitizeCNPJ (lit ''12345678000195'') = Some (lit ''12345678000195'')"
  using normalize_digits_idempotent [of "lit ''12.345.678/0001-95''" "lit ''12345678000195''"]
  by (simp add: lit_def isDigit_def)

text \<open>
  As stated for every string, C8 fails for \<open>sanitizeCNPJ\<close>: of a string without
  digits it makes the empty string, and of the empty string \<open>null\<close>.
\<close>

theorem sanitize_not_idempotent_counterexample:
  "sanitizeCNPJ (lit ''-'') = Some []
   \<and> Option.bind (sanitizeCNPJ (lit ''-'')) sanitizeCNPJ = None
   \<and> Option.bind (sanitizeCNPJ (lit ''-'')) sanitizeCNPJ \<noteq> sanitizeCNPJ (lit ''-'')
   \<and> sanitizeCNPJ [] \<noteq> Some (filter isDigit [])"
  by (simp add: sanitizeCNPJ_def remove_class_def lit_def isDigit_def)

section \<open>Properties: the dispatcher's cache\<close>

lemma update_fresh_append: "k \<notin> fst ` set al \<Longrightarrow> AList.update k v al = al @ [(k, v)]"
  by (induction al) auto

lemma update_after_delete: "AList.update k v (AList.delete k al) = AList.delete k al @ [(k, v)]"
  by (rule update_fresh_append) (auto simp: AList.delete_eq)

lemma map_of_delete_append: "map_of (AList.delete k al @ [(k, v)]) k = Some v"
  by (simp add: map_add_def delete_conv)

text \<open>
  C7. \<open>getFromCache\<close> answers with an entry only while its age is within
  \<open>CACHE_TTL\<close>; a stale entry is deleted and the answer is a miss. On a hit the
  entry moves to the newest position with its timestamp as it was, so a later call
  beyond the time-to-live of that timestamp is a miss all the same. \<open>setToCache\<close>
  at capacity deletes the key at the oldest position before it sets the new entry;
  below capacity it deletes nothing.
\<close>

theorem cache_ttl_and_insertion_order:
  "(map_of cache key = None \<longrightarrow> getFromCache now key cache = (None, cache))
   \<and> (getFromCache now key cache = (Some r, c') \<longrightarrow>
        (\<exists>e. map_of cache key = Some e \<and> e_value e = r \<and> now - ts e \<le> CACHE_TTL))
   \<and> (map_of cache key = Some stale \<and> now - ts stale > CACHE_TTL \<longrightarrow>
        getFromCache now key cache = (None, AList.delete key cache))
   \<and> (map_of cache key = Some e \<and> now - ts e \<le> CACHE_TTL \<longrightarrow>
        getFromCache now key cache = (Some (e_value e), AList.delete key cache @ [(key, e)])
        \<and> (later - ts e > CACHE_TTL \<longrightarrow>
             getFromCache later key (snd (getFromCache now key cache)) = (None, AList.delete key cache)))
   \<and> (length full \<ge> CACHE_MAX \<and> full = (oldest, oldest_entry) # others \<longrightarrow>
        setToCache now key v full = AList.update key \<lparr>ts = now, e_value = v\<rparr> (AList.delete oldest full)
        \<and> (oldest \<noteq> key \<longrightarrow> map_of (setToCache now key v full) oldest = None))
   \<and> (length cache < CACHE_MAX \<longrightarrow>
        setToCache now key v cache = AList.update key \<lparr>ts = now, e_value = v\<rparr> cache)"
proof (intro conjI impI)
  show "getFromCache now key cache = (None, cache)" if "map_of cache key = None"
    using that by (simp add: getFromCache_def)
  show "\<exists>e. map_of cache key = Some e \<and> e_value e = r \<and> now - ts e \<le> CACHE_TTL"
    if "getFromCache now key cache = (Some r, c')"
    using that by (auto simp: getFromCache_def split: option.splits if_splits)
  show "getFromCache now key cache = (None, AList.delete key cache)"
    if "map_of cache key = Some stale \<and> now - ts stale > CACHE_TTL"
    using that by (simp add: getFromCache_def)
  show hit: "getFromCache now key cache = (Some (e_value e), AList.delete key cache @ [(key, e)])"
    if "map_of cache key = Some e \<and> now - ts e \<le> CACHE_TTL"
    using that by (simp add: getFromCache_def update_after_delete)
  show "getFromCache later key (snd (getFromCache now key cache)) = (None, AList.delete key cache)"
    if h: "map_of cache key = Some e \<and> now - ts e \<le> CACHE_TTL" and l: "later - ts e > CACHE_TTL"
  proof -
    have "AList.delete key (AList.delete key cache @ [(key, e)]) = AList.delete key cache"
      by (simp add: AList.delete_eq)
    moreover have "snd (getFromCache now key cache) = AList.delete key cache @ [(key, e)]"
      by (simp add: hit [OF h])
    ultimately show ?thesis
      using l map_of_delete_append [of key cache e]
      unfolding getFromCache_def [of later] by simp
  qed
  show "setToCache now key v full = AList.update key \<lparr>ts = now, e_value = v\<rparr> (AList.delete oldest full)"
    if "length full \<ge> CACHE_MAX \<and> full = (oldest, oldest_entry) # others"
    using that by (auto simp: setToCache_def delete_first_def)
  show "map_of (setToCache now key v full) oldest = None"
    if "length full \<ge> CACHE_MAX \<and> full = (oldest, oldest_entry) # others" and "oldest \<noteq> key"
    using that by (auto simp: setToCache_def delete_first_def update_conv' delete_conv)
  show "setToCache now key v cache = AList.update key \<lparr>ts = now, e_value = v\<rparr> cache"
    if "length cache < CACHE_MAX"
    using that by (simp add: setToCache_def)
qed

theorem cache_ttl_and_insertion_order_witness:
  "getFromCache 600000 (lit ''a'') [(lit ''a'', \<lparr>ts = 0, e_value = 1::nat\<rparr>), (lit ''b'', \<lparr>ts = 5, e_value = 2\<rparr>)]
     = (Some 1, [(lit ''b'', \<lparr>ts = 5, e_value = 2\<rparr>), (lit ''a'', \<lparr>ts = 0, e_value = 1\<rparr>)])
   \<and> getFromCache 600001 (lit ''a'')
        (snd (getFromCache 600000 (lit ''a'')
           [(lit ''a'', \<lparr>ts = 0, e_value = 1::nat\<rparr>), (lit ''b'', \<lparr>ts = 5, e_value = 2\<rparr>)]))
     = (None, [(lit ''b'', \<lparr>ts = 5, e_value = 2\<rparr>)])
   \<and> getFromCache 600006 (lit ''b'') [(lit ''a'', \<lparr>ts = 0, e_value = 1::nat\<rparr>), (lit ''b'', \<lparr>ts = 5, e_value = 2\<rparr>)]
     = (None, [(lit ''a'', \<lparr>ts = 0, e_value = 1\<rparr>)])
   \<and> getFromCache 7 (lit ''c'') [(lit ''a'', \<lparr>ts = 0, e_value = 1::nat\<rparr>)]
     = (None, [(lit ''a'', \<lparr>ts = 0, e_value = 1\<rparr>)])
   \<and> CACHE_MAX \<le> length (([1000], \<lparr>ts = 0, e_value = 0::nat\<rparr>) # map (\<lambda>i. ([i], \<lparr>ts = 1, e_value = i\<rparr>)) [0..<199])
   \<and> map_of (setToCache 9 (lit ''new'') 3
        (([1000], \<lparr>ts = 0, e_value = 0::nat\<rparr>) # map (\<lambda>i. ([i], \<lparr>ts = 1, e_value = i\<rparr>)) [0..<199])) [1000] = None
   \<and> setToCache 9 (lit ''b'') 3 [(lit ''a'', \<lparr>ts = 0, e_value = 1::nat\<rparr>)]
     = [(lit ''a'', \<lparr>ts = 0, e_value = 1\<rparr>), (lit ''b'', \<lparr>ts = 9, e_value = 3\<rparr>)]"
proof -
  let ?a = "\<lparr>ts = 0, e_value = 1::nat\<rparr>" and ?b = "\<lparr>ts = 5, e_value = 2::nat\<rparr>"
  let ?A = "[(lit ''a'', ?a), (lit ''b'', ?b)]"
  let ?others = "map (\<lambda>i. ([i], \<lparr>ts = 1, e_value = i\<rparr>)) [0..<199]"
  let ?full = "([1000], \<lparr>ts = 0, e_value = 0::nat\<rparr>) # ?others"
  have fresh: "map_of ?A (lit ''a'') = Some ?a \<and> 600000 - ts ?a \<le> CACHE_TTL"
    and later: "600001 - ts ?a > CACHE_TTL"
    and stale: "map_of ?A (lit ''b'') = Some ?b \<and> 600006 - ts ?b > CACHE_TTL"
    and absent: "map_of [(lit ''a'', ?a)] (lit ''c'') = None"
    and full: "CACHE_MAX \<le> length ?full \<and> ?full = ([1000], \<lparr>ts = 0, e_value = 0::nat\<rparr>) # ?others"
    and other: "[1000] \<noteq> lit ''new''"
    and room: "length [(lit ''a'', ?a)] < CACHE_MAX"
    by (simp_all add: lit_def CACHE_TTL_def CACHE_MAX_def)
  have del_a: "AList.delete (lit ''a'') ?A = [(lit ''b'', ?b)]"
    and del_b: "AList.delete (lit ''b'') ?A = [(lit ''a'', ?a)]"
    and upd: "AList.update (lit ''b'') \<lparr>ts = 9, e_value = 3::nat\<rparr> [(lit ''a'', ?a)]
        = [(lit ''a'', ?a), (lit ''b'', \<lparr>ts = 9, e_value = 3\<rparr>)]"
    by (simp_all add: lit_def AList.delete_eq)
  have "getFromCache 600000 (lit ''a'') ?A
      = (Some (e_value ?a), AList.delete (lit ''a'') ?A @ [(lit ''a'', ?a)])"
    using cache_ttl_and_insertion_order [where cache = ?A and key = "lit ''a''" and now = 600000
        and e = ?a] fresh by blast
  then have hit: "getFromCache 600000 (lit ''a'') ?A = (Some 1, [(lit ''b'', ?b), (lit ''a'', ?a)])"
    unfolding del_a by simp
  have "getFromCache 600001 (lit ''a'') (snd (getFromCache 600000 (lit ''a'') ?A))
      = (None, AList.delete (lit ''a'') ?A)"
    using cache_ttl_and_insertion_order [where cache = ?A and key = "lit ''a''" and now = 600000
        and e = ?a and later = 600001] fresh later by blast
  then have expired: "getFromCache 600001 (lit ''a'') (snd (getFromCache 600000 (lit ''a'') ?A))
      = (None, [(lit ''b'', ?b)])"
    unfolding del_a by simp
  have "getFromCache 600006 (lit ''b'') ?A = (None, AList.delete (lit ''b'') ?A)"
    using cache_ttl_and_insertion_order [where cache = ?A and key = "lit ''b''" and now = 600006
        and stale = ?b] stale by blast
  then have miss: "getFromCache 600006 (lit ''b'') ?A = (None, [(lit ''a'', ?a)])"
    unfolding del_b by simp
  have none: "getFromCache 7 (lit ''c'') [(lit ''a'', ?a)] = (None, [(lit ''a'', ?a)])"
    using cache_ttl_and_insertion_order [where cache = "[(lit ''a'', ?a)]" and key = "lit ''c''"
        and now = 7] absent by blast
  have evicted: "map_of (setToCache 9 (lit ''new'') 3 ?full) [1000] = None"
    using cache_ttl_and_insertion_order [where full = ?full and key = "lit ''new''" and now = 9
        and v = 3 and oldest = "[1000]" and oldest_entry = "\<lparr>ts = 0, e_value = 0::nat\<rparr>"
        and others = ?others] full other by blast
  have "setToCache 9 (lit ''b'') 3 [(lit ''a'', ?a)]
      = AList.update (lit ''b'') \<lparr>ts = 9, e_value = 3\<rparr> [(lit ''a'', ?a)]"
    using cache_ttl_and_insertion_order [where cache = "[(lit ''a'', ?a)]" and key = "lit ''b''"
        and now = 9 and v = 3] room by blast
  then have added: "setToCache 9 (lit ''b'') 3 [(lit ''a'', ?a)]
      = [(lit ''a'', ?a), (lit ''b'', \<lparr>ts = 9, e_value = 3\<rparr>)]"
    unfolding upd by simp
  from hit expired miss none full evicted added show ?thesis
    by blast
qed

lemma map_of_setToCache: "map_of (setToCache now key v cache) key = Some \<lparr>ts = now, e_value = v\<rparr>"
  by (simp add: setToCache_def update_conv')

lemma map_of_setToCache_other:
  "k \<noteq> key \<Longrightarrow> map_of cache k = None \<Longrightarrow> map_of (setToCache now key v cache) k = None"
  by (cases cache) (auto simp: setToCache_def delete_first_def update_conv' delete_conv')

lemma sanitizeCNPJ_digits: "sanitizeCNPJ s = Some raw \<Longrightarrow> list_all isDigit raw"
  by (auto simp: sanitizeCNPJ_def remove_class_def list_all_iff split: if_splits)

lemma bar_split:
  fixes a b x y :: "nat list"
  assumes "124 \<notin> set a" and "124 \<notin> set b" and "a @ 124 # x = b @ 124 # y"
  shows "a = b \<and> x = y"
proof -
  have "takeWhile (\<lambda>c. c \<noteq> (124::nat)) (a @ 124 # x) = a"
    using assms(1) by (induction a) auto
  moreover have "takeWhile (\<lambda>c. c \<noteq> (124::nat)) (b @ 124 # y) = b"
    using assms(2) by (induction b) auto
  ultimately have "a = b"
    using assms(3) by simp
  with assms(3) show ?thesis
    by simp
qed

lemma digits_no_bar: "list_all isDigit a \<Longrightarrow> 124 \<notin> set a"
  by (auto simp: list_all_iff isDigit_def)

lemma includes_bar: "js_includes s (lit ''|'') \<longleftrightarrow> 124 \<in> set s"
  by (induction s) (auto simp: lit_def)

lemma makeKey_eq:
  "makeKey (Some a) y m = a @ 124 # or_empty y @ 124 # or_empty m"
  by (simp add: makeKey_def or_empty_def lit_def)

text \<open>
  C10. The cache key is made of the normalized identifier, the year and the month
  only: it is the digits of the identifier, a bar, the year, a bar and the month, an
  absent year or month giving the empty string. When a request missed the cache, its
  engine ran and the exit callback stored the result, a second request with the same
  normalized identifier, year and month is answered with that result from the cache
  within the time-to-live, whatever engine and headless flag either request names. A
  request whose normalized identifier is another one, or whose year (no bar in either
  year) or month is another one, has another key: when the cache held nothing for that
  key, it is not answered from the cache and its engine is run.
\<close>

theorem cache_key_ignores_engine:
  assumes same_id: "sanitizeCNPJ (or_empty (rq_cnpj r1)) = sanitizeCNPJ (or_empty (rq_cnpj r2))"
    and same_year: "or_empty (rq_year r1) = or_empty (rq_year r2)"
    and same_month: "or_empty (rq_month r1) = or_empty (rq_month r2)"
    and first: "post_scrape truthy t1 r1 cache = (Spawn script1 args1 key, cache1)"
    and stored: "on_exit t2 key (Parsed result) cache1 = (reply, cache2)"
    and truthy: "truthy result"
    and fresh: "t3 - t2 \<le> CACHE_TTL"
  shows "(\<exists>cnpjRaw. sanitizeCNPJ (or_empty (rq_cnpj r2)) = Some cnpjRaw
            \<and> key = makeKey (Some cnpjRaw) (rq_year r2) (rq_month r2)
            \<and> key = cnpjRaw @ lit ''|'' @ (case rq_year r2 of None \<Rightarrow> [] | Some y \<Rightarrow> y)
                      @ lit ''|'' @ (case rq_month r2 of None \<Rightarrow> [] | Some m \<Rightarrow> m))
         \<and> fst (post_scrape truthy t3 r2 cache2) = AnswerCached result
         \<and> (\<forall>r3 raw3. sanitizeCNPJ (or_empty (rq_cnpj r3)) = Some raw3 \<and> 11 \<le> length raw3
               \<and> (sanitizeCNPJ (or_empty (rq_cnpj r3)) \<noteq> sanitizeCNPJ (or_empty (rq_cnpj r2))
                  \<or> (or_empty (rq_year r3) \<noteq> or_empty (rq_year r2)
                      \<and> \<not> js_includes (or_empty (rq_year r3)) (lit ''|'')
                      \<and> \<not> js_includes (or_empty (rq_year r2)) (lit ''|''))
                  \<or> (or_empty (rq_year r3) = or_empty (rq_year r2)
                      \<and> or_empty (rq_month r3) \<noteq> or_empty (rq_month r2)))
               \<and> map_of cache1 (makeKey (Some raw3) (rq_year r3) (rq_month r3)) = None
             \<longrightarrow> makeKey (Some raw3) (rq_year r3) (rq_month r3) \<noteq> key
                 \<and> (\<exists>script3 args3. post_scrape truthy t3 r3 cache2
                       = (Spawn script3 args3 (makeKey (Some raw3) (rq_year r3) (rq_month r3)), cache2)))"
proof -
  from first obtain cnpjRaw where raw: "sanitizeCNPJ (or_empty (rq_cnpj r1)) = Some cnpjRaw"
      and valid: "\<not> (cnpjRaw = [] \<or> length cnpjRaw < 11)"
      and key: "key = makeKey (Some cnpjRaw) (rq_year r1) (rq_month r1)"
    by (auto simp: post_scrape_def Let_def split: option.splits if_splits prod.splits)
  have key2: "key = makeKey (Some cnpjRaw) (rq_year r2) (rq_month r2)"
    using key same_year same_month by (simp add: makeKey_def)
  from stored have c2: "cache2 = setToCache t2 key result cache1"
    by (simp add: on_exit_def)
  have hit: "getFromCache t3 key cache2
      = (Some result, AList.update key \<lparr>ts = t2, e_value = result\<rparr> (AList.delete key cache2))"
    using fresh by (simp add: getFromCache_def c2 map_of_setToCache)
  have answered: "fst (post_scrape truthy t3 r2 cache2) = AnswerCached result"
    using raw valid key2 hit truthy same_id
    by (simp add: post_scrape_def Let_def)
  have explicit: "key = cnpjRaw @ lit ''|'' @ (case rq_year r2 of None \<Rightarrow> [] | Some y \<Rightarrow> y)
                      @ lit ''|'' @ (case rq_month r2 of None \<Rightarrow> [] | Some m \<Rightarrow> m)"
    unfolding key2 by (simp add: makeKey_def or_empty_def)
  have others: "makeKey (Some raw3) (rq_year r3) (rq_month r3) \<noteq> key
                 \<and> (\<exists>script3 args3. post_scrape truthy t3 r3 cache2
                       = (Spawn script3 args3 (makeKey (Some raw3) (rq_year r3) (rq_month r3)), cache2))"
    if h: "sanitizeCNPJ (or_empty (rq_cnpj r3)) = Some raw3 \<and> 11 \<le> length raw3
               \<and> (sanitizeCNPJ (or_empty (rq_cnpj r3)) \<noteq> sanitizeCNPJ (or_empty (rq_cnpj r2))
                  \<or> (or_empty (rq_year r3) \<noteq> or_empty (rq_year r2)
                      \<and> \<not> js_includes (or_empty (rq_year r3)) (lit ''|'')
                      \<and> \<not> js_includes (or_empty (rq_year r2)) (lit ''|''))
                  \<or> (or_empty (rq_year r3) = or_empty (rq_year r2)
                      \<and> or_empty (rq_month r3) \<noteq> or_empty (rq_month r2)))
               \<and> map_of cache1 (makeKey (Some raw3) (rq_year r3) (rq_month r3)) = None"
    for r3 raw3
  proof -
    let ?k3 = "makeKey (Some raw3) (rq_year r3) (rq_month r3)"
    from h have raw3: "sanitizeCNPJ (or_empty (rq_cnpj r3)) = Some raw3" and len3: "11 \<le> length raw3"
      and absent: "map_of cache1 ?k3 = None"
      by blast+
    have nb3: "124 \<notin> set raw3"
      using sanitizeCNPJ_digits [OF raw3] by (rule digits_no_bar)
    have nb: "124 \<notin> set cnpjRaw"
      using sanitizeCNPJ_digits [OF raw] by (rule digits_no_bar)
    have ne: "?k3 \<noteq> key"
    proof
      assume "?k3 = key"
      then have eq: "raw3 @ 124 # or_empty (rq_year r3) @ 124 # or_empty (rq_month r3)
          = cnpjRaw @ 124 # or_empty (rq_year r2) @ 124 # or_empty (rq_month r2)"
        unfolding key2 makeKey_eq .
      from bar_split [OF nb3 nb eq] have ids: "raw3 = cnpjRaw"
        and rest: "or_empty (rq_year r3) @ 124 # or_empty (rq_month r3)
          = or_empty (rq_year r2) @ 124 # or_empty (rq_month r2)"
        by blast+
      from h ids raw3 raw same_id consider
          (year) "or_empty (rq_year r3) \<noteq> or_empty (rq_year r2)"
            "124 \<notin> set (or_empty (rq_year r3))" "124 \<notin> set (or_empty (rq_year r2))"
        | (month) "or_empty (rq_year r3) = or_empty (rq_year r2)"
            "or_empty (rq_month r3) \<noteq> or_empty (rq_month r2)"
        by (auto simp: includes_bar)
      then show False
      proof cases
        case year
        from bar_split [OF year(2,3) rest] year(1) show False by blast
      next
        case month
        with rest show False by simp
      qed
    qed
    have "map_of cache2 ?k3 = None"
      unfolding c2 using ne absent by (rule map_of_setToCache_other)
    then have "getFromCache t3 ?k3 cache2 = (None, cache2)"
      by (simp add: getFromCache_def)
    with raw3 len3 have "\<exists>script3 args3. post_scrape truthy t3 r3 cache2 = (Spawn script3 args3 ?k3, cache2)"
      by (auto simp: post_scrape_def Let_def)
    with ne show ?thesis
      by blast
  qed
  from raw same_id key2 explicit answered others show ?thesis
    by (intro conjI exI [of _ cnpjRaw] allI impI) simp_all
qed

theorem cache_key_ignores_engine_witness:
  "post_scrape (\<lambda>j. j \<noteq> JNull) 0
      \<lparr>rq_cnpj = Some (lit ''12.345.678/0001-95''), rq_year = Some (lit ''2024''), rq_month = None,
       rq_noHeadless = False, rq_engine = Str (lit ''playwright'')\<rparr> []
     = (Spawn SCRAPE_PLAYWRIGHT [lit ''--cnpj=12345678000195'', lit ''--year=2024'']
          (lit ''12345678000195|2024|''), [])
   \<and> fst (post_scrape (\<lambda>j. j \<noteq> JNull) 600000
        \<lparr>rq_cnpj = Some (lit ''12345678000195''), rq_year = Some (lit ''2024''), rq_month = None,
         rq_noHeadless = True, rq_engine = Falsy\<rparr>
        (setToCache 0 (lit ''12345678000195|2024|'') (JObj []) []))
     = AnswerCached (JObj [])
   \<and> (\<exists>script3 args3.
        post_scrape (\<lambda>j. j \<noteq> JNull) 600000
          \<lparr>rq_cnpj = Some (lit ''12345678000195''), rq_year = Some (lit ''2023''), rq_month = None,
           rq_noHeadless = False, rq_engine = Str (lit ''playwright'')\<rparr>
          (setToCache 0 (lit ''12345678000195|2024|'') (JObj []) [])
        = (Spawn script3 args3 (lit ''12345678000195|2023|''),
           setToCache 0 (lit ''12345678000195|2024|'') (JObj []) []))"
proof -
  let ?r1 = "\<lparr>rq_cnpj = Some (lit ''12.345.678/0001-95''), rq_year = Some (lit ''2024''),
      rq_month = None, rq_noHeadless = False, rq_engine = Str (lit ''playwright'')\<rparr>"
  let ?r2 = "\<lparr>rq_cnpj = Some (lit ''12345678000195''), rq_year = Some (lit ''2024''),
      rq_month = None, rq_noHeadless = True, rq_engine = Falsy\<rparr>"
  let ?r3 = "\<lparr>rq_cnpj = Some (lit ''12345678000195''), rq_year = Some (lit ''2023''),
      rq_month = None, rq_noHeadless = False, rq_engine = Str (lit ''playwright'')\<rparr>"
  let ?key = "lit ''12345678000195|2024|''"
  let ?truthy = "\<lambda>j. j \<noteq> JNull"
  have same: "sanitizeCNPJ (or_empty (rq_cnpj ?r1)) = sanitizeCNPJ (or_empty (rq_cnpj ?r2))"
    by (simp add: sanitizeCNPJ_def or_empty_def remove_class_def isDigit_def lit_def)
  have first: "post_scrape ?truthy 0 ?r1 []
      = (Spawn SCRAPE_PLAYWRIGHT [lit ''--cnpj=12345678000195'', lit ''--year=2024''] ?key, [])"
    by (simp add: post_scrape_def sanitizeCNPJ_def or_empty_def remove_class_def isDigit_def
        lit_def makeKey_def getFromCache_def)
  have stored: "on_exit 0 ?key (Parsed (JObj [])) []
      = (Success (JObj []), setToCache 0 ?key (JObj []) [])"
    by (simp add: on_exit_def)
  have fresh: "600000 - 0 \<le> CACHE_TTL"
    by (simp add: CACHE_TTL_def)
  note all = cache_key_ignores_engine [OF same _ _ first stored _ fresh]
  have answered: "fst (post_scrape ?truthy 600000 ?r2 (setToCache 0 ?key (JObj []) []))
      = AnswerCached (JObj [])"
    using all by simp
  have raw3: "sanitizeCNPJ (or_empty (rq_cnpj ?r3)) = Some (lit ''12345678000195'')"
    by (simp add: sanitizeCNPJ_def or_empty_def remove_class_def isDigit_def lit_def)
  have key3: "makeKey (Some (lit ''12345678000195'')) (rq_year ?r3) (rq_month ?r3)
      = lit ''12345678000195|2023|''"
    by (simp add: makeKey_def or_empty_def lit_def)
  have other: "sanitizeCNPJ (or_empty (rq_cnpj ?r3)) = Some (lit ''12345678000195'')
      \<and> 11 \<le> length (lit ''12345678000195'')
      \<and> (sanitizeCNPJ (or_empty (rq_cnpj ?r3)) \<noteq> sanitizeCNPJ (or_empty (rq_cnpj ?r2))
           \<or> (or_empty (rq_year ?r3) \<noteq> or_empty (rq_year ?r2)
               \<and> \<not> js_includes (or_empty (rq_year ?r3)) (lit ''|'')
               \<and> \<not> js_includes (or_empty (rq_year ?r2)) (lit ''|''))
           \<or> (or_empty (rq_year ?r3) = or_empty (rq_year ?r2)
               \<and> or_empty (rq_month ?r3) \<noteq> or_empty (rq_month ?r2)))
      \<and> map_of [] (makeKey (Some (lit ''12345678000195'')) (rq_year ?r3) (rq_month ?r3)) = None"
    unfolding raw3 by (simp add: or_empty_def lit_def)
  have "\<exists>script3 args3. post_scrape ?truthy 600000 ?r3 (setToCache 0 ?key (JObj []) [])
      = (Spawn script3 args3 (makeKey (Some (lit ''12345678000195'')) (rq_year ?r3) (rq_month ?r3)),
         setToCache 0 ?key (JObj []) [])"
    using all [THEN conjunct2, THEN conjunct2, rule_format, OF _ _ _ other] by simp
  then have spawned: "\<exists>script3 args3. post_scrape ?truthy 600000 ?r3 (setToCache 0 ?key (JObj []) [])
      = (Spawn script3 args3 (lit ''12345678000195|2023|''), setToCache 0 ?key (JObj []) [])"
    unfolding key3 .
  from first answered spawned show ?thesis
    by blast
qed

section \<open>Properties: the retry wrapper\<close>

lemma safe_loop_retry:
  assumes "\<exists>e. attempt i = Inl e \<and> context_lost (error_msg e)" and "i < tries"
  shows "safe_loop attempt tries i = safe_loop attempt tries (Suc i)"
  using assms by (subst safe_loop.simps) auto

lemma safe_loop_skip:
  assumes "\<forall>j. i \<le> j \<and> j < k \<longrightarrow> (\<exists>e. attempt j = Inl e \<and> context_lost (error_msg e))"
    and "i \<le> k" and "k \<le> tries"
  shows "safe_loop attempt tries i = safe_loop attempt tries k"
  using assms
proof (induction "k - i" arbitrary: i)
  case 0
  then show ?case by simp
next
  case (Suc n)
  then have "i < k" by simp
  with Suc.prems have "safe_loop attempt tries i = safe_loop attempt tries (Suc i)"
    by (intro safe_loop_retry) auto
  also have "\<dots> = safe_loop attempt tries k"
    using Suc.prems Suc.hyps(2) \<open>i < k\<close> by (intro Suc.hyps(1)) auto
  finally show ?case .
qed

lemma context_lost_example:
  "context_lost (error_msg \<lparr>err_name = lit ''Error'',
     err_message = lit ''Execution context was destroyed, most likely because of a navigation.''\<rparr>)"
  by (simp add: context_lost_def error_msg_def lit_def)

lemma timeout_example:
  "\<not> context_lost (error_msg \<lparr>err_name = lit ''TimeoutError'', err_message = lit ''Timeout 30000ms exceeded''\<rparr>)"
  by (simp add: context_lost_def error_msg_def lit_def)

text \<open>
  C2. With three attempts: when the first two calls fail with an error whose message
  says that the execution context was lost and the third returns, its result is
  returned; an error of another kind is thrown on at once, after the failing call and no
  further one; and three failures of the retried kind give the empty list, not an error.
  The second component is the number of calls of \<open>extractDebits\<close> made.
\<close>

theorem safeExtractDebits_three_attempts:
  "(attempt 0 = Inl first_err \<and> context_lost (error_msg first_err) \<and> attempt 1 = Inl second_err \<and> context_lost (error_msg second_err)
      \<and> attempt 2 = Inr found \<longrightarrow> safeExtractDebits attempt 3 = (Inr found, 3))
   \<and> (i < 3 \<and> (\<forall>j. j < i \<longrightarrow> (\<exists>e. attempt j = Inl e \<and> context_lost (error_msg e)))
      \<and> attempt i = Inl err \<and> \<not> context_lost (error_msg err)
      \<longrightarrow> safeExtractDebits attempt 3 = (Inl err, Suc i))
   \<and> ((\<forall>j. j < 3 \<longrightarrow> (\<exists>e. attempt j = Inl e \<and> context_lost (error_msg e)))
      \<longrightarrow> safeExtractDebits attempt 3 = (Inr [], 3))"
proof (intro conjI impI)
  assume h: "attempt 0 = Inl first_err \<and> context_lost (error_msg first_err) \<and> attempt 1 = Inl second_err
      \<and> context_lost (error_msg second_err) \<and> attempt 2 = Inr found"
  have "\<forall>j. 0 \<le> j \<and> j < 2 \<longrightarrow> (\<exists>e. attempt j = Inl e \<and> context_lost (error_msg e))"
  proof (intro allI impI)
    fix j :: nat assume "0 \<le> j \<and> j < 2"
    then have "j = 0 \<or> j = 1" by auto
    with h show "\<exists>e. attempt j = Inl e \<and> context_lost (error_msg e)" by auto
  qed
  then have "safe_loop attempt 3 0 = safe_loop attempt 3 2"
    by (rule safe_loop_skip) simp_all
  also have "\<dots> = (Inr found, 3)"
    using h by (subst safe_loop.simps) (simp add: numeral_3_eq_3)
  finally show "safeExtractDebits attempt 3 = (Inr found, 3)"
    by (simp add: safeExtractDebits_def)
next
  assume h: "i < 3 \<and> (\<forall>j. j < i \<longrightarrow> (\<exists>e. attempt j = Inl e \<and> context_lost (error_msg e)))
      \<and> attempt i = Inl err \<and> \<not> context_lost (error_msg err)"
  then have "safe_loop attempt 3 0 = safe_loop attempt 3 i"
    by (intro safe_loop_skip) auto
  also have "\<dots> = (Inl err, Suc i)"
    using h by (subst safe_loop.simps) simp
  finally show "safeExtractDebits attempt 3 = (Inl err, Suc i)"
    by (simp add: safeExtractDebits_def)
next
  assume h: "\<forall>j. j < 3 \<longrightarrow> (\<exists>e. attempt j = Inl e \<and> context_lost (error_msg e))"
  then have "safe_loop attempt 3 0 = safe_loop attempt 3 3"
    by (intro safe_loop_skip) auto
  also have "\<dots> = (Inr [], 3)"
    by (subst safe_loop.simps) simp
  finally show "safeExtractDebits attempt 3 = (Inr [], 3)"
    by (simp add: safeExtractDebits_def)
qed

theorem safeExtractDebits_three_attempts_witness:
  "safeExtractDebits (\<lambda>i. if i < 2 then Inl \<lparr>err_name = lit ''Error'',
        err_message = lit ''Execution context was destroyed, most likely because of a navigation.''\<rparr>
      else Inr [1::nat, 2, 3]) 3 = (Inr [1, 2, 3], 3)
   \<and> safeExtractDebits (\<lambda>i. if i = 0 then Inl \<lparr>err_name = lit ''Error'',
        err_message = lit ''Execution context was destroyed, most likely because of a navigation.''\<rparr>
      else Inl \<lparr>err_name = lit ''TimeoutError'', err_message = lit ''Timeout 30000ms exceeded''\<rparr>) 3
     = (Inl \<lparr>err_name = lit ''TimeoutError'', err_message = lit ''Timeout 30000ms exceeded''\<rparr> :: thrown + nat list, 2)
   \<and> safeExtractDebits (\<lambda>i. Inl \<lparr>err_name = lit ''Error'',
        err_message = lit ''Execution context was destroyed, most likely because of a navigation.''\<rparr>) 3
     = (Inr ([] :: nat list), 3)"
proof -
  let ?lost = "\<lparr>err_name = lit ''Error'',
        err_message = lit ''Execution context was destroyed, most likely because of a navigation.''\<rparr>"
  let ?other = "\<lparr>err_name = lit ''TimeoutError'', err_message = lit ''Timeout 30000ms exceeded''\<rparr>"
  let ?A = "\<lambda>i::nat. if i < 2 then Inl ?lost else (Inr [1::nat, 2, 3] :: thrown + nat list)"
  let ?B = "\<lambda>i::nat. if i = 0 then Inl ?lost else (Inl ?other :: thrown + nat list)"
  let ?C = "\<lambda>i::nat. (Inl ?lost :: thrown + nat list)"
  have a: "safeExtractDebits ?A 3 = (Inr [1, 2, 3], 3)"
    using safeExtractDebits_three_attempts [where attempt = ?A and first_err = ?lost
        and second_err = ?lost and found = "[1, 2, 3]"] context_lost_example
    by simp
  have "\<forall>j. j < (1::nat) \<longrightarrow> (\<exists>e. ?B j = Inl e \<and> context_lost (error_msg e))"
    using context_lost_example by simp
  then have b: "safeExtractDebits ?B 3 = (Inl ?other, 2)"
    using safeExtractDebits_three_attempts [where attempt = ?B and i = 1 and err = ?other]
      timeout_example
    by simp
  have "\<forall>j. j < (3::nat) \<longrightarrow> (\<exists>e. ?C j = Inl e \<and> context_lost (error_msg e))"
    using context_lost_example by simp
  then have c: "safeExtractDebits ?C 3 = (Inr [], 3)"
    using safeExtractDebits_three_attempts [where attempt = ?C]
    by blast
  from a b c show ?thesis
    by blast
qed

section \<open>Properties: the files of a run\<close>

lemma readFileSync_exists: "readFileSync path d = Some v \<Longrightarrow> existsSync path d"
  by (force simp: readFileSync_def existsSync_def dest!: map_of_SomeD)

lemma readFileSync_write: "readFileSync path (writeFileSync path v d) = Some v"
  by (simp add: readFileSync_def writeFileSync_def)

text \<open>
  C9. When the late scan finds a name and the aggregate file is on disk, the aggregate is
  written again with the \<open>companyName\<close> property set to that name: every other
  property (the identifier, the years) has the value it had, the order of the
  properties is the same, and an earlier guess is replaced. In the Puppeteer scraper and
  the dispatcher's Playwright scraper the file is read back and rewritten; the standalone
  Playwright scraper writes its result object again.
\<close>

theorem late_name_changes_only_companyName:
  "(name \<noteq> [] \<and> readFileSync aggregate_file d = Some (JObj props) \<longrightarrow>
      late_name (Some name) companyName d
        = (Some name, d @ [(aggregate_file, JObj (AList.update (lit ''companyName'') (JStr name) props))])
      \<and> readFileSync aggregate_file (snd (late_name (Some name) companyName d))
        = Some (JObj (AList.update (lit ''companyName'') (JStr name) props)))
   \<and> (name \<noteq> [] \<longrightarrow>
      readFileSync aggregate_file
          (nomeFinal_update (Some name) props (writeFileSync aggregate_file (JObj props) d))
        = Some (JObj (AList.update (lit ''companyName'') (JStr name) props)))
   \<and> map_of (AList.update (lit ''companyName'') (JStr name) props) (lit ''companyName'') = Some (JStr name)
   \<and> (k \<noteq> lit ''companyName'' \<longrightarrow>
        map_of (AList.update (lit ''companyName'') (JStr name) props) k = map_of props k)
   \<and> (lit ''companyName'' \<in> fst ` set props \<longrightarrow>
        map fst (AList.update (lit ''companyName'') (JStr name) props) = map fst props)"
proof (intro conjI impI)
  assume h: "name \<noteq> [] \<and> readFileSync aggregate_file d = Some (JObj props)"
  then show l: "late_name (Some name) companyName d
      = (Some name, d @ [(aggregate_file, JObj (AList.update (lit ''companyName'') (JStr name) props))])"
    by (simp add: late_name_def readFileSync_exists set_companyName_def writeFileSync_def)
  show "readFileSync aggregate_file (snd (late_name (Some name) companyName d))
      = Some (JObj (AList.update (lit ''companyName'') (JStr name) props))"
    by (simp add: l readFileSync_def)
next
  assume "name \<noteq> []"
  then show "readFileSync aggregate_file
          (nomeFinal_update (Some name) props (writeFileSync aggregate_file (JObj props) d))
        = Some (JObj (AList.update (lit ''companyName'') (JStr name) props))"
    by (simp add: nomeFinal_update_def readFileSync_write)
next
  show "map_of (AList.update (lit ''companyName'') (JStr name) props) (lit ''companyName'') = Some (JStr name)"
    by (simp add: update_conv')
  show "map_of (AList.update (lit ''companyName'') (JStr name) props) k = map_of props k"
    if "k \<noteq> lit ''companyName''"
    using that by (simp add: update_conv')
  show "map fst (AList.update (lit ''companyName'') (JStr name) props) = map fst props"
    if "lit ''companyName'' \<in> fst ` set props"
    using that by (simp add: update_keys)
qed

theorem late_name_changes_only_companyName_witness:
  "late_name (Some (lit ''ACME LTDA'')) (Some (lit ''CNPJ - guess''))
      [(aggregate_file, JObj [(lit ''cnpj'', JStr (lit ''12345678000195'')),
                              (lit ''companyName'', JStr (lit ''CNPJ - guess'')),
                              (lit ''years'', JArr [])])]
     = (Some (lit ''ACME LTDA''),
        [(aggregate_file, JObj [(lit ''cnpj'', JStr (lit ''12345678000195'')),
                                (lit ''companyName'', JStr (lit ''CNPJ - guess'')),
                                (lit ''years'', JArr [])]),
         (aggregate_file, JObj [(lit ''cnpj'', JStr (lit ''12345678000195'')),
                                (lit ''companyName'', JStr (lit ''ACME LTDA'')),
                                (lit ''years'', JArr [])])])
   \<and> readFileSync aggregate_file
        (nomeFinal_update (Some (lit ''ACME LTDA''))
           [(lit ''cnpj'', JStr (lit ''12345678000195'')), (lit ''companyName'', JNull),
            (lit ''years'', JArr [])]
           (writeFileSync aggregate_file
              (JObj [(lit ''cnpj'', JStr (lit ''12345678000195'')), (lit ''companyName'', JNull),
                     (lit ''years'', JArr [])]) []))
     = Some (JObj [(lit ''cnpj'', JStr (lit ''12345678000195'')),
                   (lit ''companyName'', JStr (lit ''ACME LTDA'')), (lit ''years'', JArr [])])"
proof -
  let ?old = "[(lit ''cnpj'', JStr (lit ''12345678000195'')),
      (lit ''companyName'', JStr (lit ''CNPJ - guess'')), (lit ''years'', JArr [])]"
  let ?new = "[(lit ''cnpj'', JStr (lit ''12345678000195'')), (lit ''companyName'', JNull),
      (lit ''years'', JArr [])]"
  have name: "lit ''ACME LTDA'' \<noteq> []"
    by (simp add: lit_def)
  have onfile: "readFileSync aggregate_file [(aggregate_file, JObj ?old)] = Some (JObj ?old)"
    by (simp add: readFileSync_def)
  have upd: "AList.update (lit ''companyName'') (JStr (lit ''ACME LTDA'')) ?old
        = [(lit ''cnpj'', JStr (lit ''12345678000195'')),
           (lit ''companyName'', JStr (lit ''ACME LTDA'')), (lit ''years'', JArr [])]"
      "AList.update (lit ''companyName'') (JStr (lit ''ACME LTDA'')) ?new
        = [(lit ''cnpj'', JStr (lit ''12345678000195'')),
           (lit ''companyName'', JStr (lit ''ACME LTDA'')), (lit ''years'', JArr [])]"
    by (simp_all add: lit_def)
  show ?thesis
    using late_name_changes_only_companyName [where name = "lit ''ACME LTDA''"
        and d = "[(aggregate_file, JObj ?old)]" and props = ?old
        and companyName = "Some (lit ''CNPJ - guess'')"]
      late_name_changes_only_companyName [where name = "lit ''ACME LTDA''" and d = "[]"
        and props = ?new]
      name onfile
    unfolding upd by simp
qed

lemma scrapeAllYearsSequential_returns:
  assumes "\<forall>run \<in> set years. returns (snd run)"
  shows "scrapeAllYearsSequential digits companyName years all d
    = (None, all @ map result_of years, d @ year_writes digits (name_or_null companyName) years)"
  using assms
proof (induction years arbitrary: all d)
  case Nil
  then show ?case by (simp add: year_writes_def)
next
  case (Cons run years)
  obtain y attempt where run: "run = (y, attempt)" by (cases run)
  from Cons.prems run obtain found where f: "fst (safeExtractDebits attempt 3) = Inr found"
    by (auto simp: returns_def split: sum.splits)
  then have fb: "found_by attempt = found"
    by (simp add: found_by_def)
  from Cons.prems have rest: "\<forall>run \<in> set years. returns (snd run)" by simp
  show ?case
    unfolding run using f fb Cons.IH [OF rest]
    by (simp add: result_of_def year_writes_def writeFileSync_def)
qed

lemma year_loop_puppeteer_returns:
  assumes "\<forall>run \<in> set years. returns (snd run)"
  shows "year_loop_puppeteer digits cname years all d
    = (None, all @ map result_of (filter (\<lambda>run. found_by (snd run) \<noteq> []) years),
       d @ year_writes digits cname years)"
  using assms
proof (induction years arbitrary: all d)
  case Nil
  then show ?case by (simp add: year_writes_def)
next
  case (Cons run years)
  obtain y attempt where run: "run = (y, attempt)" by (cases run)
  from Cons.prems run obtain found where f: "fst (safeExtractDebits attempt 3) = Inr found"
    by (auto simp: returns_def split: sum.splits)
  then have fb: "found_by attempt = found"
    by (simp add: found_by_def)
  from Cons.prems have rest: "\<forall>run \<in> set years. returns (snd run)" by simp
  show ?case
    unfolding run using f fb Cons.IH [OF rest]
    by (simp add: result_of_def year_writes_def writeFileSync_def)
qed

lemma safeExtractDebits_first:
  "attempt 0 = Inr found \<Longrightarrow> safeExtractDebits attempt 3 = (Inr found, 1)"
  by (simp add: safeExtractDebits_def safe_loop.simps [of attempt 3 0])

lemma late_name_after_aggregate:
  "late_name nameFromLabel companyName (d @ [(aggregate_file, aggregate_puppeteer digits cname all)])
     = (case nameFromLabel of
          None \<Rightarrow> (companyName, d @ [(aggregate_file, aggregate_puppeteer digits cname all)])
        | Some name \<Rightarrow>
            if name = [] then (companyName, d @ [(aggregate_file, aggregate_puppeteer digits cname all)])
            else (Some name, d @ [(aggregate_file, aggregate_puppeteer digits cname all),
                                  (aggregate_file, aggregate_puppeteer digits (JStr name) all)]))"
proof -
  let ?d1 = "d @ [(aggregate_file, aggregate_puppeteer digits cname all)]"
  have r: "readFileSync aggregate_file ?d1 = Some (aggregate_puppeteer digits cname all)"
    using readFileSync_write [of aggregate_file _ d] by (simp add: writeFileSync_def)
  have e: "existsSync aggregate_file ?d1"
    using r by (rule readFileSync_exists)
  have s: "set_companyName name (aggregate_puppeteer digits cname all)
      = Some (aggregate_puppeteer digits (JStr name) all)" for name
    by (simp add: set_companyName_def aggregate_puppeteer_def lit_def)
  show ?thesis
    by (simp add: late_name_def r e s writeFileSync_def split: option.splits)
qed

text \<open>
  C6 (as amended). For a non-empty list of eligible years whose extractions all return:
  the standalone Playwright scraper collects exactly one result per year, in order, and
  the Puppeteer scraper one per year that has at least one record. The step of a year
  writes the file of that year exactly when the year has at least one record. These
  files are written in the order of the years, the aggregate file is written after all
  of them, and nothing else is written before it. What follows the aggregate file is,
  in both scrapers, the aggregate file again when a late name was found, and, in the
  Puppeteer scraper, when some year had a record, the file named after the year of the
  command line, which holds the collected year results.
\<close>

theorem year_results_and_files:
  assumes "years \<noteq> []" and "\<forall>run \<in> set years. returns (snd run)"
  shows "scrapeAllYearsSequential digits companyName years [] d
      = (None, map result_of years, d @ year_writes digits (name_or_null companyName) years)
    \<and> main_playwright digits companyName years notOpt allYears fallback nomeFinal d
      = (None, d @ year_writes digits (name_or_null companyName) years
           @ [(aggregate_file,
               JObj (resultJson_props digits companyName (map fst years) notOpt allYears
                      (map result_of years)))]
           @ (case nomeFinal of
                None \<Rightarrow> []
              | Some name \<Rightarrow>
                  if name = [] then []
                  else [(aggregate_file,
                         JObj (AList.update (lit ''companyName'') (JStr name)
                                (resultJson_props digits companyName (map fst years) notOpt allYears
                                  (map result_of years))))]))
    \<and> year_loop_puppeteer digits cname years [] d
      = (None, map result_of (filter (\<lambda>run. found_by (snd run) \<noteq> []) years),
         d @ year_writes digits cname years)
    \<and> main_puppeteer digits companyName nomeFromHtml YEAR years fallback nameFromLabel d
      = d @ year_writes digits
              (if truthy_name companyName then name_or_null companyName else name_or_null nomeFromHtml) years
          @ [(aggregate_file,
              aggregate_puppeteer digits
                (if truthy_name companyName then name_or_null companyName else name_or_null nomeFromHtml)
                (map result_of (filter (\<lambda>run. found_by (snd run) \<noteq> []) years)))]
          @ (if truthy_name nameFromLabel then
               [(aggregate_file,
                 aggregate_puppeteer digits (name_or_null nameFromLabel)
                   (map result_of (filter (\<lambda>run. found_by (snd run) \<noteq> []) years)))]
             else [])
          @ (if filter (\<lambda>run. found_by (snd run) \<noteq> []) years \<noteq> [] then
               [(year_file YEAR,
                 year_payload digits
                   (name_or_null (if truthy_name nameFromLabel then nameFromLabel else companyName)) YEAR
                   (map result_of (filter (\<lambda>run. found_by (snd run) \<noteq> []) years)))]
             else [])
    \<and> length (map result_of years) = length years
    \<and> map fst (year_writes digits cname years)
      = map (\<lambda>run. year_file (yearLabel (fst run))) (filter (\<lambda>run. found_by (snd run) \<noteq> []) years)"
proof (intro conjI)
  show "scrapeAllYearsSequential digits companyName years [] d
      = (None, map result_of years, d @ year_writes digits (name_or_null companyName) years)"
    using assms(2) by (simp add: scrapeAllYearsSequential_returns)
  show "main_playwright digits companyName years notOpt allYears fallback nomeFinal d
      = (None, d @ year_writes digits (name_or_null companyName) years
           @ [(aggregate_file,
               JObj (resultJson_props digits companyName (map fst years) notOpt allYears
                      (map result_of years)))]
           @ (case nomeFinal of
                None \<Rightarrow> []
              | Some name \<Rightarrow>
                  if name = [] then []
                  else [(aggregate_file,
                         JObj (AList.update (lit ''companyName'') (JStr name)
                                (resultJson_props digits companyName (map fst years) notOpt allYears
                                  (map result_of years))))]))"
    using assms
    by (simp add: scrapeAllYearsSequential_returns main_playwright_def nomeFinal_update_def
        writeFileSync_def Let_def split: option.splits)
  show "year_loop_puppeteer digits cname years [] d
      = (None, map result_of (filter (\<lambda>run. found_by (snd run) \<noteq> []) years),
         d @ year_writes digits cname years)"
    using assms(2) by (simp add: year_loop_puppeteer_returns)
  show "main_puppeteer digits companyName nomeFromHtml YEAR years fallback nameFromLabel d
      = d @ year_writes digits
              (if truthy_name companyName then name_or_null companyName else name_or_null nomeFromHtml) years
          @ [(aggregate_file,
              aggregate_puppeteer digits
                (if truthy_name companyName then name_or_null companyName else name_or_null nomeFromHtml)
                (map result_of (filter (\<lambda>run. found_by (snd run) \<noteq> []) years)))]
          @ (if truthy_name nameFromLabel then
               [(aggregate_file,
                 aggregate_puppeteer digits (name_or_null nameFromLabel)
                   (map result_of (filter (\<lambda>run. found_by (snd run) \<noteq> []) years)))]
             else [])
          @ (if filter (\<lambda>run. found_by (snd run) \<noteq> []) years \<noteq> [] then
               [(year_file YEAR,
                 year_payload digits
                   (name_or_null (if truthy_name nameFromLabel then nameFromLabel else companyName)) YEAR
                   (map result_of (filter (\<lambda>run. found_by (snd run) \<noteq> []) years)))]
             else [])"
  proof -
    define cname' where "cname' = (if truthy_name companyName then name_or_null companyName else name_or_null nomeFromHtml)"
    define results where "results = map result_of (filter (\<lambda>run. found_by (snd run) \<noteq> []) years)"
    have loop: "year_loop_puppeteer digits cname' years [] d = (None, results, d @ year_writes digits cname' years)"
      using assms(2) by (simp add: year_loop_puppeteer_returns results_def)
    have ne: "results \<noteq> [] \<longleftrightarrow> filter (\<lambda>run. found_by (snd run) \<noteq> []) years \<noteq> []"
      by (simp add: results_def)
    have late: "late_name nameFromLabel companyName
          ((d @ year_writes digits cname' years) @ [(aggregate_file, aggregate_puppeteer digits cname' results)])
        = (if truthy_name nameFromLabel then nameFromLabel else companyName,
           (d @ year_writes digits cname' years) @ [(aggregate_file, aggregate_puppeteer digits cname' results)]
             @ (if truthy_name nameFromLabel
                then [(aggregate_file, aggregate_puppeteer digits (name_or_null nameFromLabel) results)]
                else []))"
      unfolding late_name_after_aggregate
      by (simp add: truthy_name_def name_or_null_def str_or_null_def split: option.splits)
    show ?thesis
      unfolding cname'_def [symmetric] results_def [symmetric] ne [symmetric]
      using assms(1) late
      by (simp add: main_puppeteer_def Let_def cname'_def [symmetric] loop writeFileSync_def)
  qed
  show "length (map result_of years) = length years"
    by simp
  show "map fst (year_writes digits cname years)
      = map (\<lambda>run. year_file (yearLabel (fst run))) (filter (\<lambda>run. found_by (snd run) \<noteq> []) years)"
    by (simp add: year_writes_def)
qed

theorem year_results_and_files_witness:
  "scrapeAllYearsSequential (lit ''12345678000195'') None
      [(\<lparr>y_value = lit ''2023'', y_text = lit ''2023'', y_disabled = False\<rparr>,
        \<lambda>i. Inr [JObj [(lit ''total'', JStr (lit ''56,00''))],
                    JObj [(lit ''total'', JStr (lit ''57,00''))],
                    JObj [(lit ''total'', JStr (lit ''58,00''))]]),
       (\<lparr>y_value = lit ''2024'', y_text = lit ''2024'', y_disabled = False\<rparr>, \<lambda>i. Inr [])] [] []
     = (None,
        [year_result (lit ''2023'') [JObj [(lit ''total'', JStr (lit ''56,00''))],
                                     JObj [(lit ''total'', JStr (lit ''57,00''))],
                                     JObj [(lit ''total'', JStr (lit ''58,00''))]],
         year_result (lit ''2024'') []],
        [(year_file (lit ''2023''),
          year_payload (lit ''12345678000195'') JNull (lit ''2023'')
            [JObj [(lit ''total'', JStr (lit ''56,00''))],
             JObj [(lit ''total'', JStr (lit ''57,00''))],
             JObj [(lit ''total'', JStr (lit ''58,00''))]])])
   \<and> main_puppeteer (lit ''12345678000195'') None None (lit ''2025'')
      [(\<lparr>y_value = lit ''2023'', y_text = lit ''2023'', y_disabled = False\<rparr>,
        \<lambda>i. Inr [JObj [(lit ''total'', JStr (lit ''56,00''))],
                    JObj [(lit ''total'', JStr (lit ''57,00''))],
                    JObj [(lit ''total'', JStr (lit ''58,00''))]]),
       (\<lparr>y_value = lit ''2024'', y_text = lit ''2024'', y_disabled = False\<rparr>, \<lambda>i. Inr [])]
      (\<lambda>i. Inr []) (Some (lit ''ACME LTDA'')) []
     = [(year_file (lit ''2023''),
          year_payload (lit ''12345678000195'') JNull (lit ''2023'')
            [JObj [(lit ''total'', JStr (lit ''56,00''))],
             JObj [(lit ''total'', JStr (lit ''57,00''))],
             JObj [(lit ''total'', JStr (lit ''58,00''))]]),
        (aggregate_file,
          aggregate_puppeteer (lit ''12345678000195'') JNull
            [year_result (lit ''2023'') [JObj [(lit ''total'', JStr (lit ''56,00''))],
                                         JObj [(lit ''total'', JStr (lit ''57,00''))],
                                         JObj [(lit ''total'', JStr (lit ''58,00''))]]]),
        (aggregate_file,
          aggregate_puppeteer (lit ''12345678000195'') (JStr (lit ''ACME LTDA''))
            [year_result (lit ''2023'') [JObj [(lit ''total'', JStr (lit ''56,00''))],
                                         JObj [(lit ''total'', JStr (lit ''57,00''))],
                                         JObj [(lit ''total'', JStr (lit ''58,00''))]]]),
        (year_file (lit ''2025''),
          year_payload (lit ''12345678000195'') (JStr (lit ''ACME LTDA'')) (lit ''2025'')
            [year_result (lit ''2023'') [JObj [(lit ''total'', JStr (lit ''56,00''))],
                                         JObj [(lit ''total'', JStr (lit ''57,00''))],
                                         JObj [(lit ''total'', JStr (lit ''58,00''))]]])]"
proof -
  let ?rows = "[JObj [(lit ''total'', JStr (lit ''56,00''))],
      JObj [(lit ''total'', JStr (lit ''57,00''))], JObj [(lit ''total'', JStr (lit ''58,00''))]]"
  let ?a23 = "\<lambda>i::nat. (Inr ?rows :: thrown + json list)"
  let ?a24 = "\<lambda>i::nat. (Inr [] :: thrown + json list)"
  let ?y23 = "(\<lparr>y_value = lit ''2023'', y_text = lit ''2023'', y_disabled = False\<rparr>, ?a23)"
  let ?y24 = "(\<lparr>y_value = lit ''2024'', y_text = lit ''2024'', y_disabled = False\<rparr>, ?a24)"
  let ?years = "[?y23, ?y24]"
  have s23: "safeExtractDebits ?a23 3 = (Inr ?rows, 1)" and s24: "safeExtractDebits ?a24 3 = (Inr [], 1)"
    by (simp_all add: safeExtractDebits_first)
  have ok: "\<forall>run \<in> set ?years. returns (snd run)"
    by (simp add: returns_def s23 s24)
  have ne: "?years \<noteq> []"
    by simp
  have labels: "lit ''2023'' \<noteq> []" "lit ''2024'' \<noteq> []" "lit ''ACME LTDA'' \<noteq> []"
    by (simp_all add: lit_def)
  have fb: "found_by ?a23 = ?rows" "found_by ?a24 = []"
    by (simp_all add: found_by_def s23 s24)
  have ev: "map result_of ?years = [year_result (lit ''2023'') ?rows, year_result (lit ''2024'') []]"
    "map result_of [?y23] = [year_result (lit ''2023'') ?rows]"
    "year_writes (lit ''12345678000195'') JNull ?years
      = [(year_file (lit ''2023''), year_payload (lit ''12345678000195'') JNull (lit ''2023'') ?rows)]"
    using fb by (simp_all add: result_of_def year_writes_def yearLabel_def labels)
  have names: "name_or_null None = JNull" "\<not> truthy_name None" "truthy_name (Some (lit ''ACME LTDA''))"
    "name_or_null (Some (lit ''ACME LTDA'')) = JStr (lit ''ACME LTDA'')"
    by (simp_all add: name_or_null_def truthy_name_def str_or_null_def labels)
  note all = year_results_and_files [where years = ?years and digits = "lit ''12345678000195''"
      and companyName = None and d = "[]", OF ne ok]
  have a: "scrapeAllYearsSequential (lit ''12345678000195'') None ?years [] []
      = (None, [year_result (lit ''2023'') ?rows, year_result (lit ''2024'') []],
         [(year_file (lit ''2023''), year_payload (lit ''12345678000195'') JNull (lit ''2023'') ?rows)])"
    using all [THEN conjunct1] unfolding names ev by simp
  have b: "main_puppeteer (lit ''12345678000195'') None None (lit ''2025'') ?years (\<lambda>i. Inr [])
        (Some (lit ''ACME LTDA'')) []
      = [(year_file (lit ''2023''), year_payload (lit ''12345678000195'') JNull (lit ''2023'') ?rows),
         (aggregate_file, aggregate_puppeteer (lit ''12345678000195'') JNull [year_result (lit ''2023'') ?rows]),
         (aggregate_file, aggregate_puppeteer (lit ''12345678000195'') (JStr (lit ''ACME LTDA''))
            [year_result (lit ''2023'') ?rows]),
         (year_file (lit ''2025''), year_payload (lit ''12345678000195'') (JStr (lit ''ACME LTDA''))
            (lit ''2025'') [year_result (lit ''2023'') ?rows])]"
    using year_results_and_files [where years = ?years and digits = "lit ''12345678000195''"
        and companyName = None and d = "[]" and nomeFromHtml = None and YEAR = "lit ''2025''"
        and fallback = "\<lambda>i. Inr []" and nameFromLabel = "Some (lit ''ACME LTDA'')", OF ne ok,
        THEN conjunct2, THEN conjunct2, THEN conjunct2, THEN conjunct1]
    by (simp add: names ev fb result_of_def yearLabel_def labels)
  from a b show ?thesis
    by blast
qed

text \<open>
  As stated, C6 fails: with two eligible years of three and of no records, the
  standalone Playwright scraper writes the file of the first year and the aggregate
  file and no file for the second year, and the aggregate of the Puppeteer scraper has
  a single year result. The last write of the Puppeteer scraper is the file named after
  the year of the command line, here 2024; it holds the collected year results, not
  the records of that year.
\<close>

theorem zero_record_year_counterexample:
  "main_playwright (lit ''12345678000195'') None
      [(\<lparr>y_value = lit ''2023'', y_text = lit ''2023'', y_disabled = False\<rparr>,
        \<lambda>i. Inr [JStr (lit ''row 1''), JStr (lit ''row 2''), JStr (lit ''row 3'')]),
       (\<lparr>y_value = lit ''2024'', y_text = lit ''2024'', y_disabled = False\<rparr>, \<lambda>i. Inr [])]
      [] [] (\<lambda>i. Inr []) None []
     = (None,
        [(lit ''debitos_2023.json'',
          JObj [(lit ''cnpj'', JStr (lit ''12345678000195'')), (lit ''companyName'', JNull),
                (lit ''year'', JStr (lit ''2023'')),
                (lit ''items'', JArr [JStr (lit ''row 1''), JStr (lit ''row 2''), JStr (lit ''row 3'')])]),
         (lit ''debitos_all.json'',
          JObj [(lit ''cnpj'', JStr (lit ''12345678000195'')), (lit ''companyName'', JNull),
                (lit ''availableYears'', JArr [JStr (lit ''2023''), JStr (lit ''2024'')]),
                (lit ''notOptanteYears'', JArr []), (lit ''allYears'', JArr []),
                (lit ''years'',
                 JArr [JObj [(lit ''year'', JStr (lit ''2023'')),
                             (lit ''items'', JArr [JStr (lit ''row 1''), JStr (lit ''row 2''), JStr (lit ''row 3'')])],
                       JObj [(lit ''year'', JStr (lit ''2024'')), (lit ''items'', JArr [])]])])])
   \<and> \<not> existsSync (lit ''debitos_2024.json'')
        (snd (main_playwright (lit ''12345678000195'') None
          [(\<lparr>y_value = lit ''2023'', y_text = lit ''2023'', y_disabled = False\<rparr>,
            \<lambda>i. Inr [JStr (lit ''row 1''), JStr (lit ''row 2''), JStr (lit ''row 3'')]),
           (\<lparr>y_value = lit ''2024'', y_text = lit ''2024'', y_disabled = False\<rparr>, \<lambda>i. Inr [])]
          [] [] (\<lambda>i. Inr []) None []))
   \<and> main_puppeteer (lit ''12345678000195'') None None (lit ''2024'')
      [(\<lparr>y_value = lit ''2023'', y_text = lit ''2023'', y_disabled = False\<rparr>,
        \<lambda>i. Inr [JStr (lit ''row 1''), JStr (lit ''row 2''), JStr (lit ''row 3'')]),
       (\<lparr>y_value = lit ''2024'', y_text = lit ''2024'', y_disabled = False\<rparr>, \<lambda>i. Inr [])]
      (\<lambda>i. Inr []) None []
     = [(lit ''debitos_2023.json'',
          JObj [(lit ''cnpj'', JStr (lit ''12345678000195'')), (lit ''companyName'', JNull),
                (lit ''year'', JStr (lit ''2023'')),
                (lit ''items'', JArr [JStr (lit ''row 1''), JStr (lit ''row 2''), JStr (lit ''row 3'')])]),
        (lit ''debitos_all.json'',
          JObj [(lit ''cnpj'', JStr (lit ''12345678000195'')), (lit ''companyName'', JNull),
                (lit ''years'',
                 JArr [JObj [(lit ''year'', JStr (lit ''2023'')),
                             (lit ''items'', JArr [JStr (lit ''row 1''), JStr (lit ''row 2''), JStr (lit ''row 3'')])]])]),
        (lit ''debitos_2024.json'',
          JObj [(lit ''cnpj'', JStr (lit ''12345678000195'')), (lit ''companyName'', JNull),
                (lit ''year'', JStr (lit ''2024'')),
                (lit ''items'',
                 JArr [JObj [(lit ''year'', JStr (lit ''2023'')),
                             (lit ''items'', JArr [JStr (lit ''row 1''), JStr (lit ''row 2''), JStr (lit ''row 3'')])]])])]"
proof -
  have first: "\<And>found. safeExtractDebits (\<lambda>i::nat. (Inr found :: thrown + json list)) 3 = (Inr found, 1)"
    by (simp add: safeExtractDebits_first)
  show ?thesis
    by (simp add: main_playwright_def main_puppeteer_def first yearLabel_def year_file_def
        year_payload_def year_result_def aggregate_file_def aggregate_puppeteer_def
        resultJson_props_def nomeFinal_update_def late_name_def writeFileSync_def existsSync_def
        name_or_null_def truthy_name_def lit_def)
qed

section \<open>Properties: year options\<close>

lemma ci_prefix_length: "ci_prefix p s \<Longrightarrow> length p \<le> length s"
  by (induction p s rule: ci_prefix.induct) auto

lemma ci_search_length: "ci_search p s \<Longrightarrow> length p \<le> length s"
  by (induction s) (auto dest: ci_prefix_length)

lemma four_digits_not_nao_optante: "four_digits s \<Longrightarrow> \<not> nao_optante s"
  by (auto simp: four_digits_def nao_optante_def lit_def dest!: ci_search_length)

lemma four_digits_first: "four_digits s \<Longrightarrow> first_four_digits s = Some s"
  by (cases s rule: first_four_digits.cases) (auto simp: four_digits_def)

text \<open>
  C5 (as amended). From a native select, the Puppeteer scraper and the dispatcher's
  Playwright scraper take exactly the options whose trimmed label is not empty, does not
  contain the "n\~ao optante" marker (in any letter case) and which have neither the
  \<open>disabled\<close> property nor the class \<open>disabled\<close>; the standalone Playwright
  scraper takes no option with that property or class, and takes an option labelled 2023
  without them when its value is 2023 or empty. From scanned elements, all three scrapers
  take exactly those whose trimmed text is four digits and which carry no disabled signal
  (a \<open>disabled\<close> attribute, \<open>aria-disabled="true"\<close>, a disabled class; in the
  Puppeteer scraper also the \<open>disabled\<close> property); a text of four digits never
  contains the marker.
\<close>

theorem year_eligibility:
  "getAvailableYears_bundled (WithSelect options) = getAvailableYears_puppeteer (WithSelect options)
   \<and> (y \<in> set (getAvailableYears_puppeteer (WithSelect options)) \<longleftrightarrow>
        (\<exists>opt \<in> set options. y = select_option opt \<and> trim (el_innerText opt) \<noteq> []
           \<and> \<not> nao_optante (trim (el_innerText opt))
           \<and> \<not> el_disabled opt \<and> \<not> classList_contains opt (lit ''disabled'')))
   \<and> (y \<in> set (fst (getAvailableYears_playwright (WithSelect options))) \<longrightarrow>
        (\<exists>opt \<in> set options. y = select_option opt
           \<and> \<not> el_disabled opt \<and> \<not> classList_contains opt (lit ''disabled'')))
   \<and> (opt \<in> set options \<and> trim (el_innerText opt) = lit ''2023''
        \<and> (el_value opt = lit ''2023'' \<or> el_value opt = [])
        \<and> \<not> el_disabled opt \<and> \<not> classList_contains opt (lit ''disabled'')
        \<longrightarrow> select_option opt \<in> set (fst (getAvailableYears_playwright (WithSelect options))))
   \<and> (y \<in> set (getAvailableYears_puppeteer (WithoutSelect els)) \<longleftrightarrow>
        (\<exists>el \<in> set els. four_digits (trim (el_innerText el)) \<and> \<not> isDisabled_puppeteer el
           \<and> y = \<lparr>y_value = trim (el_innerText el), y_text = trim (el_innerText el), y_disabled = False\<rparr>))
   \<and> (y \<in> set (getAvailableYears_bundled (WithoutSelect els)) \<longleftrightarrow>
        (\<exists>el \<in> set els. four_digits (trim (el_innerText el)) \<and> \<not> isDisabled_playwright el
           \<and> y = \<lparr>y_value = trim (el_innerText el), y_text = trim (el_innerText el), y_disabled = False\<rparr>))
   \<and> (y \<in> set (fst (getAvailableYears_playwright (WithoutSelect els))) \<longleftrightarrow>
        (\<exists>el \<in> set els. four_digits (trim (el_innerText el)) \<and> \<not> isDisabled_playwright el
           \<and> y = \<lparr>y_value = trim (el_innerText el), y_text = trim (el_innerText el), y_disabled = False\<rparr>))
   \<and> (four_digits (trim (el_innerText el)) \<longrightarrow> \<not> nao_optante (trim (el_innerText el)))"
proof (intro conjI)
  show "getAvailableYears_bundled (WithSelect options) = getAvailableYears_puppeteer (WithSelect options)"
    by (simp add: getAvailableYears_bundled_def getAvailableYears_puppeteer_def)
  show "y \<in> set (getAvailableYears_puppeteer (WithSelect options)) \<longleftrightarrow>
        (\<exists>opt \<in> set options. y = select_option opt \<and> trim (el_innerText opt) \<noteq> []
           \<and> \<not> nao_optante (trim (el_innerText opt))
           \<and> \<not> el_disabled opt \<and> \<not> classList_contains opt (lit ''disabled''))"
    by (auto simp: getAvailableYears_puppeteer_def select_years_def select_option_def)
  show "y \<in> set (fst (getAvailableYears_playwright (WithSelect options))) \<longrightarrow>
        (\<exists>opt \<in> set options. y = select_option opt
           \<and> \<not> el_disabled opt \<and> \<not> classList_contains opt (lit ''disabled''))"
    by (auto simp: getAvailableYears_playwright_def available_def allOpts_def select_option_def)
  show "opt \<in> set options \<and> trim (el_innerText opt) = lit ''2023''
        \<and> (el_value opt = lit ''2023'' \<or> el_value opt = [])
        \<and> \<not> el_disabled opt \<and> \<not> classList_contains opt (lit ''disabled'')
        \<longrightarrow> select_option opt \<in> set (fst (getAvailableYears_playwright (WithSelect options)))"
  proof
    assume h: "opt \<in> set options \<and> trim (el_innerText opt) = lit ''2023''
        \<and> (el_value opt = lit ''2023'' \<or> el_value opt = [])
        \<and> \<not> el_disabled opt \<and> \<not> classList_contains opt (lit ''disabled'')"
    have "four_digits (lit ''2023'')" "lit ''2023'' \<noteq> []"
      by (simp_all add: four_digits_def lit_def isDigit_def)
    with h have "y_text (select_option opt) \<noteq> [] \<and> \<not> y_disabled (select_option opt)
        \<and> four_digits (if y_value (select_option opt) \<noteq> [] then y_value (select_option opt)
             else y_text (select_option opt))"
      by (auto simp: select_option_def)
    with h show "select_option opt \<in> set (fst (getAvailableYears_playwright (WithSelect options)))"
      by (simp add: getAvailableYears_playwright_def available_def allOpts_def)
  qed
  show "y \<in> set (getAvailableYears_puppeteer (WithoutSelect els)) \<longleftrightarrow>
        (\<exists>el \<in> set els. four_digits (trim (el_innerText el)) \<and> \<not> isDisabled_puppeteer el
           \<and> y = \<lparr>y_value = trim (el_innerText el), y_text = trim (el_innerText el), y_disabled = False\<rparr>)"
    by (auto simp: getAvailableYears_puppeteer_def scan_years_def four_digits_not_nao_optante)
  show "y \<in> set (getAvailableYears_bundled (WithoutSelect els)) \<longleftrightarrow>
        (\<exists>el \<in> set els. four_digits (trim (el_innerText el)) \<and> \<not> isDisabled_playwright el
           \<and> y = \<lparr>y_value = trim (el_innerText el), y_text = trim (el_innerText el), y_disabled = False\<rparr>)"
    by (auto simp: getAvailableYears_bundled_def scan_years_def four_digits_not_nao_optante)
  show "y \<in> set (fst (getAvailableYears_playwright (WithoutSelect els))) \<longleftrightarrow>
        (\<exists>el \<in> set els. four_digits (trim (el_innerText el)) \<and> \<not> isDisabled_playwright el
           \<and> y = \<lparr>y_value = trim (el_innerText el), y_text = trim (el_innerText el), y_disabled = False\<rparr>)"
    (is "?L \<longleftrightarrow> ?R")
  proof
    assume ?L
    then obtain el where el: "el \<in> set els" and y: "y = scanned_option el"
        and pick: "four_digits (trim (el_innerText el)) \<or> nao_optante (trim (el_innerText el))"
        and av: "y_text y \<noteq> [] \<and> \<not> y_disabled y"
      by (auto simp: getAvailableYears_playwright_def available_def allOpts_def)
    from av y have no: "\<not> nao_optante (trim (el_innerText el))" and en: "\<not> isDisabled_playwright el"
      by (simp_all add: scanned_option_def Let_def)
    with pick have fd: "four_digits (trim (el_innerText el))" by simp
    with y no en have "y = \<lparr>y_value = trim (el_innerText el), y_text = trim (el_innerText el), y_disabled = False\<rparr>"
      by (simp add: scanned_option_def Let_def four_digits_first)
    with el fd en show ?R by blast
  next
    assume ?R
    then obtain el where el: "el \<in> set els" and fd: "four_digits (trim (el_innerText el))"
        and en: "\<not> isDisabled_playwright el"
        and y: "y = \<lparr>y_value = trim (el_innerText el), y_text = trim (el_innerText el), y_disabled = False\<rparr>"
      by blast
    from fd have ne: "trim (el_innerText el) \<noteq> []" by (auto simp: four_digits_def)
    from fd en y have "y = scanned_option el"
      by (simp add: scanned_option_def Let_def four_digits_first four_digits_not_nao_optante)
    moreover from y fd ne have "y_text y \<noteq> [] \<and> \<not> y_disabled y
        \<and> four_digits (if y_value y \<noteq> [] then y_value y else y_text y)"
      by simp
    ultimately show ?L
      using el fd by (auto simp: getAvailableYears_playwright_def available_def allOpts_def)
  qed
  show "four_digits (trim (el_innerText el)) \<longrightarrow> \<not> nao_optante (trim (el_innerText el))"
    by (simp add: four_digits_not_nao_optante)
qed

theorem year_eligibility_witness:
  "select_option \<lparr>el_value = lit ''2023'', el_innerText = lit ''2023'', el_disabled = False,
        el_class = None, el_disabled_attr = None, el_aria_disabled = None\<rparr>
     \<in> set (fst (getAvailableYears_playwright (WithSelect
          [\<lparr>el_value = lit ''2021'', el_innerText = lit ''2021'', el_disabled = True,
             el_class = None, el_disabled_attr = Some [], el_aria_disabled = None\<rparr>,
           \<lparr>el_value = lit ''2023'', el_innerText = lit ''2023'', el_disabled = False,
             el_class = None, el_disabled_attr = None, el_aria_disabled = None\<rparr>])))
   \<and> getAvailableYears_puppeteer (WithSelect
        [\<lparr>el_value = lit ''2022'', el_innerText = lit ''2022 - n'' @ [0xE3] @ lit ''o optante'',
           el_disabled = False, el_class = None, el_disabled_attr = None, el_aria_disabled = None\<rparr>,
         \<lparr>el_value = lit ''2021'', el_innerText = lit ''2021'', el_disabled = True,
           el_class = None, el_disabled_attr = Some [], el_aria_disabled = None\<rparr>,
         \<lparr>el_value = lit ''2023'', el_innerText = lit ''2023'', el_disabled = False,
           el_class = None, el_disabled_attr = None, el_aria_disabled = None\<rparr>])
     = [\<lparr>y_value = lit ''2023'', y_text = lit ''2023'', y_disabled = False\<rparr>]
   \<and> fst (getAvailableYears_playwright (WithoutSelect
        [\<lparr>el_value = [], el_innerText = lit ''2022 - N'' @ [0xC3] @ lit ''O OPTANTE'',
           el_disabled = False, el_class = None, el_disabled_attr = None, el_aria_disabled = None\<rparr>,
         \<lparr>el_value = [], el_innerText = lit ''2021'', el_disabled = False,
           el_class = None, el_disabled_attr = None, el_aria_disabled = Some (lit ''true'')\<rparr>,
         \<lparr>el_value = [], el_innerText = lit ''2020'', el_disabled = False,
           el_class = Some (lit ''btn disabled''), el_disabled_attr = None, el_aria_disabled = None\<rparr>,
         \<lparr>el_value = [], el_innerText = lit '' 2023 '', el_disabled = False,
           el_class = None, el_disabled_attr = None, el_aria_disabled = None\<rparr>]))
     = [\<lparr>y_value = lit ''2023'', y_text = lit ''2023'', y_disabled = False\<rparr>]"
proof -
  let ?o21 = "\<lparr>el_value = lit ''2021'', el_innerText = lit ''2021'', el_disabled = True,
      el_class = None, el_disabled_attr = Some [], el_aria_disabled = None\<rparr>"
  let ?o23 = "\<lparr>el_value = lit ''2023'', el_innerText = lit ''2023'', el_disabled = False,
      el_class = None, el_disabled_attr = None, el_aria_disabled = None\<rparr>"
  have "?o23 \<in> set [?o21, ?o23] \<and> trim (el_innerText ?o23) = lit ''2023''
      \<and> (el_value ?o23 = lit ''2023'' \<or> el_value ?o23 = [])
      \<and> \<not> el_disabled ?o23 \<and> \<not> classList_contains ?o23 (lit ''disabled'')"
    by (simp add: trim_def isSpace_def classList_contains_def class_tokens_def lit_def)
  then have a: "select_option ?o23 \<in> set (fst (getAvailableYears_playwright (WithSelect [?o21, ?o23])))"
    using year_eligibility [where opt = ?o23 and options = "[?o21, ?o23]"] by blast
  have b: "getAvailableYears_puppeteer (WithSelect
        [\<lparr>el_value = lit ''2022'', el_innerText = lit ''2022 - n'' @ [0xE3] @ lit ''o optante'',
           el_disabled = False, el_class = None, el_disabled_attr = None, el_aria_disabled = None\<rparr>,
         ?o21, ?o23])
     = [\<lparr>y_value = lit ''2023'', y_text = lit ''2023'', y_disabled = False\<rparr>]"
    by (simp add: getAvailableYears_puppeteer_def select_years_def select_option_def trim_def
        isSpace_def classList_contains_def class_tokens_def nao_optante_def ci_match_def lit_def)
  have c: "fst (getAvailableYears_playwright (WithoutSelect
        [\<lparr>el_value = [], el_innerText = lit ''2022 - N'' @ [0xC3] @ lit ''O OPTANTE'',
           el_disabled = False, el_class = None, el_disabled_attr = None, el_aria_disabled = None\<rparr>,
         \<lparr>el_value = [], el_innerText = lit ''2021'', el_disabled = False,
           el_class = None, el_disabled_attr = None, el_aria_disabled = Some (lit ''true'')\<rparr>,
         \<lparr>el_value = [], el_innerText = lit ''2020'', el_disabled = False,
           el_class = Some (lit ''btn disabled''), el_disabled_attr = None, el_aria_disabled = None\<rparr>,
         \<lparr>el_value = [], el_innerText = lit '' 2023 '', el_disabled = False,
           el_class = None, el_disabled_attr = None, el_aria_disabled = None\<rparr>]))
     = [\<lparr>y_value = lit ''2023'', y_text = lit ''2023'', y_disabled = False\<rparr>]"
    by (simp add: getAvailableYears_playwright_def available_def allOpts_def scanned_option_def
        isDisabled_playwright_def four_digits_def isDigit_def trim_def isSpace_def
        nao_optante_def ci_match_def lit_def Let_def)
  from a b c show ?thesis
    by blast
qed

text \<open>
  As stated, C5 fails on the options of a native select: \<open>aria-disabled="true"\<close> is
  not read there, so such an option is taken; and the standalone Playwright scraper
  leaves out an option labelled 2023 whose value is not four digits.
\<close>

theorem select_option_signals_counterexample:
  "getAvailableYears_puppeteer (WithSelect
      [\<lparr>el_value = lit ''2021'', el_innerText = lit ''2021'', el_disabled = False,
         el_class = None, el_disabled_attr = None, el_aria_disabled = Some (lit ''true'')\<rparr>])
     = [\<lparr>y_value = lit ''2021'', y_text = lit ''2021'', y_disabled = False\<rparr>]
   \<and> getAvailableYears_bundled (WithSelect
      [\<lparr>el_value = lit ''2021'', el_innerText = lit ''2021'', el_disabled = False,
         el_class = None, el_disabled_attr = None, el_aria_disabled = Some (lit ''true'')\<rparr>])
     = [\<lparr>y_value = lit ''2021'', y_text = lit ''2021'', y_disabled = False\<rparr>]
   \<and> fst (getAvailableYears_playwright (WithSelect
      [\<lparr>el_value = lit ''2021'', el_innerText = lit ''2021'', el_disabled = False,
         el_class = None, el_disabled_attr = None, el_aria_disabled = Some (lit ''true'')\<rparr>]))
     = [\<lparr>y_value = lit ''2021'', y_text = lit ''2021'', y_disabled = False\<rparr>]
   \<and> fst (getAvailableYears_playwright (WithSelect
      [\<lparr>el_value = lit ''7'', el_innerText = lit ''2023'', el_disabled = False,
         el_class = None, el_disabled_attr = None, el_aria_disabled = None\<rparr>]))
     = []"
  by (simp add: getAvailableYears_puppeteer_def getAvailableYears_bundled_def
      getAvailableYears_playwright_def select_years_def select_option_def available_def allOpts_def
      four_digits_def isDigit_def trim_def isSpace_def classList_contains_def class_tokens_def
      nao_optante_def ci_match_def lit_def)

section \<open>Properties: the currency test\<close>

lemma currency_len_Nil: "currency_len [] = None"
  by (simp add: currency_len_def num_comma2_len_def lit_def)

lemma currency_search_iff: "currency_search s \<noteq> None \<longleftrightarrow> (\<exists>i < length s. currency_len (drop i s) \<noteq> None)"
proof (induction s)
  case Nil
  then show ?case by simp
next
  case (Cons c cs)
  have "(\<exists>i < length (c # cs). currency_len (drop i (c # cs)) \<noteq> None)
      \<longleftrightarrow> currency_len (c # cs) \<noteq> None \<or> (\<exists>i < length cs. currency_len (drop i cs) \<noteq> None)"
    (is "?L \<longleftrightarrow> ?R")
  proof
    assume ?L
    then obtain i where i: "i < length (c # cs)" "currency_len (drop i (c # cs)) \<noteq> None" by blast
    show ?R
    proof (cases i)
      case 0
      with i show ?thesis by simp
    next
      case (Suc j)
      with i show ?thesis by auto
    qed
  next
    assume ?R
    then show ?L
    proof
      assume "currency_len (c # cs) \<noteq> None"
      then have "0 < length (c # cs) \<and> currency_len (drop 0 (c # cs)) \<noteq> None" by simp
      then show ?L by blast
    next
      assume "\<exists>i < length cs. currency_len (drop i cs) \<noteq> None"
      then obtain i where "i < length cs" "currency_len (drop i cs) \<noteq> None" by blast
      then have "Suc i < length (c # cs) \<and> currency_len (drop (Suc i) (c # cs)) \<noteq> None" by simp
      then show ?L by blast
    qed
  qed
  with Cons.IH show ?case
    by (auto split: option.splits)
qed

lemma has_currency_search: "has_currency s \<longleftrightarrow> currency_search s \<noteq> None"
  using currency_search_iff [of s] by (auto simp: has_currency_def list_ex_iff)

lemma currency_test_fresh: "fst (currency_test s 0) \<longleftrightarrow> has_currency s"
  by (auto simp: currency_test_def has_currency_search split: option.splits)

lemma currency_test_fail: "\<not> fst (currency_test s li) \<Longrightarrow> currency_test s li = (False, 0)"
  by (auto simp: currency_test_def split: option.splits if_splits)

lemma has_currency_drop: "has_currency (drop li s) \<Longrightarrow> has_currency s"
proof -
  assume "has_currency (drop li s)"
  then obtain i where i: "i < length (drop li s)" "currency_len (drop i (drop li s)) \<noteq> None"
    unfolding has_currency_search currency_search_iff by blast
  then have "i + li < length s \<and> currency_len (drop (i + li) s) \<noteq> None"
    by (simp add: add.commute)
  then show ?thesis
    unfolding has_currency_search currency_search_iff by blast
qed

lemma currency_test_has: "fst (currency_test s li) \<Longrightarrow> has_currency s"
proof -
  assume a: "fst (currency_test s li)"
  then have "currency_search (drop li s) \<noteq> None"
    by (auto simp: currency_test_def split: if_splits option.splits)
  then have "has_currency (drop li s)"
    by (simp add: has_currency_search)
  then show ?thesis
    by (rule has_currency_drop)
qed

lemma currency_test_none: "\<not> has_currency s \<Longrightarrow> currency_test s li = (False, 0)"
  using currency_test_has [of s li] by (auto intro: currency_test_fail)

lemma currency_matches_from_Cons:
  "currency_matches_from skip (c # cs) =
     (if skip = 0 then
        (case currency_len (c # cs) of
           Some n \<Rightarrow> take n (c # cs) # currency_matches_from (n - 1) cs
         | None \<Rightarrow> currency_matches_from 0 cs)
      else currency_matches_from (skip - 1) cs)"
  by (cases skip) simp_all

lemmas regex_defs = currency_test_def currency_len_def num_comma2_len_def comma2_def isNumChar_def
  isSpace_def isDigit_def

lemmas wide_defs = container_records_def container_innerText_def wide_table_def wide_record_def
  assign_wide_def row_included_def mappedKey_def expectedHeaders_wide_def first_word_def
  key_or_col_def nth_or_empty_def str_or_null_def currency_matches_def normalizeHeader_def
  lower_latin1_def trim_def currency_matches_from_Cons obj_set_def is_index_key_def

section \<open>Properties: the loose row scan\<close>

lemma amount_shape_digit: "amount_shape p \<Longrightarrow> \<exists>c \<in> set p. isDigit c"
  by (induction p rule: amount_shape.induct) auto

lemma digit_kept: "isDigit c \<Longrightarrow> \<not> (c = 82 \<or> c = 36 \<or> isSpace c \<or> c = 46)"
  by (auto simp: isDigit_def isSpace_def)

lemma replace_first_length: "length (replace_first a b s) = length s"
  by (induction s) auto

lemma amount_text_nonempty:
  assumes "amount_shape p"
  shows "replace_first 44 46 (remove_class (\<lambda>c. c = 82 \<or> c = 36 \<or> isSpace c \<or> c = 46) p) \<noteq> []"
proof -
  from assms obtain c where "c \<in> set p" "isDigit c"
    using amount_shape_digit by blast
  then have "c \<in> set (remove_class (\<lambda>c. c = 82 \<or> c = 36 \<or> isSpace c \<or> c = 46) p)"
    using digit_kept [of c] by (simp add: remove_class_def)
  then have "remove_class (\<lambda>c. c = 82 \<or> c = 36 \<or> isSpace c \<or> c = 46) p \<noteq> []"
    by auto
  then show ?thesis
    using replace_first_length [of 44 46] by (metis length_0_conv)
qed

lemma find_skip: "\<forall>q \<in> set xs. \<not> P q \<Longrightarrow> find P (xs @ ys) = find P ys"
  by (induction xs) auto

lemma find_last_match:
  assumes "P p" and "\<forall>q \<in> set post. \<not> P q"
  shows "find P (rev (pre @ p # post)) = Some p"
proof -
  have "find P (rev post @ p # rev pre) = find P (p # rev pre)"
    using assms(2) by (intro find_skip) simp
  with assms(1) show ?thesis by simp
qed

lemma find_none: "(\<forall>q \<in> set xs. \<not> P q) \<Longrightarrow> find P (rev xs) = None"
  by (simp add: find_None_iff)

lemma loose_rows_append:
  "loose_rows year li (rows @ rows')
     = (fst (loose_rows year li rows) @ fst (loose_rows year (snd (loose_rows year li rows)) rows'),
        snd (loose_rows year (snd (loose_rows year li rows)) rows'))"
  by (induction year li rows rule: loose_rows.induct)
     (auto simp: Let_def split: prod.splits if_splits)

lemma loose_rows_single:
  "loose_rows year li [r]
     = (if trim (row_innerText r) = [] then ([], li)
        else if js_includes (trim (row_innerText r)) year then ([loose_record (trim (row_innerText r))], li)
        else if fst (currency_test (trim (row_innerText r)) li)
          then ([loose_record (trim (row_innerText r))], snd (currency_test (trim (row_innerText r)) li))
        else ([], 0))"
  using currency_test_fail [of "trim (row_innerText r)" li]
  by (auto simp: Let_def split: prod.splits)

lemma loose_rows_records:
  "\<forall>rec \<in> set (fst (loose_rows year li rows)).
     \<exists>r \<in> set rows. trim (row_innerText r) \<noteq> [] \<and> rec = loose_record (trim (row_innerText r))
       \<and> (js_includes (trim (row_innerText r)) year \<or> has_currency (trim (row_innerText r)))"
proof (induction year li rows rule: loose_rows.induct)
  case (1 year lastIndex)
  then show ?case by simp
next
  case (2 year lastIndex r rows)
  show ?case
  proof (cases "trim (row_innerText r) = []")
    case True
    with 2(1) show ?thesis by (auto simp: Let_def)
  next
    case ne: False
    show ?thesis
    proof (cases "js_includes (trim (row_innerText r)) year")
      case True
      with ne 2(2) show ?thesis
        by (auto simp: Let_def split: prod.splits)
    next
      case False
      obtain found li1 where t: "currency_test (trim (row_innerText r)) lastIndex = (found, li1)"
        by (cases "currency_test (trim (row_innerText r)) lastIndex")
      have hc: "found \<Longrightarrow> has_currency (trim (row_innerText r))"
        using currency_test_has [of "trim (row_innerText r)" lastIndex] t by simp
      from 2(3) [OF refl ne False t [symmetric] refl]
      show ?thesis
        using ne False t hc by (auto simp: Let_def split: prod.splits)
    qed
  qed
qed

lemma loose_rows_year_rows:
  "\<forall>r \<in> set rows. trim (row_innerText r) \<noteq> [] \<and> js_includes (trim (row_innerText r)) year \<longrightarrow>
     loose_record (trim (row_innerText r)) \<in> set (fst (loose_rows year li rows))"
  by (induction year li rows rule: loose_rows.induct)
     (auto simp: Let_def split: prod.splits if_splits)

lemma loose_rows_all_year:
  "(\<forall>r \<in> set rows. trim (row_innerText r) \<noteq> [] \<longrightarrow> js_includes (trim (row_innerText r)) year) \<Longrightarrow>
     loose_rows year li rows
       = (map (\<lambda>r. loose_record (trim (row_innerText r))) (filter (\<lambda>r. trim (row_innerText r) \<noteq> []) rows), li)"
  by (induction year li rows rule: loose_rows.induct)
     (auto simp: Let_def split: prod.splits if_splits)

lemma amount_example_1: "amount_of (split_parts sep_tabs_or_2 (lit ''R$ 1.234,56'')) = JNum (Number (lit ''1234.56''))"
  by (simp add: amount_of_def amount_text_def split_parts_def sep_tabs_or_2_def trim_def
      remove_class_def isSpace_def isDigit_def lit_def)

lemma amount_example_2: "amount_of (split_parts sep_tabs_or_2 (lit ''56,00'')) = JNum (Number (lit ''56.00''))"
  by (simp add: amount_of_def amount_text_def split_parts_def sep_tabs_or_2_def trim_def
      remove_class_def isSpace_def isDigit_def lit_def)

lemma decimal_examples:
  "decimal_value (lit ''1234.56'') = Some (123456 / 100)" "decimal_value (lit ''56.00'') = Some 56"
  by (simp_all add: decimal_value_def lit_def isDigit_def digits_value_def)

lemmas eval_defs = table_records_def table_headers_def hasExpected_def
  expectedHeaders_def normalizeHeader_def lower_latin1_def currency_test_def currency_len_def
  num_comma2_len_def comma2_def isNumChar_def loose_record_def amount_of_def amount_text_def
  split_parts_def sep_tabs_or_2_def trim_def remove_class_def isSpace_def isDigit_def lit_def
  Let_def

text \<open>
  C1 (as amended). A table that passes the currency test and has no expected header is
  read by the loose row scan. The scan goes through the rows in order and a row with an
  empty trimmed text is passed over. A row whose trimmed text contains the year is
  recorded; a row whose trimmed text does not contain the year is recorded exactly when
  the call of the currency test on it succeeds. So every record is made from a row
  whose trimmed text is not empty and contains the year or a currency-shaped substring,
  and the records are in the order of the rows. The row text is split at runs of tabs
  and at runs of two or more white space characters. The amount is taken from the last
  part in which a digit is followed by a dot or a comma and two digits: \<open>R\<close>,
  \<open>$\<close>, white space and dots are removed, the first comma becomes a dot, and the
  result is given to \<open>Number\<close>. When no part has that shape the amount is
  \<open>null\<close>. So \<open>R$ 1.234,56\<close> gives \<open>Number("1234.56")\<close>, which is
  1234.56, and \<open>56,00\<close> gives \<open>Number("56.00")\<close>, which is 56. Nothing in
  the scan throws: it is a total function of the page.
\<close>

theorem loose_scan_amount:
  "(fst (currency_test (tbl_innerText t) li) \<and> \<not> hasExpected (table_headers cells_of hnorm t) \<longrightarrow>
      table_records cells_of hnorm year li t
        = loose_rows year (snd (currency_test (tbl_innerText t) li)) (tbl_tr t))
   \<and> loose_rows year li [] = ([], li)
   \<and> loose_rows year li (rows @ rows')
      = (fst (loose_rows year li rows) @ fst (loose_rows year (snd (loose_rows year li rows)) rows'),
         snd (loose_rows year (snd (loose_rows year li rows)) rows'))
   \<and> loose_rows year li [r]
      = (if trim (row_innerText r) = [] then ([], li)
         else if js_includes (trim (row_innerText r)) year then ([loose_record (trim (row_innerText r))], li)
         else if fst (currency_test (trim (row_innerText r)) li)
           then ([loose_record (trim (row_innerText r))], snd (currency_test (trim (row_innerText r)) li))
         else ([], 0))
   \<and> (\<forall>rec \<in> set (fst (loose_rows year li rows)).
        \<exists>r \<in> set rows. trim (row_innerText r) \<noteq> [] \<and> rec = loose_record (trim (row_innerText r))
          \<and> (js_includes (trim (row_innerText r)) year \<or> has_currency (trim (row_innerText r))))
   \<and> (\<forall>r \<in> set rows. trim (row_innerText r) \<noteq> [] \<and> js_includes (trim (row_innerText r)) year \<longrightarrow>
        loose_record (trim (row_innerText r)) \<in> set (fst (loose_rows year li rows)))
   \<and> ((\<forall>r \<in> set rows. trim (row_innerText r) \<noteq> [] \<longrightarrow> js_includes (trim (row_innerText r)) year) \<longrightarrow>
        loose_rows year li rows
          = (map (\<lambda>r. loose_record (trim (row_innerText r)))
               (filter (\<lambda>r. trim (row_innerText r) \<noteq> []) rows), li))
   \<and> loose_record rowText
      = JObj [(lit ''raw'', JStr rowText),
              (lit ''parts'', JArr (map JStr (split_parts sep_tabs_or_2 rowText))),
              (lit ''amount'', amount_of (split_parts sep_tabs_or_2 rowText))]
   \<and> (parts = pre @ p # post \<and> amount_shape p \<and> (\<forall>q \<in> set post. \<not> amount_shape q) \<longrightarrow>
        amount_of parts
          = JNum (Number (replace_first 44 46
                    (remove_class (\<lambda>c. c = 82 \<or> c = 36 \<or> isSpace c \<or> c = 46) p))))
   \<and> ((\<forall>q \<in> set parts. \<not> amount_shape q) \<longrightarrow> amount_of parts = JNull)
   \<and> amount_of (split_parts sep_tabs_or_2 (lit ''R$ 1.234,56'')) = JNum (Number (lit ''1234.56''))
   \<and> decimal_value (lit ''1234.56'') = Some (123456 / 100)
   \<and> amount_of (split_parts sep_tabs_or_2 (lit ''56,00'')) = JNum (Number (lit ''56.00''))
   \<and> decimal_value (lit ''56.00'') = Some 56"
proof (intro conjI impI)
  show "table_records cells_of hnorm year li t
      = loose_rows year (snd (currency_test (tbl_innerText t) li)) (tbl_tr t)"
    if "fst (currency_test (tbl_innerText t) li) \<and> \<not> hasExpected (table_headers cells_of hnorm t)"
    using that by (cases "currency_test (tbl_innerText t) li") (simp add: table_records_def Let_def)
  show "loose_rows year li [] = ([], li)"
    by simp
  show "loose_rows year li (rows @ rows')
      = (fst (loose_rows year li rows) @ fst (loose_rows year (snd (loose_rows year li rows)) rows'),
         snd (loose_rows year (snd (loose_rows year li rows)) rows'))"
    by (rule loose_rows_append)
  show "loose_rows year li [r]
      = (if trim (row_innerText r) = [] then ([], li)
         else if js_includes (trim (row_innerText r)) year then ([loose_record (trim (row_innerText r))], li)
         else if fst (currency_test (trim (row_innerText r)) li)
           then ([loose_record (trim (row_innerText r))], snd (currency_test (trim (row_innerText r)) li))
         else ([], 0))"
    by (rule loose_rows_single)
  show "\<forall>rec \<in> set (fst (loose_rows year li rows)).
        \<exists>r \<in> set rows. trim (row_innerText r) \<noteq> [] \<and> rec = loose_record (trim (row_innerText r))
          \<and> (js_includes (trim (row_innerText r)) year \<or> has_currency (trim (row_innerText r)))"
    by (rule loose_rows_records)
  show "\<forall>r \<in> set rows. trim (row_innerText r) \<noteq> [] \<and> js_includes (trim (row_innerText r)) year \<longrightarrow>
        loose_record (trim (row_innerText r)) \<in> set (fst (loose_rows year li rows))"
    by (rule loose_rows_year_rows)
  show "loose_rows year li rows
          = (map (\<lambda>r. loose_record (trim (row_innerText r)))
               (filter (\<lambda>r. trim (row_innerText r) \<noteq> []) rows), li)"
    if "\<forall>r \<in> set rows. trim (row_innerText r) \<noteq> [] \<longrightarrow> js_includes (trim (row_innerText r)) year"
    using that by (rule loose_rows_all_year)
  show "loose_record rowText
      = JObj [(lit ''raw'', JStr rowText),
              (lit ''parts'', JArr (map JStr (split_parts sep_tabs_or_2 rowText))),
              (lit ''amount'', amount_of (split_parts sep_tabs_or_2 rowText))]"
    by (simp add: loose_record_def Let_def)
  show "amount_of parts
      = JNum (Number (replace_first 44 46
                (remove_class (\<lambda>c. c = 82 \<or> c = 36 \<or> isSpace c \<or> c = 46) p)))"
    if "parts = pre @ p # post \<and> amount_shape p \<and> (\<forall>q \<in> set post. \<not> amount_shape q)"
  proof -
    from that have "find amount_shape (rev parts) = Some p"
      using find_last_match [of amount_shape p post pre] by simp
    with that show ?thesis
      by (simp add: amount_of_def amount_text_def amount_text_nonempty)
  qed
  show "amount_of parts = JNull" if "\<forall>q \<in> set parts. \<not> amount_shape q"
    using that by (simp add: amount_of_def amount_text_def find_none)
qed (simp_all add: amount_example_1 amount_example_2 decimal_examples)

theorem loose_scan_amount_witness:
  "extractDebits_puppeteer lower_latin1
      [\<lparr>tbl_innerText = lit ''2024  R$ 1.234,56'' @ [10] @ lit ''2024'' @ [9] @ lit ''sem valor'',
        tbl_th = [],
        tbl_tr = [\<lparr>row_innerText = lit ''2024  R$ 1.234,56'', row_cells = [lit ''2024'', lit ''R$ 1.234,56''],
                     row_descendants = [lit ''2024'', lit ''R$ 1.234,56'']\<rparr>,
                  \<lparr>row_innerText = lit ''2024'' @ [9] @ lit ''sem valor'', row_cells = [lit ''2024'', lit ''sem valor''],
                     row_descendants = [lit ''2024'', lit ''sem valor'']\<rparr>]\<rparr>]
      (lit ''2024'')
     = [JObj [(lit ''raw'', JStr (lit ''2024  R$ 1.234,56'')),
              (lit ''parts'', JArr [JStr (lit ''2024''), JStr (lit ''R$ 1.234,56'')]),
              (lit ''amount'', JNum (Number (lit ''1234.56'')))],
        JObj [(lit ''raw'', JStr (lit ''2024'' @ [9] @ lit ''sem valor'')),
              (lit ''parts'', JArr [JStr (lit ''2024''), JStr (lit ''sem valor'')]),
              (lit ''amount'', JNull)]]
   \<and> loose_record (lit ''2024'' @ [9] @ lit ''sem valor'')
       \<in> set (fst (loose_rows (lit ''2024'') 17
            [\<lparr>row_innerText = lit ''2024  R$ 1.234,56'', row_cells = [lit ''2024'', lit ''R$ 1.234,56''],
               row_descendants = [lit ''2024'', lit ''R$ 1.234,56'']\<rparr>,
             \<lparr>row_innerText = lit ''2024'' @ [9] @ lit ''sem valor'', row_cells = [lit ''2024'', lit ''sem valor''],
               row_descendants = [lit ''2024'', lit ''sem valor'']\<rparr>]))
   \<and> loose_rows (lit ''2024'') 0
        [\<lparr>row_innerText = lit ''R$ 56,00'', row_cells = [lit ''R$ 56,00''],
           row_descendants = [lit ''R$ 56,00'']\<rparr>]
     = ([loose_record (lit ''R$ 56,00'')], 8)"
proof -
  let ?a = "\<lparr>row_innerText = lit ''2024  R$ 1.234,56'', row_cells = [lit ''2024'', lit ''R$ 1.234,56''],
      row_descendants = [lit ''2024'', lit ''R$ 1.234,56'']\<rparr>"
  let ?b = "\<lparr>row_innerText = lit ''2024'' @ [9] @ lit ''sem valor'', row_cells = [lit ''2024'', lit ''sem valor''],
      row_descendants = [lit ''2024'', lit ''sem valor'']\<rparr>"
  let ?m = "\<lparr>row_innerText = lit ''R$ 56,00'', row_cells = [lit ''R$ 56,00''],
      row_descendants = [lit ''R$ 56,00'']\<rparr>"
  let ?t = "\<lparr>tbl_innerText = lit ''2024  R$ 1.234,56'' @ [10] @ lit ''2024'' @ [9] @ lit ''sem valor'',
      tbl_th = [], tbl_tr = [?a, ?b]\<rparr>"
  let ?hn = "\<lambda>s. normalizeHeader lower_latin1 (trim s)"
  have pass: "fst (currency_test (tbl_innerText ?t) 0) \<and> \<not> hasExpected (table_headers row_descendants ?hn ?t)"
    by (simp add: eval_defs)
  have tr: "table_records row_descendants ?hn (lit ''2024'') 0 ?t
      = loose_rows (lit ''2024'') (snd (currency_test (tbl_innerText ?t) 0)) (tbl_tr ?t)"
    using loose_scan_amount [where t = ?t and li = 0 and cells_of = row_descendants and hnorm = ?hn
        and year = "lit ''2024''"] pass by blast
  have shape: "[lit ''2024'', lit ''R$ 1.234,56''] = [lit ''2024''] @ lit ''R$ 1.234,56'' # []
      \<and> amount_shape (lit ''R$ 1.234,56'') \<and> (\<forall>q \<in> set []. \<not> amount_shape q)"
    by (simp add: lit_def isDigit_def)
  have am1: "amount_of [lit ''2024'', lit ''R$ 1.234,56'']
      = JNum (Number (replace_first 44 46
                (remove_class (\<lambda>c. c = 82 \<or> c = 36 \<or> isSpace c \<or> c = 46) (lit ''R$ 1.234,56''))))"
    using loose_scan_amount [where parts = "[lit ''2024'', lit ''R$ 1.234,56'']" and pre = "[lit ''2024'']"
        and p = "lit ''R$ 1.234,56''" and post = "[]"] shape by blast
  have "\<forall>q \<in> set [lit ''2024'', lit ''sem valor'']. \<not> amount_shape q"
    by (simp add: lit_def isDigit_def)
  then have am2: "amount_of [lit ''2024'', lit ''sem valor''] = JNull"
    using loose_scan_amount [where parts = "[lit ''2024'', lit ''sem valor'']"] by blast
  have parts: "split_parts sep_tabs_or_2 (lit ''2024  R$ 1.234,56'') = [lit ''2024'', lit ''R$ 1.234,56'']"
      "split_parts sep_tabs_or_2 (lit ''2024'' @ [9] @ lit ''sem valor'') = [lit ''2024'', lit ''sem valor'']"
    by (simp_all add: split_parts_def sep_tabs_or_2_def trim_def isSpace_def lit_def)
  have texts: "trim (row_innerText ?a) = lit ''2024  R$ 1.234,56''"
      "trim (row_innerText ?b) = lit ''2024'' @ [9] @ lit ''sem valor''"
      "trim (row_innerText ?m) = lit ''R$ 56,00''"
    by (simp_all add: trim_def isSpace_def lit_def)
  have with_year: "js_includes (lit ''2024  R$ 1.234,56'') (lit ''2024'')"
      "js_includes (lit ''2024'' @ [9] @ lit ''sem valor'') (lit ''2024'')"
      "\<not> js_includes (lit ''R$ 56,00'') (lit ''2024'')"
    by (simp_all add: lit_def)
  have nonempty: "lit ''2024  R$ 1.234,56'' \<noteq> []" "lit ''2024'' @ [9] @ lit ''sem valor'' \<noteq> []"
      "lit ''R$ 56,00'' \<noteq> []"
    by (simp_all add: lit_def)
  have every: "\<forall>r \<in> set [?a, ?b]. trim (row_innerText r) \<noteq> [] \<longrightarrow> js_includes (trim (row_innerText r)) (lit ''2024'')"
    using texts with_year by simp
  have "loose_rows (lit ''2024'') li [?a, ?b]
      = (map (\<lambda>r. loose_record (trim (row_innerText r)))
           (filter (\<lambda>r. trim (row_innerText r) \<noteq> []) [?a, ?b]), li)" for li
    using loose_scan_amount [where rows = "[?a, ?b]" and year = "lit ''2024''" and li = li] every
    by blast
  then have rows: "loose_rows (lit ''2024'') li [?a, ?b]
      = ([loose_record (lit ''2024  R$ 1.234,56''), loose_record (lit ''2024'' @ [9] @ lit ''sem valor'')], li)"
    for li
    using texts nonempty by simp
  have "extractDebits_puppeteer lower_latin1 [?t] (lit ''2024'')
      = fst (loose_rows (lit ''2024'') (snd (currency_test (tbl_innerText ?t) 0)) [?a, ?b])"
    using tr by (simp add: extractDebits_puppeteer_def split: prod.splits)
  also have "\<dots> = [loose_record (lit ''2024  R$ 1.234,56''), loose_record (lit ''2024'' @ [9] @ lit ''sem valor'')]"
    unfolding rows by simp
  finally have a: "extractDebits_puppeteer lower_latin1 [?t] (lit ''2024'')
     = [JObj [(lit ''raw'', JStr (lit ''2024  R$ 1.234,56'')),
              (lit ''parts'', JArr [JStr (lit ''2024''), JStr (lit ''R$ 1.234,56'')]),
              (lit ''amount'', JNum (Number (lit ''1234.56'')))],
        JObj [(lit ''raw'', JStr (lit ''2024'' @ [9] @ lit ''sem valor'')),
              (lit ''parts'', JArr [JStr (lit ''2024''), JStr (lit ''sem valor'')]),
              (lit ''amount'', JNull)]]"
    unfolding loose_record_def Let_def parts am1 am2
    by (simp add: remove_class_def isSpace_def lit_def)
  have "?b \<in> set [?a, ?b] \<and> trim (row_innerText ?b) \<noteq> []
      \<and> js_includes (trim (row_innerText ?b)) (lit ''2024'')"
    using texts with_year nonempty by simp
  then have "loose_record (trim (row_innerText ?b)) \<in> set (fst (loose_rows (lit ''2024'') 17 [?a, ?b]))"
    using loose_scan_amount [where rows = "[?a, ?b]" and year = "lit ''2024''" and li = 17]
    by blast
  then have b: "loose_record (lit ''2024'' @ [9] @ lit ''sem valor'')
      \<in> set (fst (loose_rows (lit ''2024'') 17 [?a, ?b]))"
    unfolding texts .
  have test: "currency_test (lit ''R$ 56,00'') 0 = (True, 8)"
    by (simp add: regex_defs lit_def)
  have "loose_rows (lit ''2024'') 0 [?m]
      = (if trim (row_innerText ?m) = [] then ([], 0)
         else if js_includes (trim (row_innerText ?m)) (lit ''2024'')
           then ([loose_record (trim (row_innerText ?m))], 0)
         else if fst (currency_test (trim (row_innerText ?m)) 0)
           then ([loose_record (trim (row_innerText ?m))], snd (currency_test (trim (row_innerText ?m)) 0))
         else ([], 0))"
    using loose_scan_amount [where r = ?m and year = "lit ''2024''" and li = 0] by blast
  then have c: "loose_rows (lit ''2024'') 0 [?m] = ([loose_record (lit ''R$ 56,00'')], 8)"
    unfolding texts using with_year nonempty test by simp
  from a b c show ?thesis
    by blast
qed

text \<open>
  As stated, C1 fails: a part with a dot and two digits and no comma, such as
  \<open>12.34\<close>, has the shape the scan looks for, and its amount is
  \<open>Number("1234")\<close>, not \<open>null\<close>.
\<close>

theorem dot_fraction_counterexample:
  "extractDebits_puppeteer lower_latin1
      [\<lparr>tbl_innerText = lit ''2024'' @ [9] @ lit ''12.34'' @ [10] @ lit ''2024'' @ [9] @ lit ''56,00'',
        tbl_th = [],
        tbl_tr = [\<lparr>row_innerText = lit ''2024'' @ [9] @ lit ''12.34'', row_cells = [lit ''2024'', lit ''12.34''],
                     row_descendants = [lit ''2024'', lit ''12.34'']\<rparr>,
                  \<lparr>row_innerText = lit ''2024'' @ [9] @ lit ''56,00'', row_cells = [lit ''2024'', lit ''56,00''],
                     row_descendants = [lit ''2024'', lit ''56,00'']\<rparr>]\<rparr>]
      (lit ''2024'')
     = [JObj [(lit ''raw'', JStr (lit ''2024'' @ [9] @ lit ''12.34'')),
              (lit ''parts'', JArr [JStr (lit ''2024''), JStr (lit ''12.34'')]),
              (lit ''amount'', JNum (Number (lit ''1234'')))],
        JObj [(lit ''raw'', JStr (lit ''2024'' @ [9] @ lit ''56,00'')),
              (lit ''parts'', JArr [JStr (lit ''2024''), JStr (lit ''56,00'')]),
              (lit ''amount'', JNum (Number (lit ''56.00'')))]]
   \<and> \<not> js_includes (lit ''2024'' @ [9] @ lit ''12.34'') (lit '','')"
  by (simp add: extractDebits_puppeteer_def eval_defs)

section \<open>Properties: the container filter\<close>

lemma wide_tables_single: "wide_tables toLowerCase year li [t] = wide_table toLowerCase year li t"
  by (simp split: prod.splits)

lemma wide_table_year:
  assumes "js_includes (tbl_innerText t) year"
  shows "wide_table toLowerCase year li t
    = (case tbl_tr t of
         [] \<Rightarrow> ([], snd (currency_test (tbl_innerText t) li))
       | first # _ \<Rightarrow>
           (case find_header_row toLowerCase 0 (take 3 (tbl_tr t)) of
              Some (headers, headerRowIndex) \<Rightarrow>
                wide_rows year headers (snd (currency_test (tbl_innerText t) li))
                  (drop (headerRowIndex + 1) (tbl_tr t))
            | None \<Rightarrow>
                wide_rows year (map (\<lambda>idx. lit ''col_'' @ decimal idx) [0..<length (row_cells first)])
                  (snd (currency_test (tbl_innerText t) li)) (tbl_tr t)))"
proof -
  obtain found li1 where t: "currency_test (tbl_innerText t) li = (found, li1)"
    by (cases "currency_test (tbl_innerText t) li")
  then have s: "snd (currency_test (tbl_innerText t) li) = li1"
    by simp
  show ?thesis
    unfolding s using assms t by (simp add: wide_table_def)
qed

lemma container_records_year:
  assumes "js_includes (container_innerText c) year"
  shows "container_records toLowerCase year li c
    = (case c of
         TableContainer t \<Rightarrow>
           wide_table toLowerCase year (snd (currency_test (container_innerText c) li)) t
       | OtherContainer txt tables rows \<Rightarrow>
           if tables = [] then non_table_rows year (snd (currency_test (container_innerText c) li)) rows
           else wide_tables toLowerCase year (snd (currency_test (container_innerText c) li)) tables)"
proof -
  obtain found li1 where t: "currency_test (container_innerText c) li = (found, li1)"
    by (cases "currency_test (container_innerText c) li")
  then have s: "snd (currency_test (container_innerText c) li) = li1"
    by simp
  show ?thesis
    unfolding s using assms t
    by (cases c) (simp_all add: container_records_def wide_tables_single)
qed

lemma row_included_year: "js_includes (row_innerText r) year \<Longrightarrow> fst (row_included year li r)"
  by (cases "currency_test (row_innerText r) li") (simp add: row_included_def)

lemma wide_rows_year_rows:
  "\<forall>r \<in> set rows. trim (row_innerText r) \<noteq> [] \<and> js_includes (row_innerText r) year \<longrightarrow>
     wide_record year headers r \<in> set (fst (wide_rows year headers li rows))"
proof (induction year headers li rows rule: wide_rows.induct)
  case (1 year headers lastIndex)
  then show ?case by simp
next
  case (2 year headers lastIndex r rows)
  show ?case
  proof (cases "trim (row_innerText r) = []")
    case True
    with 2(1) show ?thesis by simp
  next
    case ne: False
    obtain inc li where ri: "row_included year lastIndex r = (inc, li)"
      by (cases "row_included year lastIndex r")
    show ?thesis
    proof (cases inc)
      case True
      from 2(2) [OF ne ri [symmetric] refl True] ne ri True show ?thesis
        by (auto split: prod.splits)
    next
      case False
      then have "\<not> js_includes (row_innerText r) year"
        using row_included_year [of r year lastIndex] ri by auto
      with 2(3) [OF ne ri [symmetric] refl False] ne ri False show ?thesis
        by (auto split: prod.splits)
    qed
  qed
qed

lemma non_table_rows_year_rows:
  "\<forall>r \<in> set rows. trim r \<noteq> [] \<and> js_includes (trim r) year \<longrightarrow>
     non_table_record year (trim r) \<in> set (fst (non_table_rows year li rows))"
proof (induction rows arbitrary: li)
  case Nil
  then show ?case by simp
next
  case (Cons r rows)
  show ?case
    using Cons.IH [of 0] Cons.IH [of li] Cons.IH [of "snd (currency_test (trim r) li)"]
    by (auto simp: Let_def split: prod.splits if_splits)
qed

text \<open>
  C4 (as amended). The standalone Playwright scraper skips a container, and takes no
  record from it, whenever its text contains neither a currency-shaped substring nor
  the year. A container whose text contains the year always passes: a table (which is
  tested a second time, as a table) has its rows read from the row after its header
  row, or from its first row when it has no header row; a container without tables has
  its rows read; a container with tables inside has those tables examined in turn.
  Among the rows that are read, every row with a non-blank text that contains the year
  gives a record. The Puppeteer scraper and the dispatcher's Playwright scraper skip a
  table whenever its text contains no currency-shaped substring, whether or not it
  contains the year; the first table of a page that contains one is read by its headers
  or by the loose row scan.
\<close>

theorem container_filter:
  "(\<not> has_currency (container_innerText c) \<and> \<not> js_includes (container_innerText c) year \<longrightarrow>
      container_records toLowerCase year li c = ([], 0)
      \<and> extract_containers toLowerCase year li (c # page) = extract_containers toLowerCase year 0 page
      \<and> extractDebits_playwright toLowerCase (c # page) year = extractDebits_playwright toLowerCase page year)
   \<and> (js_includes (tbl_innerText t) year \<longrightarrow>
      container_records toLowerCase year li (TableContainer t)
        = (case tbl_tr t of
             [] \<Rightarrow> ([], snd (currency_test (tbl_innerText t) (snd (currency_test (tbl_innerText t) li))))
           | first # _ \<Rightarrow>
               (case find_header_row toLowerCase 0 (take 3 (tbl_tr t)) of
                  Some (headers, headerRowIndex) \<Rightarrow>
                    wide_rows year headers
                      (snd (currency_test (tbl_innerText t) (snd (currency_test (tbl_innerText t) li))))
                      (drop (headerRowIndex + 1) (tbl_tr t))
                | None \<Rightarrow>
                    wide_rows year (map (\<lambda>idx. lit ''col_'' @ decimal idx) [0..<length (row_cells first)])
                      (snd (currency_test (tbl_innerText t) (snd (currency_test (tbl_innerText t) li))))
                      (tbl_tr t))))
   \<and> (js_includes ctext year \<longrightarrow>
      container_records toLowerCase year li (OtherContainer ctext [] texts)
        = non_table_rows year (snd (currency_test ctext li)) texts)
   \<and> (js_includes ctext year \<and> tables \<noteq> [] \<longrightarrow>
      container_records toLowerCase year li (OtherContainer ctext tables texts)
        = wide_tables toLowerCase year (snd (currency_test ctext li)) tables)
   \<and> (\<forall>r \<in> set rows. trim (row_innerText r) \<noteq> [] \<and> js_includes (row_innerText r) year \<longrightarrow>
        wide_record year headers r \<in> set (fst (wide_rows year headers li rows)))
   \<and> (\<forall>r \<in> set texts. trim r \<noteq> [] \<and> js_includes (trim r) year \<longrightarrow>
        non_table_record year (trim r) \<in> set (fst (non_table_rows year li texts)))
   \<and> (\<not> has_currency (tbl_innerText t) \<longrightarrow>
      table_records cells_of hnorm year li t = ([], 0)
      \<and> extract_tables cells_of hnorm year li (t # tables) = extract_tables cells_of hnorm year 0 tables
      \<and> extractDebits_puppeteer toLowerCase (t # tables) year = extractDebits_puppeteer toLowerCase tables year
      \<and> extractDebits_bundled toLowerCase (t # tables) year = extractDebits_bundled toLowerCase tables year)
   \<and> (has_currency (tbl_innerText t) \<longrightarrow>
      table_records cells_of hnorm year 0 t
        = (if hasExpected (table_headers cells_of hnorm t)
           then (map (mapped_record cells_of (map mapKey (table_headers cells_of hnorm t))) (drop 1 (tbl_tr t)),
                 snd (currency_test (tbl_innerText t) 0))
           else loose_rows year (snd (currency_test (tbl_innerText t) 0)) (tbl_tr t)))"
proof (intro conjI impI)
  assume h: "\<not> has_currency (container_innerText c) \<and> \<not> js_includes (container_innerText c) year"
  then have "currency_test (container_innerText c) li = (False, 0)"
    by (simp add: currency_test_none)
  with h show r: "container_records toLowerCase year li c = ([], 0)"
    by (simp add: container_records_def)
  then show "extract_containers toLowerCase year li (c # page) = extract_containers toLowerCase year 0 page"
    by simp
  from h have "currency_test (container_innerText c) 0 = (False, 0)"
    by (simp add: currency_test_none)
  with h have "container_records toLowerCase year 0 c = ([], 0)"
    by (simp add: container_records_def)
  then show "extractDebits_playwright toLowerCase (c # page) year = extractDebits_playwright toLowerCase page year"
    by (simp add: extractDebits_playwright_def)
next
  assume h: "js_includes (tbl_innerText t) year"
  then have "js_includes (container_innerText (TableContainer t)) year"
    by (simp add: container_innerText_def)
  from container_records_year [OF this]
  have "container_records toLowerCase year li (TableContainer t)
      = wide_table toLowerCase year (snd (currency_test (tbl_innerText t) li)) t"
    by (simp add: container_innerText_def)
  then show "container_records toLowerCase year li (TableContainer t)
        = (case tbl_tr t of
             [] \<Rightarrow> ([], snd (currency_test (tbl_innerText t) (snd (currency_test (tbl_innerText t) li))))
           | first # _ \<Rightarrow>
               (case find_header_row toLowerCase 0 (take 3 (tbl_tr t)) of
                  Some (headers, headerRowIndex) \<Rightarrow>
                    wide_rows year headers
                      (snd (currency_test (tbl_innerText t) (snd (currency_test (tbl_innerText t) li))))
                      (drop (headerRowIndex + 1) (tbl_tr t))
                | None \<Rightarrow>
                    wide_rows year (map (\<lambda>idx. lit ''col_'' @ decimal idx) [0..<length (row_cells first)])
                      (snd (currency_test (tbl_innerText t) (snd (currency_test (tbl_innerText t) li))))
                      (tbl_tr t)))"
    by (simp only: wide_table_year [OF h])
next
  assume h: "js_includes ctext year"
  then have "js_includes (container_innerText (OtherContainer ctext [] texts)) year"
    by (simp add: container_innerText_def)
  from container_records_year [OF this]
  show "container_records toLowerCase year li (OtherContainer ctext [] texts)
        = non_table_rows year (snd (currency_test ctext li)) texts"
    by (simp add: container_innerText_def)
next
  assume h: "js_includes ctext year \<and> tables \<noteq> []"
  then have "js_includes (container_innerText (OtherContainer ctext tables texts)) year"
    by (simp add: container_innerText_def)
  from container_records_year [OF this] h
  show "container_records toLowerCase year li (OtherContainer ctext tables texts)
        = wide_tables toLowerCase year (snd (currency_test ctext li)) tables"
    by (simp add: container_innerText_def)
next
  show "\<forall>r \<in> set rows. trim (row_innerText r) \<noteq> [] \<and> js_includes (row_innerText r) year \<longrightarrow>
        wide_record year headers r \<in> set (fst (wide_rows year headers li rows))"
    by (rule wide_rows_year_rows)
  show "\<forall>r \<in> set texts. trim r \<noteq> [] \<and> js_includes (trim r) year \<longrightarrow>
        non_table_record year (trim r) \<in> set (fst (non_table_rows year li texts))"
    by (rule non_table_rows_year_rows)
next
  assume h: "\<not> has_currency (tbl_innerText t)"
  then have none: "currency_test (tbl_innerText t) k = (False, 0)" for k
    by (simp add: currency_test_none)
  then show r: "table_records cells_of hnorm year li t = ([], 0)"
    by (simp add: table_records_def)
  then show "extract_tables cells_of hnorm year li (t # tables) = extract_tables cells_of hnorm year 0 tables"
    by simp
  have "\<And>cells_of hnorm. table_records cells_of hnorm year 0 t = ([], 0)"
    using none by (simp add: table_records_def)
  then show "extractDebits_puppeteer toLowerCase (t # tables) year = extractDebits_puppeteer toLowerCase tables year"
    and "extractDebits_bundled toLowerCase (t # tables) year = extractDebits_bundled toLowerCase tables year"
    by (simp_all add: extractDebits_puppeteer_def extractDebits_bundled_def)
next
  assume h: "has_currency (tbl_innerText t)"
  obtain found li where t: "currency_test (tbl_innerText t) 0 = (found, li)"
    by (cases "currency_test (tbl_innerText t) 0")
  with h have found using currency_test_fresh [of "tbl_innerText t"] by simp
  with t show "table_records cells_of hnorm year 0 t
        = (if hasExpected (table_headers cells_of hnorm t)
           then (map (mapped_record cells_of (map mapKey (table_headers cells_of hnorm t))) (drop 1 (tbl_tr t)),
                 snd (currency_test (tbl_innerText t) 0))
           else loose_rows year (snd (currency_test (tbl_innerText t) 0)) (tbl_tr t))"
    by (auto simp: table_records_def Let_def hasExpected_def)
qed

theorem container_filter_witness:
  "container_records lower_latin1 (lit ''2024'') 5 (OtherContainer (lit ''Sem dados'') [] [lit ''Sem dados'']) = ([], 0)
   \<and> container_records lower_latin1 (lit ''2024'') 0
        (TableContainer
          \<lparr>tbl_innerText = lit ''Ano 2024'', tbl_th = [],
           tbl_tr = [\<lparr>row_innerText = lit ''Ano 2024'', row_cells = [lit ''Ano 2024''],
                        row_descendants = [lit ''Ano 2024'']\<rparr>]\<rparr>)
     = ([JObj [(lit ''year'', JStr (lit ''2024'')), (lit ''source'', JStr (lit ''table'')),
               (lit ''col_0'', JStr (lit ''Ano 2024'')), (lit ''currencies'', JArr []),
               (lit ''raw'', JStr (lit ''Ano 2024''))]], 0)
   \<and> container_records lower_latin1 (lit ''2024'') 0
        (OtherContainer (lit ''Ano 2024'') [] [lit ''Ano 2024''])
     = non_table_rows (lit ''2024'') 0 [lit ''Ano 2024'']
   \<and> non_table_record (lit ''2024'') (lit ''Ano 2024'')
       \<in> set (fst (non_table_rows (lit ''2024'') 0 [lit ''Ano 2024'']))
   \<and> table_records row_cells (normalizeHeader lower_latin1) (lit ''2024'') 5
        \<lparr>tbl_innerText = lit ''Ano 2024'', tbl_th = [],
         tbl_tr = [\<lparr>row_innerText = lit ''Ano 2024'', row_cells = [lit ''Ano 2024''],
                      row_descendants = [lit ''Ano 2024'']\<rparr>]\<rparr>
     = ([], 0)
   \<and> table_records row_cells (normalizeHeader lower_latin1) (lit ''2024'') 0
        \<lparr>tbl_innerText = lit ''R$ 56,00'', tbl_th = [],
         tbl_tr = [\<lparr>row_innerText = lit ''R$ 56,00'', row_cells = [lit ''R$ 56,00''],
                      row_descendants = [lit ''R$ 56,00'']\<rparr>]\<rparr>
     = loose_rows (lit ''2024'') 8
         [\<lparr>row_innerText = lit ''R$ 56,00'', row_cells = [lit ''R$ 56,00''],
            row_descendants = [lit ''R$ 56,00'']\<rparr>]"
proof -
  let ?none = "OtherContainer (lit ''Sem dados'') [] [lit ''Sem dados'']"
  let ?yr = "OtherContainer (lit ''Ano 2024'') [] [lit ''Ano 2024'']"
  let ?r = "\<lparr>row_innerText = lit ''Ano 2024'', row_cells = [lit ''Ano 2024''],
      row_descendants = [lit ''Ano 2024'']\<rparr>"
  let ?t = "\<lparr>tbl_innerText = lit ''Ano 2024'', tbl_th = [], tbl_tr = [?r]\<rparr>"
  let ?m = "\<lparr>row_innerText = lit ''R$ 56,00'', row_cells = [lit ''R$ 56,00''],
      row_descendants = [lit ''R$ 56,00'']\<rparr>"
  let ?u = "\<lparr>tbl_innerText = lit ''R$ 56,00'', tbl_th = [], tbl_tr = [?m]\<rparr>"
  have h1: "\<not> has_currency (container_innerText ?none) \<and> \<not> js_includes (container_innerText ?none) (lit ''2024'')"
    by (simp add: has_currency_def container_innerText_def regex_defs lit_def)
  have yr: "js_includes (lit ''Ano 2024'') (lit ''2024'')"
    by (simp add: lit_def)
  have li2: "snd (currency_test (lit ''Ano 2024'') 0) = 0"
    by (simp add: regex_defs lit_def)
  have h3: "\<not> has_currency (tbl_innerText ?t)"
    by (simp add: has_currency_def regex_defs lit_def)
  have h4: "has_currency (tbl_innerText ?u)"
    by (simp add: has_currency_def regex_defs lit_def)
  have li4: "snd (currency_test (tbl_innerText ?u) 0) = 8"
    by (simp add: regex_defs lit_def)
  have nh: "\<not> hasExpected (table_headers row_cells (normalizeHeader lower_latin1) ?u)"
    by (simp add: hasExpected_def table_headers_def expectedHeaders_def normalizeHeader_def
        lower_latin1_def trim_def isSpace_def lit_def)
  have a: "container_records lower_latin1 (lit ''2024'') 5 ?none = ([], 0)"
    using container_filter [where c = ?none and year = "lit ''2024''" and toLowerCase = lower_latin1
        and li = 5] h1
    by blast
  have no_header: "find_header_row lower_latin1 0 (take 3 (tbl_tr ?t)) = None"
    by (simp add: expectedHeaders_wide_def normalizeHeader_def lower_latin1_def trim_def
        isSpace_def lit_def)
  have col: "lit ''col_'' @ decimal 0 = lit ''col_0''"
    by (simp add: decimal.simps lit_def)
  have "js_includes (tbl_innerText ?t) (lit ''2024'')"
    using yr by simp
  then have "container_records lower_latin1 (lit ''2024'') 0 (TableContainer ?t)
      = (case tbl_tr ?t of
           [] \<Rightarrow> ([], snd (currency_test (tbl_innerText ?t) (snd (currency_test (tbl_innerText ?t) 0))))
         | first # _ \<Rightarrow>
             (case find_header_row lower_latin1 0 (take 3 (tbl_tr ?t)) of
                Some (headers, headerRowIndex) \<Rightarrow>
                  wide_rows (lit ''2024'') headers
                    (snd (currency_test (tbl_innerText ?t) (snd (currency_test (tbl_innerText ?t) 0))))
                    (drop (headerRowIndex + 1) (tbl_tr ?t))
              | None \<Rightarrow>
                  wide_rows (lit ''2024'') (map (\<lambda>idx. lit ''col_'' @ decimal idx) [0..<length (row_cells first)])
                    (snd (currency_test (tbl_innerText ?t) (snd (currency_test (tbl_innerText ?t) 0))))
                    (tbl_tr ?t)))"
    using container_filter [where t = ?t and year = "lit ''2024''" and toLowerCase = lower_latin1
        and li = 0]
    by blast
  then have "container_records lower_latin1 (lit ''2024'') 0 (TableContainer ?t)
      = wide_rows (lit ''2024'') [lit ''col_0''] 0 [?r]"
    unfolding no_header by (simp add: li2 col del: wide_rows.simps)
  also have "\<dots> = ([JObj [(lit ''year'', JStr (lit ''2024'')), (lit ''source'', JStr (lit ''table'')),
               (lit ''col_0'', JStr (lit ''Ano 2024'')), (lit ''currencies'', JArr []),
               (lit ''raw'', JStr (lit ''Ano 2024''))]], 0)"
    by (simp add: wide_defs regex_defs lit_def)
  finally have b: "container_records lower_latin1 (lit ''2024'') 0 (TableContainer ?t)
      = ([JObj [(lit ''year'', JStr (lit ''2024'')), (lit ''source'', JStr (lit ''table'')),
               (lit ''col_0'', JStr (lit ''Ano 2024'')), (lit ''currencies'', JArr []),
               (lit ''raw'', JStr (lit ''Ano 2024''))]], 0)" .
  have "container_records lower_latin1 (lit ''2024'') 0 ?yr
      = non_table_rows (lit ''2024'') (snd (currency_test (lit ''Ano 2024'') 0)) [lit ''Ano 2024'']"
    using container_filter [where ctext = "lit ''Ano 2024''" and year = "lit ''2024''"
        and toLowerCase = lower_latin1 and li = 0 and texts = "[lit ''Ano 2024'']"] yr
    by blast
  then have c: "container_records lower_latin1 (lit ''2024'') 0 ?yr
      = non_table_rows (lit ''2024'') 0 [lit ''Ano 2024'']"
    unfolding li2 .
  have tr: "trim (lit ''Ano 2024'') = lit ''Ano 2024''"
    by (simp add: trim_def isSpace_def lit_def)
  have "lit ''Ano 2024'' \<in> set [lit ''Ano 2024'']
      \<and> trim (lit ''Ano 2024'') \<noteq> [] \<and> js_includes (trim (lit ''Ano 2024'')) (lit ''2024'')"
    unfolding tr using yr by (simp add: lit_def)
  then have "non_table_record (lit ''2024'') (trim (lit ''Ano 2024''))
      \<in> set (fst (non_table_rows (lit ''2024'') 0 [lit ''Ano 2024'']))"
    using container_filter [where texts = "[lit ''Ano 2024'']" and year = "lit ''2024''" and li = 0]
    by blast
  then have d: "non_table_record (lit ''2024'') (lit ''Ano 2024'')
      \<in> set (fst (non_table_rows (lit ''2024'') 0 [lit ''Ano 2024'']))"
    unfolding tr .
  have e: "table_records row_cells (normalizeHeader lower_latin1) (lit ''2024'') 5 ?t = ([], 0)"
    using container_filter [where t = ?t and year = "lit ''2024''" and cells_of = row_cells
        and hnorm = "normalizeHeader lower_latin1" and li = 5] h3
    by blast
  have "table_records row_cells (normalizeHeader lower_latin1) (lit ''2024'') 0 ?u
      = (if hasExpected (table_headers row_cells (normalizeHeader lower_latin1) ?u)
         then (map (mapped_record row_cells (map mapKey (table_headers row_cells (normalizeHeader lower_latin1) ?u)))
                 (drop 1 (tbl_tr ?u)),
               snd (currency_test (tbl_innerText ?u) 0))
         else loose_rows (lit ''2024'') (snd (currency_test (tbl_innerText ?u) 0)) (tbl_tr ?u))"
    using container_filter [where t = ?u and year = "lit ''2024''" and cells_of = row_cells
        and hnorm = "normalizeHeader lower_latin1"] h4
    by blast
  then have f: "table_records row_cells (normalizeHeader lower_latin1) (lit ''2024'') 0 ?u
      = loose_rows (lit ''2024'') 8 [?m]"
    unfolding li4 using nh by simp
  from a b c d e f show ?thesis
    by blast
qed

text \<open>
  As stated, C4 fails. In the Puppeteer scraper and in the dispatcher's Playwright
  scraper a table whose text contains the year and no currency-shaped substring is
  skipped. In the standalone Playwright scraper a table whose text is a single amount
  passes the test as a container and fails the same test as a table, which resumes
  after the amount: no record is taken from it.
\<close>

theorem year_only_table_counterexample:
  "js_includes (lit ''Ano 2024'') (lit ''2024'')
   \<and> extractDebits_puppeteer lower_latin1
        [\<lparr>tbl_innerText = lit ''Ano 2024'', tbl_th = [],
          tbl_tr = [\<lparr>row_innerText = lit ''Ano 2024'', row_cells = [lit ''Ano 2024''],
                       row_descendants = [lit ''Ano 2024'']\<rparr>]\<rparr>] (lit ''2024'')
     = []
   \<and> extractDebits_bundled lower_latin1
        [\<lparr>tbl_innerText = lit ''Ano 2024'', tbl_th = [],
          tbl_tr = [\<lparr>row_innerText = lit ''Ano 2024'', row_cells = [lit ''Ano 2024''],
                       row_descendants = [lit ''Ano 2024'']\<rparr>]\<rparr>] (lit ''2024'')
     = []
   \<and> has_currency (lit ''R$ 56,00'')
   \<and> extractDebits_playwright lower_latin1
        [TableContainer
          \<lparr>tbl_innerText = lit ''R$ 56,00'', tbl_th = [],
           tbl_tr = [\<lparr>row_innerText = lit ''R$ 56,00'', row_cells = [lit ''R$ 56,00''],
                        row_descendants = [lit ''R$ 56,00'']\<rparr>]\<rparr>] (lit ''2024'')
     = []"
  by (simp add: extractDebits_puppeteer_def extractDebits_bundled_def table_records_def
      extractDebits_playwright_def container_records_def container_innerText_def wide_table_def
      has_currency_def regex_defs lit_def)

section \<open>Properties: header mapping\<close>




lemma obj_set_plain:
  assumes "\<not> is_index_key k"
  shows "obj_set k v props = AList.update k v props"
proof (cases "k \<in> fst ` set props")
  case True
  then show ?thesis by (simp add: obj_set_def)
next
  case False
  then have "AList.update k v props = props @ [(k, v)]"
    by (induction props) auto
  with False assms show ?thesis
    by (simp add: obj_set_def)
qed














end
